(* ===== verification/Prelude.thy ===== *)
theory Prelude
  imports Main
begin

text \<open>
  Shared vocabulary of the development: the collections of facts the component
  proofs are carried by, the list operations the TypeScript code uses through
  its standard library (membership by \<open>includes\<close>, de-duplication by
  \<open>new Set\<close>, \<open>filter\<close>, \<open>shift\<close>), and their lemmas. Nothing here models
  code of the repository; it models what the code calls.
\<close>

named_theorems queue_simps "equations of the offline submission queue"
named_theorems feed_simps "equations of the notification reconciliation engine"

subsection \<open>Lists as the code uses them\<close>

text \<open>
  \<open>[...new Set(xs)]\<close> keeps the first occurrence of each element, in the order of
  first occurrence (HOL's \<open>remdups\<close> keeps the last one).
\<close>

fun dedup_acc :: "'a list \<Rightarrow> 'a list \<Rightarrow> 'a list" where
  "dedup_acc seen [] = []"
| "dedup_acc seen (x # xs) =
     (if x \<in> set seen then dedup_acc seen xs else x # dedup_acc (x # seen) xs)"

definition js_set_dedup :: "'a list \<Rightarrow> 'a list" where
  "js_set_dedup xs = dedup_acc [] xs"

lemma set_dedup_acc [simp]: "set (dedup_acc seen xs) = set xs - set seen"
  by (induction seen xs rule: dedup_acc.induct) auto

lemma distinct_dedup_acc [simp]: "distinct (dedup_acc seen xs)"
  by (induction seen xs rule: dedup_acc.induct) auto

lemma dedup_acc_distinct_id:
  "distinct xs \<Longrightarrow> set xs \<inter> set seen = {} \<Longrightarrow> dedup_acc seen xs = xs"
  by (induction seen xs rule: dedup_acc.induct) auto

lemma set_js_set_dedup [simp]: "set (js_set_dedup xs) = set xs"
  by (simp add: js_set_dedup_def)

lemma distinct_js_set_dedup [simp]: "distinct (js_set_dedup xs)"
  by (simp add: js_set_dedup_def)

lemma js_set_dedup_distinct_id: "distinct xs \<Longrightarrow> js_set_dedup xs = xs"
  by (simp add: js_set_dedup_def dedup_acc_distinct_id)

text \<open>Prefix/suffix facts for a queue drained from its head.\<close>

lemma drop_suffix_append: "drop n xs = ys \<Longrightarrow> take n xs @ ys = xs"
  by auto

lemma set_drop_take_union: "set xs = set (take n xs) \<union> set (drop n xs)"
  by (metis append_take_drop_id set_append)

subsection \<open>Characters and strings as JavaScript treats them\<close>

text \<open>
  The code's case conversions (\<open>toLowerCase\<close>, \<open>toUpperCase\<close>) and its
  whitespace class \<open>\s\<close> are modelled on the ASCII range, which is the range of
  the identifiers, roles and flags they are applied to.
\<close>

definition is_upper :: "char \<Rightarrow> bool" where
  "is_upper c \<longleftrightarrow> (let n = (of_char c :: nat) in 65 \<le> n \<and> n \<le> 90)"

definition is_lower :: "char \<Rightarrow> bool" where
  "is_lower c \<longleftrightarrow> (let n = (of_char c :: nat) in 97 \<le> n \<and> n \<le> 122)"

definition is_digit :: "char \<Rightarrow> bool" where
  "is_digit c \<longleftrightarrow> (let n = (of_char c :: nat) in 48 \<le> n \<and> n \<le> 57)"

definition is_space :: "char \<Rightarrow> bool" where
  "is_space c \<longleftrightarrow> (let n = (of_char c :: nat) in n = 32 \<or> (9 \<le> n \<and> n \<le> 13))"

definition char_lower :: "char \<Rightarrow> char" where
  "char_lower c = (if is_upper c then char_of (of_char c + (32::nat)) else c)"

definition char_upper :: "char \<Rightarrow> char" where
  "char_upper c = (if is_lower c then char_of (of_char c - (32::nat)) else c)"

definition to_lower :: "string \<Rightarrow> string" where
  "to_lower s = map char_lower s"

definition to_upper :: "string \<Rightarrow> string" where
  "to_upper s = map char_upper s"

text \<open>\<open>s.trim()\<close>: whitespace removed at both ends.\<close>

definition trim :: "string \<Rightarrow> string" where
  "trim s = rev (dropWhile is_space (rev (dropWhile is_space s)))"

text \<open>\<open>s.replace(/\s/g, '')\<close>: every whitespace character removed.\<close>

definition strip_ws :: "string \<Rightarrow> string" where
  "strip_ws s = filter (\<lambda>c. \<not> is_space c) s"

text \<open>Evaluating the conversions on literal strings.\<close>

lemmas string_eval = to_lower_def to_upper_def char_lower_def char_upper_def is_upper_def
  is_lower_def is_space_def trim_def strip_ws_def char_of_def bit_simps Let_def

lemma char_lower_not_upper: "\<not> is_upper (char_lower c)"
  by (auto simp: char_lower_def is_upper_def Let_def)

lemma char_lower_idem [simp]: "char_lower (char_lower c) = char_lower c"
  using char_lower_not_upper [of c] by (simp add: char_lower_def [of "char_lower c"])

lemma to_lower_idem [simp]: "to_lower (to_lower s) = to_lower s"
  by (simp add: to_lower_def)

lemma strip_ws_idem [simp]: "strip_ws (strip_ws s) = strip_ws s"
  by (simp add: strip_ws_def)

lemma strip_ws_append [simp]: "strip_ws (a @ b) = strip_ws a @ strip_ws b"
  by (simp add: strip_ws_def)

text \<open>\<open>hay.includes(needle)\<close> on strings: a contiguous occurrence.\<close>

fun has_infix :: "'a list \<Rightarrow> 'a list \<Rightarrow> bool" where
  "has_infix n [] = (n = [])"
| "has_infix n (h # hs) = (take (length n) (h # hs) = n \<or> has_infix n hs)"

lemma has_infix_Nil [simp]: "has_infix [] r"
  by (cases r) simp_all

lemma has_infix_append_left: "has_infix n (n @ r)"
  by (cases n) simp_all

text \<open>\<open>for (let i = n; i < data.length; i++) if (P(data[i])) return i\<close> over the
  rows from index \<open>n\<close>: \<open>index_from P n (drop n data)\<close>.\<close>

fun index_from :: "('a \<Rightarrow> bool) \<Rightarrow> nat \<Rightarrow> 'a list \<Rightarrow> nat option" where
  "index_from P n [] = None"
| "index_from P n (x # xs) = (if P x then Some n else index_from P (Suc n) xs)"

lemma index_from_Some:
  "index_from P n xs = Some i \<Longrightarrow>
   n \<le> i \<and> i < n + length xs \<and> P (xs ! (i - n)) \<and> (\<forall>j < i - n. \<not> P (xs ! j))"
proof (induction xs arbitrary: n)
  case Nil
  then show ?case by simp
next
  case (Cons x xs)
  show ?case
  proof (cases "P x")
    case True
    with Cons.prems show ?thesis by simp
  next
    case False
    with Cons.prems have "index_from P (Suc n) xs = Some i" by simp
    from Cons.IH [OF this] False show ?thesis
      by (auto simp: less_Suc_eq_0_disj nth_Cons' Suc_diff_Suc)
  qed
qed

lemma index_from_None: "index_from P n xs = None \<longleftrightarrow> (\<forall>x \<in> set xs. \<not> P x)"
  by (induction xs arbitrary: n) auto

lemma index_from_snoc:
  "list_all (\<lambda>y. \<not> P y) xs \<Longrightarrow> P x \<Longrightarrow> index_from P n (xs @ [x]) = Some (n + length xs)"
  by (induction xs arbitrary: n) auto

lemma one_minus_length [simp]: "xs \<noteq> [] \<Longrightarrow> Suc 0 - length xs = 0"
  by (cases xs) simp_all

text \<open>Case conversion does not touch white space; trimming is idempotent.\<close>

lemma is_space_char_lower [simp]: "is_space (char_lower c) = is_space c"
proof (cases "is_upper c")
  case True
  then have "65 \<le> (of_char c :: nat) \<and> (of_char c :: nat) \<le> 90"
    by (simp add: is_upper_def Let_def)
  then show ?thesis
    by (simp add: char_lower_def is_space_def Let_def True)
next
  case False
  then show ?thesis by (simp add: char_lower_def)
qed

lemma trim_to_lower: "trim (to_lower s) = to_lower (trim s)"
  by (simp add: trim_def to_lower_def dropWhile_map rev_map comp_def)

lemma dropWhile_idem [simp]: "dropWhile P (dropWhile P xs) = dropWhile P xs"
  by (induction xs) auto

lemma trim_shape:
  "rev (dropWhile P (rev (dropWhile P (rev (dropWhile P (rev (dropWhile P xs)))))))
   = rev (dropWhile P (rev (dropWhile P xs)))"
proof -
  define ys where "ys = dropWhile P xs"
  define zs where "zs = rev (dropWhile P (rev ys))"
  have split: "ys = zs @ rev (takeWhile P (rev ys))"
    using takeWhile_dropWhile_id [of P "rev ys"] unfolding zs_def
    by (metis rev_append rev_rev_ident)
  have zs: "dropWhile P zs = zs"
  proof (cases zs)
    case Nil
    then show ?thesis by simp
  next
    case (Cons z zs')
    with split have "ys \<noteq> [] \<and> hd ys = z" by (metis append_Cons list.distinct(1) list.sel(1))
    then have "\<not> P z" unfolding ys_def using hd_dropWhile by metis
    with Cons show ?thesis by simp
  qed
  have "rev (dropWhile P (rev zs)) = zs"
    by (simp add: zs_def)
  with zs show ?thesis by (simp add: zs_def [symmetric] ys_def [symmetric])
qed

lemma trim_idem [simp]: "trim (trim s) = trim s"
  unfolding trim_def by (rule trim_shape)

text \<open>Decimal rendering of numbers, as a template literal \<open>${n}\<close> prints them.\<close>

fun decimal_nat :: "nat \<Rightarrow> string" where
  "decimal_nat n =
     (if n < 10 then [char_of (48 + n)] else decimal_nat (n div 10) @ [char_of (48 + n mod 10)])"

declare decimal_nat.simps [simp del]

definition decimal_int :: "int \<Rightarrow> string" where
  "decimal_int i = (if i < 0 then CHR ''-'' # decimal_nat (nat (- i)) else decimal_nat (nat i))"

lemma decimal_nat_nonempty: "decimal_nat n \<noteq> []"
  by (subst decimal_nat.simps) simp

lemma decimal_nat_digits: "\<forall>c \<in> set (decimal_nat n). is_digit c"
proof (induction n rule: decimal_nat.induct)
  case (1 n)
  then show ?case
    by (subst decimal_nat.simps) (auto simp: is_digit_def)
qed

lemma decimal_nat_no_space: "\<forall>c \<in> set (decimal_nat n). \<not> is_space c"
  using decimal_nat_digits by (fastforce simp: is_digit_def is_space_def Let_def)

end
