(* ===== verification/Js_Values.thy ===== *)
theory Js_Values
  imports Prelude
begin

text \<open>
  The values the client reads from and writes to the spreadsheet backend, and the
  JavaScript conversions the code applies to them (\<open>String(v)\<close>, \<open>Number(v)\<close>,
  truthiness, \<open>new Date(v).getTime()\<close>). A cell of a fetched row is a string, a
  number or a boolean (what the spreadsheet returns); reading past the end of a row
  gives \<open>undefined\<close>, and form fields may hold \<open>null\<close>. Numbers are modelled as
  integers: the fields the modelled code compares numerically (ratings, epoch
  milliseconds) are integral.
\<close>

datatype cell = Str string | Num int | Bool bool | Null | Undef

text \<open>\<open>row[i]\<close>: \<open>undefined\<close> past the end of the array.\<close>

definition row_get :: "cell list \<Rightarrow> nat \<Rightarrow> cell" where
  "row_get row i = (if i < length row then row ! i else Undef)"

lemma row_get_nth [simp]: "i < length row \<Longrightarrow> row_get row i = row ! i"
  by (simp add: row_get_def)

lemma row_get_beyond [simp]: "length row \<le> i \<Longrightarrow> row_get row i = Undef"
  by (simp add: row_get_def)

primrec js_String :: "cell \<Rightarrow> string" where
  "js_String (Str s) = s"
| "js_String (Num n) = decimal_int n"
| "js_String (Bool b) = (if b then ''true'' else ''false'')"
| "js_String Null = ''null''"
| "js_String Undef = ''undefined''"

primrec js_truthy :: "cell \<Rightarrow> bool" where
  "js_truthy (Str s) = (s \<noteq> [])"
| "js_truthy (Num n) = (n \<noteq> 0)"
| "js_truthy (Bool b) = b"
| "js_truthy Null = False"
| "js_truthy Undef = False"

text \<open>\<open>v || d\<close>.\<close>

definition js_or :: "cell \<Rightarrow> cell \<Rightarrow> cell" where
  "js_or v d = (if js_truthy v then v else d)"

subsection \<open>Number()\<close>

datatype jsnum = Fin int | NaN

text \<open>
  \<open>Number(s)\<close> on a string: surrounding whitespace is ignored, the empty string is
  0, an optionally signed run of decimal digits is its value; any other string is
  \<open>NaN\<close> here (JavaScript also reads fractions, exponents, hexadecimal and
  \<open>Infinity\<close>, which no modelled comparison depends on).
\<close>

fun digits_value :: "int \<Rightarrow> string \<Rightarrow> int option" where
  "digits_value acc [] = Some acc"
| "digits_value acc (c # cs) =
     (if is_digit c then digits_value (10 * acc + int (of_char c - 48)) cs else None)"

definition parse_decimal :: "string \<Rightarrow> jsnum" where
  "parse_decimal s =
     (let t = trim s in
      if t = [] then Fin 0
      else (case t of
              c # cs \<Rightarrow>
                if c = CHR ''-'' \<and> cs \<noteq> [] then
                  (case digits_value 0 cs of Some v \<Rightarrow> Fin (- v) | None \<Rightarrow> NaN)
                else if c = CHR ''+'' \<and> cs \<noteq> [] then
                  (case digits_value 0 cs of Some v \<Rightarrow> Fin v | None \<Rightarrow> NaN)
                else (case digits_value 0 t of Some v \<Rightarrow> Fin v | None \<Rightarrow> NaN)))"

primrec js_Number :: "cell \<Rightarrow> jsnum" where
  "js_Number (Str s) = parse_decimal s"
| "js_Number (Num n) = Fin n"
| "js_Number (Bool b) = Fin (if b then 1 else 0)"
| "js_Number Null = Fin 0"
| "js_Number Undef = NaN"

text \<open>Comparisons with a number literal are false on \<open>NaN\<close>.\<close>

primrec js_le :: "jsnum \<Rightarrow> int \<Rightarrow> bool" where
  "js_le (Fin a) b = (a \<le> b)"
| "js_le NaN b = False"

primrec js_eq :: "jsnum \<Rightarrow> int \<Rightarrow> bool" where
  "js_eq (Fin a) b = (a = b)"
| "js_eq NaN b = False"

primrec js_ge :: "jsnum \<Rightarrow> int \<Rightarrow> bool" where
  "js_ge (Fin a) b = (b \<le> a)"
| "js_ge NaN b = False"

text \<open>\<open>${n}\<close> of a number that may be \<open>NaN\<close>.\<close>

primrec jsnum_string :: "jsnum \<Rightarrow> string" where
  "jsnum_string (Fin n) = decimal_int n"
| "jsnum_string NaN = ''NaN''"

subsection \<open>Dates\<close>

text \<open>
  \<open>new Date(v).getTime()\<close>: a number is already epoch milliseconds, \<open>null\<close> is
  0, a boolean is 0 or 1, \<open>undefined\<close> is \<open>NaN\<close>; a string is parsed by the
  platform's date parser, which the model takes as a parameter \<open>parse\<close>
  (\<open>None\<close> for an unparseable string, read as \<open>NaN\<close>).
\<close>

type_synonym date_parser = "string \<Rightarrow> int option"

primrec date_ms :: "date_parser \<Rightarrow> cell \<Rightarrow> jsnum" where
  "date_ms parse (Str s) = (case parse s of Some t \<Rightarrow> Fin t | None \<Rightarrow> NaN)"
| "date_ms parse (Num n) = Fin n"
| "date_ms parse (Bool b) = Fin (if b then 1 else 0)"
| "date_ms parse Null = Fin 0"
| "date_ms parse Undef = NaN"

end
