(* ===== verification/Session.thy ===== *)
theory Session
  imports Js_Values
begin

text \<open>
  The session: the logged-in user, the normalisation of the role string the backend
  returns (at login, \<open>src/src/views/LoginView.tsx\<close>, and again when a saved session
  is restored, \<open>src/src/App.tsx\<close>), and the role checks the client makes before
  it lets a user reach admin views, submit an inspection or acknowledge an issue.
\<close>

datatype role = Admin | Inspector | Operations | Maintenance | Other

primrec role_name :: "role \<Rightarrow> string" where
  "role_name Admin = ''Admin''"
| "role_name Inspector = ''Inspector''"
| "role_name Operations = ''Operations''"
| "role_name Maintenance = ''Maintenance''"
| "role_name Other = ''Other''"

record user =
  username :: string
  name :: string
  role :: role
  position :: string

text \<open>
  \<open>LoginView.handleSubmit\<close>: \<open>rawRole = rawUser.role ? String(rawUser.role).trim()
  .toLowerCase() : ''\<close>, then an if-chain with \<open>Inspector\<close> as the default.
\<close>

definition normalize_login_role :: "cell \<Rightarrow> role" where
  "normalize_login_role raw =
     (let r = (if js_truthy raw then to_lower (trim (js_String raw)) else '''') in
      if r = ''admin'' then Admin
      else if r = ''operations'' then Operations
      else if r = ''maintenance'' then Maintenance
      else if r = ''other'' then Other
      else Inspector)"

text \<open>The same normalisation, written a second time in \<open>App\<close>'s initial effect for a
  session restored from local storage.\<close>

definition restore_session_role :: "cell \<Rightarrow> role" where
  "restore_session_role raw =
     (let r = (if js_truthy raw then to_lower (trim (js_String raw)) else '''') in
      if r = ''admin'' then Admin
      else if r = ''operations'' then Operations
      else if r = ''maintenance'' then Maintenance
      else if r = ''other'' then Other
      else Inspector)"

subsection \<open>Role checks\<close>

text \<open>\<open>currentUser.role.toLowerCase() === 'admin'\<close> (route protection, sidebar,
  user management).\<close>

definition is_admin :: "user \<Rightarrow> bool" where
  "is_admin u \<longleftrightarrow> to_lower (role_name (role u)) = ''admin''"

text \<open>\<open>canAcknowledge\<close>.\<close>

definition can_acknowledge :: "user \<Rightarrow> bool" where
  "can_acknowledge u \<longleftrightarrow> role u = Admin \<or> role u = Maintenance \<or> role u = Inspector"

text \<open>The first guard of \<open>handleGoogleSheetSubmit\<close>: a logged-in user whose role is
  neither \<open>Admin\<close> nor \<open>Inspector\<close> is refused.\<close>

definition submit_denied :: "user option \<Rightarrow> bool" where
  "submit_denied cu =
     (case cu of None \<Rightarrow> False
      | Some u \<Rightarrow> role_name (role u) \<notin> set [''Admin'', ''Inspector''])"

text \<open>The route-protection effect: a non-admin on the settings or users view is sent
  back to the overview.\<close>

definition protect_route :: "user option \<Rightarrow> string \<Rightarrow> string" where
  "protect_route cu m =
     (case cu of None \<Rightarrow> m
      | Some u \<Rightarrow> if \<not> is_admin u \<and> (m = ''settings'' \<or> m = ''users'') then ''overview'' else m)"

lemma is_admin_iff [simp]: "is_admin u \<longleftrightarrow> role u = Admin"
  by (cases "role u") (simp_all add: is_admin_def string_eval)

lemma normalize_role_name: "normalize_login_role (Str (role_name r)) = r"
  by (cases r) (simp_all add: normalize_login_role_def string_eval)

end
