(* ===== verification/Forms.thy ===== *)
theory Forms
  imports Session
begin

text \<open>
  The inspection record as the client writes it: the fixed column schema of each
  sheet (\<open>SHEET_HEADERS\<close>, \<open>PETROLEUM_HEADERS\<close>, \<open>PETROLEUM_V2_HEADERS\<close>,
  \<open>ACID_HEADERS\<close> in \<open>src/src/App.tsx\<close>), the choice of sheet from the active
  module, and the construction of the data-append payload
  \<open>{sheet, action: "create", row, headers, id}\<close> from the form data in
  \<open>handleGoogleSheetSubmit\<close>. The form data is a map from field name to value;
  a field that was never set reads as \<open>undefined\<close>.
\<close>

type_synonym form_data = "string \<Rightarrow> cell"

record payload =
  p_sheet :: string
  p_action :: string
  p_row :: "cell list"
  p_headers :: "string list"
  p_id :: string

subsection \<open>Column schemas\<close>

definition numbered :: "string \<Rightarrow> nat list \<Rightarrow> string list" where
  "numbered pre ns = map (\<lambda>i. pre @ decimal_nat i) ns"

definition media_columns :: "string list" where
  "media_columns = [''photoFront'', ''photoLS'', ''photoRS'', ''photoBack'', ''photoDamage'',
     ''inspectorSignature'', ''driverSignature'']"

definition SHEET_HEADERS :: "string list" where
  "SHEET_HEADERS =
    [''id'', ''timestamp'', ''truckNo'', ''trailerNo'', ''inspectedBy'', ''driverName'',
     ''location'', ''odometer'', ''rate'', ''remarks'', ''aiAnalysis'',
     ''reflectiveWorkSuit'', ''safetyGear'', ''dustMask'', ''roadFitness'', ''validDriverDocs'',
     ''driverManual'', ''routeRisk'',
     ''windscreen'', ''mirrors'', ''chevrons'', ''generalCondition'', ''seatBelt'',
     ''headLamps'', ''indicators'', ''parkingLights'', ''reverseAlarm'', ''hornIgnition'',
     ''brakes'', ''tyres'', ''wheelNuts'', ''fluidLeaks'', ''fireExtinguisher'',
     ''warningTriangles'', ''firstAid'',
     ''trailerCondition'', ''fifthWheel'', ''landingLegs'', ''tarpaulins''] @ media_columns"

definition tanker_columns :: "string list" where
  "tanker_columns = [''id'', ''timestamp'', ''truckNo'', ''trailerNo'', ''jobCard'', ''location'',
     ''odometer'', ''inspectedBy'', ''driverName'', ''rate'', ''remarks'', ''aiAnalysis'']"

definition PETROLEUM_HEADERS :: "string list" where
  "PETROLEUM_HEADERS = tanker_columns @ numbered ''petro_'' [1..<55] @ media_columns"

definition PETROLEUM_V2_HEADERS :: "string list" where
  "PETROLEUM_V2_HEADERS = tanker_columns @ numbered ''petro2_'' [1..<54] @ media_columns"

text \<open>\<open>ACID_HEADERS\<close> lists \<open>acid_1\<close> to \<open>acid_34\<close> without \<open>acid_24\<close>.\<close>

definition ACID_HEADERS :: "string list" where
  "ACID_HEADERS = tanker_columns @ numbered ''acid_'' ([1..<24] @ [25..<35]) @ media_columns"

subsection \<open>Target sheet and payload\<close>

text \<open>The if-chain on \<open>activeModule\<close>; any other module writes to \<open>General\<close>.\<close>

definition sheet_target :: "string \<Rightarrow> string \<times> string list" where
  "sheet_target m =
     (if m = ''petroleum'' then (''Petroleum'', PETROLEUM_HEADERS)
      else if m = ''petroleum_v2'' then (''Petroleum_V2'', PETROLEUM_V2_HEADERS)
      else if m = ''acid'' then (''Acid'', ACID_HEADERS)
      else (''General'', SHEET_HEADERS))"

text \<open>\<open>rowData\<close>: the record id in the \<open>id\<close> column, every other column the form
  value, \<open>null\<close> and \<open>undefined\<close> written as the empty string.\<close>

definition row_value :: "string \<Rightarrow> form_data \<Rightarrow> string \<Rightarrow> cell" where
  "row_value rid fd h =
     (if h = ''id'' then Str rid
      else (case fd h of Null \<Rightarrow> Str '''' | Undef \<Rightarrow> Str '''' | v \<Rightarrow> v))"

definition build_payload :: "string \<Rightarrow> string \<Rightarrow> form_data \<Rightarrow> payload" where
  "build_payload m rid fd =
     (let (sheet, hs) = sheet_target m in
      \<lparr>p_sheet = sheet, p_action = ''create'', p_row = map (row_value rid fd) hs,
       p_headers = hs, p_id = rid\<rparr>)"

lemma build_payload_id [simp]: "p_id (build_payload m rid fd) = rid"
  by (simp add: build_payload_def split: prod.splits)

lemma build_payload_aligned:
  "length (p_row (build_payload m rid fd)) = length (p_headers (build_payload m rid fd))"
  by (simp add: build_payload_def split: prod.splits)

end
