(* ===== verification/Offline_Queue.thy ===== *)
theory Offline_Queue
  imports Forms "HOL-Library.Multiset"
begin

text \<open>
  The offline submission queue of \<open>src/src/App.tsx\<close>: \<open>handleGoogleSheetSubmit\<close>
  (send a finished inspection now, or queue it), \<open>syncOfflineQueue\<close> (drain the
  queue head first, stopping at the first failure) and the loading of the queue at
  start-up. The state is the part of the client the queue touches: the React state
  \<open>offlineQueue\<close>, the persisted key \<open>safetycheck_offline_queue\<close>, the flag
  \<open>isSyncing\<close>, and, for the properties, the log of payloads the backend appended.

  The network is the environment: each data-append \<open>fetch\<close> either resolves
  (the row was appended), rejects before reaching the backend, or rejects after the
  backend appended the row (the response was lost). A flush receives the outcomes of
  its consecutive attempts as a list; an attempt past the end of the list fails,
  which is how a flush that stops early is expressed.
\<close>

datatype transport = Resolved | Rejected | Lost_response

record world =
  offline_queue :: "payload list"
  stored_queue :: "payload list"
  is_syncing :: bool
  remote_log :: "payload list"

text \<open>The backend's side of one data-append request.\<close>

definition post :: "transport \<Rightarrow> payload \<Rightarrow> world \<Rightarrow> world" where
  "post t p w = (if t = Rejected then w else w\<lparr>remote_log := remote_log w @ [p]\<rparr>)"

text \<open>\<open>const newQueue = [...offlineQueue, payload]; setOfflineQueue(newQueue);
  localStorage.setItem(..., JSON.stringify(newQueue))\<close>.\<close>

definition enqueue :: "payload \<Rightarrow> world \<Rightarrow> world" where
  "enqueue p w =
     (let q = offline_queue w @ [p] in w\<lparr>offline_queue := q, stored_queue := q\<rparr>)"

subsection \<open>Submitting an inspection\<close>

record submit_ctx =
  current_user :: "user option"
  script_url :: string
  online :: bool
  active_module :: string
  form :: form_data

datatype submit_result =
  Denied | Unsigned | No_backend | Delivered | Saved_offline | Queued_on_error

text \<open>
  \<open>handleGoogleSheetSubmit\<close>: the three guards and their early returns, the
  payload with a fresh record id \<open>rid\<close> (\<open>crypto.randomUUID()\<close>), then the
  offline branch or the direct send whose failure falls back to the queue. The
  \<open>No_backend\<close> result also switches the view to the settings module.
\<close>

definition handle_submit ::
  "submit_ctx \<Rightarrow> string \<Rightarrow> transport \<Rightarrow> world \<Rightarrow> submit_result \<times> world" where
  "handle_submit c rid t w =
     (if submit_denied (current_user c) then (Denied, w)
      else if \<not> js_truthy (form c ''inspectorSignature'') then (Unsigned, w)
      else if script_url c = [] then (No_backend, w)
      else
        (let p = build_payload (active_module c) rid (form c) in
         if \<not> online c then (Saved_offline, enqueue p w)
         else (case t of
                 Resolved \<Rightarrow> (Delivered, post t p w)
               | _ \<Rightarrow> (Queued_on_error, enqueue p (post t p w)))))"

subsection \<open>Draining the queue\<close>

text \<open>
  The \<open>while (currentQueue.length > 0)\<close> loop over the local copy of the queue:
  on success the head is shifted off, \<open>successCount\<close> grows and the remaining
  queue is written to the state and to storage; on failure the loop breaks.
\<close>

fun sync_loop :: "transport list \<Rightarrow> nat \<Rightarrow> payload list \<Rightarrow> world \<Rightarrow> nat \<times> world" where
  "sync_loop ts n [] w = (n, w)"
| "sync_loop [] n (x # xs) w = (n, w)"
| "sync_loop (t # ts) n (x # xs) w =
     (if t = Resolved
      then sync_loop ts (Suc n)  xs
             (w\<lparr>remote_log := remote_log w @ [x], offline_queue := xs, stored_queue := xs\<rparr>)
      else (n, post t x w))"

record flush_report =
  synced :: nat
  refresh_history :: bool

text \<open>
  \<open>syncOfflineQueue\<close>: return at once if a sync is running or the stored queue
  is empty; otherwise set the flag, run the loop on the stored queue, clear the
  flag in the \<open>finally\<close> block and refresh the history if anything was synced.
\<close>

definition sync_offline_queue :: "transport list \<Rightarrow> world \<Rightarrow> flush_report \<times> world" where
  "sync_offline_queue ts w =
     (if is_syncing w \<or> stored_queue w = [] then (\<lparr>synced = 0, refresh_history = False\<rparr>, w)
      else
        (let (n, w') = sync_loop ts 0 (stored_queue w) (w\<lparr>is_syncing := True\<rparr>) in
         (\<lparr>synced = n, refresh_history = 0 < n\<rparr>, w'\<lparr>is_syncing := False\<rparr>)))"

text \<open>Start-up: the state is loaded from storage (a missing key is the empty queue).\<close>

definition load_queue :: "world \<Rightarrow> world" where
  "load_queue w = w\<lparr>offline_queue := stored_queue w, is_syncing := False\<rparr>"

subsection \<open>Shape of a flush\<close>

text \<open>The number of leading successful attempts the environment grants.\<close>

definition resolved_run :: "transport list \<Rightarrow> nat" where
  "resolved_run ts = length (takeWhile (\<lambda>t. t = Resolved) ts)"

text \<open>Whether the attempt that stopped the flush still appended its row.\<close>

definition stop_appended :: "transport list \<Rightarrow> payload list \<Rightarrow> payload list" where
  "stop_appended ts q =
     (let k = min (length q) (resolved_run ts) in
      if k < length q \<and> k < length ts \<and> ts ! k = Lost_response then [q ! k] else [])"

lemma resolved_run_Cons [simp]:
  "resolved_run (t # ts) = (if t = Resolved then Suc (resolved_run ts) else 0)"
  by (simp add: resolved_run_def)

lemma resolved_run_Nil [simp]: "resolved_run [] = 0"
  by (simp add: resolved_run_def)

lemma stop_appended_Resolved [simp]:
  "stop_appended (Resolved # ts) (x # xs) = stop_appended ts xs"
  by (auto simp: stop_appended_def Let_def min_def)

lemma stop_appended_other [simp]:
  "t \<noteq> Resolved \<Longrightarrow> stop_appended (t # ts) (x # xs) = (if t = Lost_response then [x] else [])"
  by (simp add: stop_appended_def)

lemma stop_appended_Nil [simp]: "stop_appended [] q = []" "stop_appended ts [] = []"
  by (simp_all add: stop_appended_def)

text \<open>
  The reference behaviour of the loop, in closed form: with \<open>k\<close> the number of
  leading successes (at most the queue's length), the first \<open>k\<close> items are
  appended remotely in order, the queue becomes the rest, and the attempt that
  stopped the loop appends its item only if its response was lost.
\<close>

definition flush_spec :: "transport list \<Rightarrow> nat \<Rightarrow> payload list \<Rightarrow> world \<Rightarrow> nat \<times> world" where
  "flush_spec ts n q w =
     (let k = min (length q) (resolved_run ts);
          w1 = (if k = 0 then w
                else w\<lparr>remote_log := remote_log w @ take k q,
                       offline_queue := drop k q, stored_queue := drop k q\<rparr>)
      in (n + k, w1\<lparr>remote_log := remote_log w1 @ stop_appended ts q\<rparr>))"

lemma sync_loop_flush_spec: "sync_loop ts n q w = flush_spec ts n q w"
proof (induction ts n q w rule: sync_loop.induct)
  case (1 ts n w)
  then show ?case by (simp add: flush_spec_def)
next
  case (2 n x xs w)
  then show ?case by (simp add: flush_spec_def)
next
  case (3 t ts n x xs w)
  show ?case
  proof (cases "t = Resolved")
    case True
    with "3.IH" show ?thesis
      by (cases xs) (auto simp: flush_spec_def Let_def min_def)
  next
    case False
    then show ?thesis
      by (cases t) (simp_all add: flush_spec_def post_def)
  qed
qed

lemma sync_offline_queue_active:
  "\<not> is_syncing w \<Longrightarrow> stored_queue w \<noteq> [] \<Longrightarrow>
   sync_offline_queue ts w =
     (let (n, w') = flush_spec ts 0 (stored_queue w) (w\<lparr>is_syncing := True\<rparr>) in
      (\<lparr>synced = n, refresh_history = 0 < n\<rparr>, w'\<lparr>is_syncing := False\<rparr>))"
  by (simp add: sync_offline_queue_def sync_loop_flush_spec)

lemma sync_offline_queue_idle:
  "is_syncing w \<or> stored_queue w = [] \<Longrightarrow>
   sync_offline_queue ts w = (\<lparr>synced = 0, refresh_history = False\<rparr>, w)"
  by (simp add: sync_offline_queue_def)

lemmas flush_eqs [queue_simps] = sync_offline_queue_active flush_spec_def Let_def

subsection \<open>Properties of the flush\<close>

text \<open>
  C1. Head-of-line FIFO flush: a flush of a non-empty stored queue delivers the
  longest prefix of successful attempts, in queue order, leaves exactly the rest of
  the queue (starting at the item that failed) in storage, clears the sync flag and
  asks for a history refresh exactly when something was synced. The attempt that
  stopped the flush reaches the backend only when its response was lost.
\<close>

theorem sync_offline_queue_fifo:
  assumes "\<not> is_syncing w" and "stored_queue w \<noteq> []"
    and "sync_offline_queue ts w = (r, w')"
  shows "synced r = min (length (stored_queue w)) (resolved_run ts)
    \<and> stored_queue w' = drop (synced r) (stored_queue w)
    \<and> remote_log w' = remote_log w @ take (synced r) (stored_queue w)
                         @ stop_appended ts (stored_queue w)
    \<and> \<not> is_syncing w' \<and> refresh_history r = (0 < synced r)"
  using assms by (auto simp: queue_simps min_def split: if_splits)

definition demo_payload :: "string \<Rightarrow> payload" where
  "demo_payload i = \<lparr>p_sheet = ''General'', p_action = ''create'', p_row = [Str i],
     p_headers = [''id''], p_id = i\<rparr>"

definition demo_world :: "payload list \<Rightarrow> world" where
  "demo_world q = \<lparr>offline_queue = q, stored_queue = q, is_syncing = False, remote_log = []\<rparr>"

text \<open>The queue [A, B, C] where the append of B fails: after the flush the queue is
  [B, C] and one record was synced.\<close>

theorem sync_offline_queue_fifo_witness:
  "\<not> is_syncing (demo_world (map demo_payload [''A'', ''B'', ''C'']))
   \<and> stored_queue (demo_world (map demo_payload [''A'', ''B'', ''C''])) \<noteq> []
   \<and> stored_queue (snd (sync_offline_queue [Resolved, Rejected]
        (demo_world (map demo_payload [''A'', ''B'', ''C''])))) = map demo_payload [''B'', ''C'']
   \<and> synced (fst (sync_offline_queue [Resolved, Rejected]
        (demo_world (map demo_payload [''A'', ''B'', ''C''])))) = 1"
proof -
  let ?w = "demo_world (map demo_payload [''A'', ''B'', ''C''])"
  have pre: "\<not> is_syncing ?w" "stored_queue ?w \<noteq> []" by (simp_all add: demo_world_def)
  obtain r w' where eq: "sync_offline_queue [Resolved, Rejected] ?w = (r, w')"
    by (cases "sync_offline_queue [Resolved, Rejected] ?w")
  from sync_offline_queue_fifo [OF pre eq] pre eq show ?thesis
    by (simp add: demo_world_def resolved_run_def)
qed

text \<open>
  C2. No loss on flush: every record that was in the stored queue before a flush is
  afterwards still in the stored queue or has been appended at the backend, whatever
  the network does and whether or not another sync was running.
\<close>

theorem sync_no_loss:
  "sync_offline_queue ts w = (r, w') \<Longrightarrow>
   set (stored_queue w) \<subseteq> set (stored_queue w') \<union> set (remote_log w')"
proof (cases "is_syncing w \<or> stored_queue w = []")
  case True
  moreover assume "sync_offline_queue ts w = (r, w')"
  ultimately show ?thesis by (simp add: sync_offline_queue_idle)
next
  case False
  moreover assume "sync_offline_queue ts w = (r, w')"
  ultimately show ?thesis
    using set_drop_take_union [of "stored_queue w" "min (length (stored_queue w)) (resolved_run ts)"]
    by (auto simp: queue_simps split: if_splits)
qed

theorem sync_no_loss_witness:
  "set (stored_queue (demo_world (map demo_payload [''A'', ''B''])))
   \<subseteq> set (stored_queue (snd (sync_offline_queue [Resolved, Lost_response]
                 (demo_world (map demo_payload [''A'', ''B''])))))
     \<union> set (remote_log (snd (sync_offline_queue [Resolved, Lost_response]
                 (demo_world (map demo_payload [''A'', ''B''])))))"
  using sync_no_loss [of "[Resolved, Lost_response]" "demo_world (map demo_payload [''A'', ''B''])"]
  by (metis prod.collapse)

subsection \<open>Abstraction: the records handed over to the backend\<close>

text \<open>
  Abstractly the queue promises that every accepted inspection is handed over
  exactly once: it is either pending in the persisted queue or appended at the
  backend. The abstraction function collects both as a multiset.
\<close>

definition handed_over :: "world \<Rightarrow> payload multiset" where
  "handed_over w = mset (remote_log w) + mset (stored_queue w)"

definition accepted :: "submit_result \<Rightarrow> bool" where
  "accepted res \<longleftrightarrow> res \<in> {Delivered, Saved_offline, Queued_on_error}"

lemma stop_appended_no_loss_response:
  "Lost_response \<notin> set ts \<Longrightarrow> stop_appended ts q = []"
  by (auto simp: stop_appended_def Let_def dest: nth_mem)

lemma handed_over_flush_spec:
  "Lost_response \<notin> set ts \<Longrightarrow> q = stored_queue w \<Longrightarrow>
   handed_over (snd (flush_spec ts n q w)) = handed_over w"
  by (simp add: flush_spec_def handed_over_def stop_appended_no_loss_response Let_def
      flip: mset_append)

lemma handle_submit_accepted_iff:
  "accepted (fst (handle_submit c rid t w)) \<longleftrightarrow>
   \<not> submit_denied (current_user c) \<and> js_truthy (form c ''inspectorSignature'')
   \<and> script_url c \<noteq> []"
  by (simp add: handle_submit_def accepted_def Let_def split: transport.split)

lemma handle_submit_refused:
  "\<not> accepted (fst (handle_submit c rid t w)) \<Longrightarrow> snd (handle_submit c rid t w) = w"
  unfolding handle_submit_accepted_iff by (auto simp: handle_submit_def)

lemma handle_submit_accepted:
  "accepted (fst (handle_submit c rid t w)) \<Longrightarrow>
   snd (handle_submit c rid t w) =
     (let p = build_payload (active_module c) rid (form c) in
      if \<not> online c then enqueue p w
      else if t = Resolved then post t p w else enqueue p (post t p w))"
  unfolding handle_submit_accepted_iff
  by (simp add: handle_submit_def Let_def split: transport.split)

text \<open>The in-memory queue and the persisted queue agree.\<close>

definition queue_coherent :: "world \<Rightarrow> bool" where
  "queue_coherent w \<longleftrightarrow> offline_queue w = stored_queue w"

text \<open>
  C3. Refinement: from a state whose in-memory and persisted queues agree, and as
  long as no response is lost, a flush leaves the handed-over
  records unchanged (it only moves records from the queue to the backend, none is
  duplicated or dropped), and an accepted submission adds exactly its own payload;
  a refused one changes nothing.
\<close>

theorem queue_refines_handover:
  assumes "Lost_response \<notin> set ts" and "t \<noteq> Lost_response" and "queue_coherent w"
  shows "handed_over (snd (sync_offline_queue ts w)) = handed_over w
    \<and> handed_over (snd (handle_submit c rid t w)) =
        handed_over w + (if accepted (fst (handle_submit c rid t w))
                         then {#build_payload (active_module c) rid (form c)#} else {#})"
proof
  show "handed_over (snd (sync_offline_queue ts w)) = handed_over w"
  proof (cases "is_syncing w \<or> stored_queue w = []")
    case True
    then show ?thesis by (simp add: sync_offline_queue_idle)
  next
    case False
    then show ?thesis
      using handed_over_flush_spec [OF assms(1), of "stored_queue w" "w\<lparr>is_syncing := True\<rparr>" 0]
      by (auto simp: sync_offline_queue_active handed_over_def split: prod.splits)
  qed
next
  show "handed_over (snd (handle_submit c rid t w)) =
        handed_over w + (if accepted (fst (handle_submit c rid t w))
                         then {#build_payload (active_module c) rid (form c)#} else {#})"
    using assms(2,3) handle_submit_refused [of c rid t w] handle_submit_accepted [of c rid t w]
    by (cases t) (auto simp: handed_over_def enqueue_def post_def queue_coherent_def Let_def)
qed

theorem queue_refines_handover_witness:
  "Lost_response \<notin> set [Resolved, Rejected] \<and> Rejected \<noteq> Lost_response
   \<and> queue_coherent (demo_world (map demo_payload [''A'', ''B'']))
   \<and> handed_over (snd (sync_offline_queue [Resolved, Rejected]
        (demo_world (map demo_payload [''A'', ''B''])))) =
      handed_over (demo_world (map demo_payload [''A'', ''B'']))"
  using queue_refines_handover [of "[Resolved, Rejected]" Rejected
      "demo_world (map demo_payload [''A'', ''B''])"]
  by (simp add: queue_coherent_def demo_world_def)

subsection \<open>Submission and the queue invariant\<close>

definition demo_inspector :: user where
  "demo_inspector = \<lparr>username = ''jdoe'', name = ''J Doe'', role = Inspector, position = ''''\<rparr>"

definition demo_form :: form_data where
  "demo_form f = (if f = ''inspectorSignature'' then Str ''sig''
                  else if f = ''rate'' then Num 2 else Undef)"

definition demo_ctx :: "bool \<Rightarrow> submit_ctx" where
  "demo_ctx on = \<lparr>current_user = Some demo_inspector, script_url = ''https://script.google.com/x'',
     online = on, active_module = ''general'', form = demo_form\<rparr>"

text \<open>
  C4. No loss on submit: when a submission is accepted (the user may submit, the
  inspection is signed, a backend is configured), its payload ends up appended at
  the backend or in the persisted queue, whether the device is offline or the send
  succeeds, fails or loses its response.
\<close>

theorem handle_submit_no_loss:
  assumes "accepted (fst (handle_submit c rid t w))"
  shows "build_payload (active_module c) rid (form c)
           \<in> set (remote_log (snd (handle_submit c rid t w)))
             \<union> set (stored_queue (snd (handle_submit c rid t w)))"
  using handle_submit_accepted [OF assms]
  by (cases t) (auto simp: enqueue_def post_def Let_def)

theorem handle_submit_no_loss_witness:
  "accepted (fst (handle_submit (demo_ctx True) ''r1'' Rejected (demo_world [])))
   \<and> build_payload ''general'' ''r1'' demo_form
       \<in> set (remote_log (snd (handle_submit (demo_ctx True) ''r1'' Rejected (demo_world []))))
         \<union> set (stored_queue (snd (handle_submit (demo_ctx True) ''r1'' Rejected (demo_world []))))"
proof -
  have acc: "accepted (fst (handle_submit (demo_ctx True) ''r1'' Rejected (demo_world [])))"
    by (simp add: handle_submit_accepted_iff demo_ctx_def demo_form_def demo_inspector_def
        submit_denied_def)
  show ?thesis using acc handle_submit_no_loss [OF acc] by (simp add: demo_ctx_def)
qed

text \<open>
  C5. Queue coherence: loading at start-up makes the in-memory queue equal to the
  persisted one, and every submission and every flush keeps them equal (the queue is
  persisted in the same step as the state is updated).
\<close>

theorem queue_coherent_invariant:
  "queue_coherent (load_queue w0)
   \<and> (queue_coherent w \<longrightarrow> queue_coherent (snd (sync_offline_queue ts w))
                             \<and> queue_coherent (snd (handle_submit c rid t w)))"
proof (intro conjI impI)
  show "queue_coherent (load_queue w0)" by (simp add: queue_coherent_def load_queue_def)
next
  assume coh: "queue_coherent w"
  show "queue_coherent (snd (sync_offline_queue ts w))"
  proof (cases "is_syncing w \<or> stored_queue w = []")
    case True
    with coh show ?thesis by (simp add: sync_offline_queue_idle)
  next
    case False
    with coh show ?thesis
      by (auto simp: queue_simps queue_coherent_def split: prod.splits)
  qed
  show "queue_coherent (snd (handle_submit c rid t w))"
    using coh handle_submit_refused [of c rid t w] handle_submit_accepted [of c rid t w]
    by (cases "accepted (fst (handle_submit c rid t w))")
      (auto simp: queue_coherent_def enqueue_def post_def Let_def)
qed

theorem queue_coherent_invariant_witness:
  "queue_coherent (load_queue (demo_world []))
   \<and> queue_coherent (demo_world [demo_payload ''A''])
   \<and> queue_coherent (snd (sync_offline_queue [Rejected] (demo_world [demo_payload ''A''])))
   \<and> queue_coherent (snd (handle_submit (demo_ctx False) ''r1'' Rejected
                             (demo_world [demo_payload ''A''])))"
proof -
  have coh: "queue_coherent (demo_world [demo_payload ''A''])"
    by (simp add: queue_coherent_def demo_world_def)
  with queue_coherent_invariant [of "demo_world []" "demo_world [demo_payload ''A'']"
      "[Rejected]" "demo_ctx False" "''r1''" Rejected]
  show ?thesis by blast
qed

text \<open>
  The offline scenario of the specification: offline, an Inspector submits the
  signed General inspection \<open>r1\<close> rated 2; it is saved offline and the persisted
  queue holds exactly its payload. Back online, a flush whose append succeeds
  delivers it: the queue is empty, one record was synced and the history is
  refreshed.
\<close>

theorem offline_submit_then_flush:
  "fst (handle_submit (demo_ctx False) ''r1'' Resolved (demo_world [])) = Saved_offline
   \<and> stored_queue (snd (handle_submit (demo_ctx False) ''r1'' Resolved (demo_world [])))
       = [build_payload ''general'' ''r1'' demo_form]
   \<and> stored_queue (snd (sync_offline_queue [Resolved]
         (snd (handle_submit (demo_ctx False) ''r1'' Resolved (demo_world []))))) = []
   \<and> fst (sync_offline_queue [Resolved]
         (snd (handle_submit (demo_ctx False) ''r1'' Resolved (demo_world []))))
       = \<lparr>synced = 1, refresh_history = True\<rparr>
   \<and> remote_log (snd (sync_offline_queue [Resolved]
         (snd (handle_submit (demo_ctx False) ''r1'' Resolved (demo_world [])))))
       = [build_payload ''general'' ''r1'' demo_form]"
proof -
  have sub: "handle_submit (demo_ctx False) ''r1'' Resolved (demo_world []) =
      (Saved_offline, demo_world [build_payload ''general'' ''r1'' demo_form])"
    by (simp add: handle_submit_def demo_ctx_def demo_form_def demo_inspector_def
        submit_denied_def enqueue_def demo_world_def Let_def)
  show ?thesis
    unfolding sub by (simp add: sync_offline_queue_def demo_world_def)
qed

end
