(* ===== verification/Sync_Interleaving.thy ===== *)
theory Sync_Interleaving
  imports Offline_Queue
begin

text \<open>
  The asynchronous steps of \<open>handleGoogleSheetSubmit\<close> and \<open>syncOfflineQueue\<close>
  (\<open>src/src/App.tsx\<close>) interleaved on the single-threaded event loop. Every
  \<open>await\<close> is a suspension point, so a flush is a sequence of steps (start, one
  step per attempted item), a direct submission is two steps (click, then the
  settlement of its \<open>fetch\<close>), and other handlers run in between.

  What each handler reads is what its closure holds. A direct submission's closure
  holds the \<open>offlineQueue\<close> of the render in which the button was clicked, and its
  failure branch writes that snapshot plus the payload. A flush started from a
  render-time closure sees the current \<open>isSyncing\<close>; a flush started by the
  \<open>online\<close> listener, registered once by the mount effect, sees the flag of the
  first render, which is false. Each running flush keeps its own \<open>currentQueue\<close>.
  The submit button is disabled while a submission is in progress, so at most one
  direct submission is in flight. A reload (process restart) reloads the queue from
  storage and abandons every pending step.
\<close>

record sys =
  mem :: "payload list"
  store :: "payload list"
  syncing :: bool
  loops :: "payload list list"
  sends :: "(payload \<times> payload list) list"
  remote :: "payload list"
  submitted :: "payload list"

definition init_sys :: sys where
  "init_sys = \<lparr>mem = [], store = [], syncing = False, loops = [], sends = [], remote = [],
     submitted = []\<rparr>"

definition remove_nth :: "nat \<Rightarrow> 'a list \<Rightarrow> 'a list" where
  "remove_nth i xs = take i xs @ drop (Suc i) xs"

datatype event =
    Submit_offline payload
  | Submit_send payload
  | Send_settle nat transport
  | Sync_start
  | Sync_start_listener
  | Loop_settle nat transport
  | Reload

text \<open>
  One rule per step. \<open>Send_settle i t\<close> is the settlement of the \<open>i\<close>-th direct
  submission (its success, or the fallback to the queue written from the closure's
  snapshot); \<open>Loop_settle i t\<close> is the settlement of the pending \<open>fetch\<close> of the
  \<open>i\<close>-th running flush: on success the head is shifted off and the rest written to
  state and storage, and the loop ends (clearing the flag) when nothing is left; on
  failure the loop ends.
\<close>

inductive step :: "sys \<Rightarrow> event \<Rightarrow> sys \<Rightarrow> bool" where
  submit_offline: "sends s = [] \<Longrightarrow>
     step s (Submit_offline p)
       (s\<lparr>mem := mem s @ [p], store := mem s @ [p], submitted := submitted s @ [p]\<rparr>)"
| submit_send: "sends s = [] \<Longrightarrow>
     step s (Submit_send p) (s\<lparr>sends := [(p, mem s)], submitted := submitted s @ [p]\<rparr>)"
| send_resolved: "i < length (sends s) \<Longrightarrow> sends s ! i = (p, snap) \<Longrightarrow>
     step s (Send_settle i Resolved) (s\<lparr>sends := remove_nth i (sends s), remote := remote s @ [p]\<rparr>)"
| send_failed: "i < length (sends s) \<Longrightarrow> sends s ! i = (p, snap) \<Longrightarrow> t \<noteq> Resolved \<Longrightarrow>
     step s (Send_settle i t)
       (s\<lparr>sends := remove_nth i (sends s),
          remote := remote s @ (if t = Lost_response then [p] else []),
          mem := snap @ [p], store := snap @ [p]\<rparr>)"
| sync_start: "\<not> syncing s \<Longrightarrow> store s \<noteq> [] \<Longrightarrow>
     step s Sync_start (s\<lparr>syncing := True, loops := loops s @ [store s]\<rparr>)"
| sync_start_listener: "store s \<noteq> [] \<Longrightarrow>
     step s Sync_start_listener (s\<lparr>syncing := True, loops := loops s @ [store s]\<rparr>)"
| loop_resolved: "i < length (loops s) \<Longrightarrow> loops s ! i = x # xs \<Longrightarrow>
     step s (Loop_settle i Resolved)
       (if xs = [] then s\<lparr>remote := remote s @ [x], mem := [], store := [],
                          loops := remove_nth i (loops s), syncing := False\<rparr>
        else s\<lparr>remote := remote s @ [x], mem := xs, store := xs, loops := (loops s)[i := xs]\<rparr>)"
| loop_failed: "i < length (loops s) \<Longrightarrow> loops s ! i = x # xs \<Longrightarrow> t \<noteq> Resolved \<Longrightarrow>
     step s (Loop_settle i t)
       (s\<lparr>remote := remote s @ (if t = Lost_response then [x] else []),
          loops := remove_nth i (loops s), syncing := False\<rparr>)"
| reload: "step s Reload (s\<lparr>mem := store s, loops := [], sends := [], syncing := False\<rparr>)"

inductive_cases step_SyncE: "step s Sync_start s'"
inductive_cases step_ListenerE: "step s Sync_start_listener s'"

text \<open>Runs of the client from its initial state, as lists of events.\<close>

inductive run :: "sys \<Rightarrow> event list \<Rightarrow> sys \<Rightarrow> bool" where
  run_nil: "run s [] s"
| run_step: "step s e s' \<Longrightarrow> run s' es s'' \<Longrightarrow> run s (e # es) s''"

text \<open>A record is lost when it was submitted but is neither appended at the backend,
  nor persisted in the queue, nor part of a pending direct submission.\<close>

definition lost :: "sys \<Rightarrow> payload \<Rightarrow> bool" where
  "lost s p \<longleftrightarrow> p \<in> set (submitted s) \<and> p \<notin> set (remote s) \<and> p \<notin> set (store s)
                \<and> p \<notin> fst ` set (sends s)"

text \<open>The events of a client left alone on a network that answers every request:
  settlements that succeed, and the flag-guarded start of a flush.\<close>

definition answered :: "event \<Rightarrow> bool" where
  "answered e = (case e of Send_settle i t \<Rightarrow> t = Resolved | Loop_settle i t \<Rightarrow> t = Resolved
                 | Sync_start \<Rightarrow> True | _ \<Rightarrow> False)"

subsection \<open>Interleavings that break the queue's guarantees\<close>

lemma run_single: "step s e s' \<Longrightarrow> run s [e] s'"
  by (blast intro: run_step run_nil)

lemma run_append: "run s es t \<Longrightarrow> run t fs u \<Longrightarrow> run s (es @ fs) u"
  by (induction rule: run.induct) (auto intro: run_step)

lemma run_snoc: "run s es t \<Longrightarrow> step t e u \<Longrightarrow> run s (es @ [e]) u"
  by (rule run_append) (auto intro: run_single)

text \<open>
  C7. Lost update: a flush is running on the queue [A] when the user saves P
  offline (the handler appends P to the queue and persists [A, P]); then the
  flush's append of A succeeds and it persists its own copy of the rest, the
  empty queue. P was submitted but is nowhere: not at the backend, not in storage,
  not in flight.
\<close>

theorem offline_submit_during_sync_lost:
  "\<exists>s. run init_sys [Submit_offline (demo_payload ''A''), Sync_start,
                     Submit_offline (demo_payload ''P''), Loop_settle 0 Resolved] s
       \<and> lost s (demo_payload ''P'')"
proof -
  let ?A = "demo_payload ''A''" and ?P = "demo_payload ''P''"
  let ?s1 = "init_sys\<lparr>mem := [?A], store := [?A], submitted := [?A]\<rparr>"
  let ?s2 = "?s1\<lparr>syncing := True, loops := [[?A]]\<rparr>"
  let ?s3 = "?s2\<lparr>mem := [?A, ?P], store := [?A, ?P], submitted := [?A, ?P]\<rparr>"
  let ?s4 = "?s3\<lparr>remote := [?A], mem := [], store := [], loops := [], syncing := False\<rparr>"
  have 1: "step init_sys (Submit_offline ?A) ?s1"
    using step.submit_offline [of init_sys ?A] by (simp add: init_sys_def)
  have 2: "step ?s1 Sync_start ?s2"
    using step.sync_start [of ?s1] by (simp add: init_sys_def)
  have 3: "step ?s2 (Submit_offline ?P) ?s3"
    using step.submit_offline [of ?s2 ?P] by (simp add: init_sys_def)
  have 4: "step ?s3 (Loop_settle 0 Resolved) ?s4"
    using step.loop_resolved [of 0 ?s3 ?A "[]"] by (simp add: init_sys_def remove_nth_def)
  have "run init_sys [Submit_offline ?A, Sync_start, Submit_offline ?P, Loop_settle 0 Resolved] ?s4"
    using run_snoc [OF run_snoc [OF run_snoc [OF run_single [OF 1] 2] 3] 4] by simp
  moreover have "lost ?s4 ?P"
    by (simp add: lost_def init_sys_def demo_payload_def)
  ultimately show ?thesis by blast
qed

text \<open>
  C8. Duplicate delivery through the stale flag: a flush started from a render is
  waiting on the append of A when the browser fires \<open>online\<close>; the listener's
  closure still sees \<open>isSyncing = false\<close> and starts a second flush on the same
  stored queue. Both appends of A succeed, and the backend holds A twice.
\<close>

theorem online_listener_duplicates:
  "\<exists>s. run init_sys [Submit_offline (demo_payload ''A''), Sync_start, Sync_start_listener,
                     Loop_settle 0 Resolved, Loop_settle 0 Resolved] s
       \<and> remote s = [demo_payload ''A'', demo_payload ''A'']"
proof -
  let ?A = "demo_payload ''A''"
  let ?s1 = "init_sys\<lparr>mem := [?A], store := [?A], submitted := [?A]\<rparr>"
  let ?s2 = "?s1\<lparr>syncing := True, loops := [[?A]]\<rparr>"
  let ?s3 = "?s2\<lparr>loops := [[?A], [?A]]\<rparr>"
  let ?s4 = "?s3\<lparr>remote := [?A], mem := [], store := [], loops := [[?A]], syncing := False\<rparr>"
  let ?s5 = "?s4\<lparr>remote := [?A, ?A], loops := []\<rparr>"
  have 1: "step init_sys (Submit_offline ?A) ?s1"
    using step.submit_offline [of init_sys ?A] by (simp add: init_sys_def)
  have 2: "step ?s1 Sync_start ?s2"
    using step.sync_start [of ?s1] by (simp add: init_sys_def)
  have 3: "step ?s2 Sync_start_listener ?s3"
    using step.sync_start_listener [of ?s2] by (simp add: init_sys_def)
  have 4: "step ?s3 (Loop_settle 0 Resolved) ?s4"
    using step.loop_resolved [of 0 ?s3 ?A "[]"] by (simp add: init_sys_def remove_nth_def)
  have 5: "step ?s4 (Loop_settle 0 Resolved) ?s5"
    using step.loop_resolved [of 0 ?s4 ?A "[]"] by (simp add: init_sys_def remove_nth_def)
  have "run init_sys [Submit_offline ?A, Sync_start, Sync_start_listener,
                      Loop_settle 0 Resolved, Loop_settle 0 Resolved] ?s5"
    using run_snoc [OF run_snoc [OF run_snoc [OF run_snoc [OF run_single [OF 1] 2] 3] 4] 5]
    by simp
  moreover have "remote ?s5 = [?A, ?A]" by simp
  ultimately show ?thesis by blast
qed

subsection \<open>Serialized executions keep every record\<close>

text \<open>
  The discipline under which the queue's guarantees hold: no submission while a
  flush is running, no flush started while a direct submission is in flight or
  (for the listener, which ignores the flag) while another flush runs, and no
  reload while a direct submission is in flight.
\<close>

primrec serial :: "sys \<Rightarrow> event \<Rightarrow> bool" where
  "serial s (Submit_offline p) = (loops s = [])"
| "serial s (Submit_send p) = (loops s = [])"
| "serial s (Send_settle i t) = True"
| "serial s Sync_start = (sends s = [])"
| "serial s Sync_start_listener = (sends s = [] \<and> loops s = [])"
| "serial s (Loop_settle i t) = True"
| "serial s Reload = (sends s = [])"

inductive sreach :: "sys \<Rightarrow> bool" where
  sreach_init: "sreach init_sys"
| sreach_step: "sreach s \<Longrightarrow> serial s e \<Longrightarrow> step s e s' \<Longrightarrow> sreach s'"

text \<open>Runs made of serialized steps only.\<close>

inductive srun :: "sys \<Rightarrow> event list \<Rightarrow> sys \<Rightarrow> bool" where
  srun_nil: "srun s [] s"
| srun_step: "serial s e \<Longrightarrow> step s e s' \<Longrightarrow> srun s' es s'' \<Longrightarrow> srun s (e # es) s''"

definition queue_inv :: "sys \<Rightarrow> bool" where
  "queue_inv s \<longleftrightarrow>
     set (submitted s) \<subseteq> set (remote s) \<union> set (store s) \<union> fst ` set (sends s)
     \<and> mem s = store s
     \<and> length (loops s) \<le> 1 \<and> (\<forall>l \<in> set (loops s). l = store s)
     \<and> (syncing s \<longleftrightarrow> loops s \<noteq> [])
     \<and> length (sends s) \<le> 1 \<and> (\<forall>x \<in> set (sends s). snd x = mem s)
     \<and> (loops s = [] \<or> sends s = [])"

lemma remove_nth_single: "length xs \<le> 1 \<Longrightarrow> i < length xs \<Longrightarrow> remove_nth i xs = []"
  by (cases xs) (auto simp: remove_nth_def)

lemma single_nth: "length xs \<le> 1 \<Longrightarrow> i < length xs \<Longrightarrow> xs = [xs ! i]"
  by (cases xs) auto

lemma queue_inv_init: "queue_inv init_sys"
  by (simp add: queue_inv_def init_sys_def)

lemma queue_inv_step: "step s e s' \<Longrightarrow> serial s e \<Longrightarrow> queue_inv s \<Longrightarrow> queue_inv s'"
proof (induction rule: step.induct)
  case (send_resolved i s p snap)
  then have "sends s = [(p, snap)]" using single_nth [of "sends s" i] by (auto simp: queue_inv_def)
  with send_resolved show ?case by (auto simp: queue_inv_def remove_nth_def)
next
  case (send_failed i s p snap t)
  then have "sends s = [(p, snap)]" using single_nth [of "sends s" i] by (auto simp: queue_inv_def)
  with send_failed show ?case by (auto simp: queue_inv_def remove_nth_def)
next
  case (loop_resolved i s x xs)
  then have l: "loops s = [x # xs]" and st: "store s = x # xs"
    using single_nth [of "loops s" i] by (auto simp: queue_inv_def)
  with loop_resolved show ?case by (auto simp: queue_inv_def remove_nth_def)
next
  case (loop_failed i s x xs t)
  then have "loops s = [x # xs]" using single_nth [of "loops s" i] by (auto simp: queue_inv_def)
  with loop_failed show ?case by (auto simp: queue_inv_def remove_nth_def)
qed (auto simp: queue_inv_def)

lemma sreach_queue_inv: "sreach s \<Longrightarrow> queue_inv s"
  by (induction rule: sreach.induct) (auto intro: queue_inv_init queue_inv_step)

text \<open>
  C9. Serialized no-loss: in every state reachable by serialized steps (any
  network outcomes, any number of reloads), no submitted record is lost: each is
  appended at the backend, persisted in the queue, or in a pending direct
  submission. With C7 and C8 this locates the queue's guarantees exactly in the
  absence of overlapping asynchronous handlers.
\<close>

theorem serialized_no_loss: "sreach s \<Longrightarrow> \<not> lost s p"
  using sreach_queue_inv [of s] by (auto simp: queue_inv_def lost_def)

theorem serialized_no_loss_witness:
  "sreach (init_sys\<lparr>mem := [demo_payload ''A''], store := [demo_payload ''A''],
                    submitted := [demo_payload ''A'']\<rparr>)
   \<and> \<not> lost (init_sys\<lparr>mem := [demo_payload ''A''], store := [demo_payload ''A''],
                    submitted := [demo_payload ''A'']\<rparr>) (demo_payload ''A'')"
proof -
  have st: "step init_sys (Submit_offline (demo_payload ''A''))
      (init_sys\<lparr>mem := [demo_payload ''A''], store := [demo_payload ''A''],
                submitted := [demo_payload ''A'']\<rparr>)"
    using step.submit_offline [of init_sys "demo_payload ''A''"] by (simp add: init_sys_def)
  have r: "sreach (init_sys\<lparr>mem := [demo_payload ''A''], store := [demo_payload ''A''],
                    submitted := [demo_payload ''A'']\<rparr>)"
    by (rule sreach_step [OF sreach_init _ st]) (simp add: init_sys_def)
  show ?thesis using r serialized_no_loss [OF r] by simp
qed

subsection \<open>Serialized executions drain the queue\<close>

lemma srun_sreach: "srun s es s' \<Longrightarrow> sreach s \<Longrightarrow> sreach s'"
  by (induction rule: srun.induct) (auto intro: sreach_step)

lemma srun_append: "srun s es t \<Longrightarrow> srun t fs u \<Longrightarrow> srun s (es @ fs) u"
  by (induction rule: srun.induct) (auto intro: srun_step)

lemma loops_nonempty: "sreach s \<Longrightarrow> list_all (\<lambda>l. l \<noteq> []) (loops s)"
proof (induction rule: sreach.induct)
  case sreach_init
  then show ?case by (simp add: init_sys_def)
next
  case (sreach_step s e s')
  from sreach_step.hyps(3) sreach_step.IH show ?case
    by (cases rule: step.cases)
      (auto simp: list_all_iff remove_nth_def dest: in_set_takeD in_set_dropD
        set_update_subset_insert [THEN subsetD])
qed

lemma drain_loop:
  "q \<noteq> [] \<Longrightarrow> loops s = [q] \<Longrightarrow>
   srun s (replicate (length q) (Loop_settle 0 Resolved))
     (s\<lparr>remote := remote s @ q, mem := [], store := [], loops := [], syncing := False\<rparr>)"
proof (induction q arbitrary: s)
  case Nil
  then show ?case by simp
next
  case (Cons x xs)
  show ?case
  proof (cases "xs = []")
    case True
    have "step s (Loop_settle 0 Resolved)
            (s\<lparr>remote := remote s @ [x], mem := [], store := [], loops := remove_nth 0 (loops s),
                syncing := False\<rparr>)"
      using step.loop_resolved [of 0 s x xs] Cons.prems True by simp
    then show ?thesis using True Cons.prems
      by (auto simp: remove_nth_def intro!: srun_step srun_nil)
  next
    case False
    let ?s1 = "s\<lparr>remote := remote s @ [x], mem := xs, store := xs, loops := (loops s)[0 := xs]\<rparr>"
    have st: "step s (Loop_settle 0 Resolved) ?s1"
      using step.loop_resolved [of 0 s x xs] Cons.prems False by simp
    have "srun ?s1 (replicate (length xs) (Loop_settle 0 Resolved))
            (?s1\<lparr>remote := remote ?s1 @ xs, mem := [], store := [], loops := [], syncing := False\<rparr>)"
      using Cons.IH [of ?s1] False Cons.prems by simp
    then show ?thesis using st by (auto intro: srun_step)
  qed
qed


lemma idle_drain:
  assumes r: "sreach s" and ns: "sends s = []"
  shows "\<exists>es s'. srun s es s' \<and> list_all answered es \<and> length es \<le> length (store s) + 1
           \<and> store s' = [] \<and> sends s' = [] \<and> loops s' = []"
proof -
  have inv: "queue_inv s" using r by (rule sreach_queue_inv)
  have ne: "list_all (\<lambda>l. l \<noteq> []) (loops s)" using r by (rule loops_nonempty)
  have ans: "list_all answered (replicate m (Loop_settle 0 Resolved))" for m
    by (simp add: list_all_iff answered_def)
  show ?thesis
  proof (cases "loops s")
    case Nil
    show ?thesis
    proof (cases "store s = []")
      case True
      then show ?thesis using ns Nil by (intro exI [of _ "[]"] exI [of _ s]) (simp add: srun_nil)
    next
      case False
      let ?s1 = "s\<lparr>syncing := True, loops := loops s @ [store s]\<rparr>"
      have "\<not> syncing s" using inv Nil by (simp add: queue_inv_def)
      then have st: "step s Sync_start ?s1" using False by (rule step.sync_start)
      have "srun ?s1 (replicate (length (store s)) (Loop_settle 0 Resolved))
              (?s1\<lparr>remote := remote ?s1 @ store s, mem := [], store := [], loops := [], syncing := False\<rparr>)"
        using drain_loop [of "store s" ?s1] False Nil by simp
      let ?f = "?s1\<lparr>remote := remote ?s1 @ store s, mem := [], store := [], loops := [], syncing := False\<rparr>"
      have "srun s (Sync_start # replicate (length (store s)) (Loop_settle 0 Resolved)) ?f"
        using st ns \<open>srun ?s1 _ ?f\<close> by (auto intro: srun_step)
      then show ?thesis using ns ans [of "length (store s)"]
        by (intro exI [of _ "Sync_start # replicate (length (store s)) (Loop_settle 0 Resolved)"]
            exI [of _ ?f]) (simp add: answered_def)
    qed
  next
    case (Cons q qs)
    with inv have l: "loops s = [store s]" by (cases qs) (auto simp: queue_inv_def)
    with ne have "store s \<noteq> []" by simp
    from drain_loop [OF this l] ns ans [of "length (store s)"] show ?thesis
      by (intro exI [of _ "replicate (length (store s)) (Loop_settle 0 Resolved)"]
          exI [of _ "s\<lparr>remote := remote s @ store s, mem := [], store := [], loops := [], syncing := False\<rparr>"])
        simp
  qed
qed

lemma sreach_one_queued:
  "sreach (init_sys\<lparr>mem := [demo_payload ''A''], store := [demo_payload ''A''],
                    submitted := [demo_payload ''A'']\<rparr>)"
proof -
  have st: "step init_sys (Submit_offline (demo_payload ''A''))
      (init_sys\<lparr>mem := [demo_payload ''A''], store := [demo_payload ''A''],
                submitted := [demo_payload ''A'']\<rparr>)"
    using step.submit_offline [of init_sys "demo_payload ''A''"] by (simp add: init_sys_def)
  show ?thesis by (rule sreach_step [OF sreach_init _ st]) (simp add: init_sys_def)
qed

text \<open>
  C6. The queue eventually drains: from every state reachable by serialized steps,
  a client left alone on a network that answers every request reaches, in at most
  two more steps than there are queued records, a state with an empty queue, no
  flush running and no submission in flight, in which every record ever submitted
  is at the backend.
\<close>

theorem queue_eventually_drains:
  assumes r: "sreach s"
  shows "\<exists>es s'. srun s es s' \<and> list_all answered es \<and> length es \<le> length (store s) + 2
           \<and> store s' = [] \<and> sends s' = [] \<and> loops s' = [] \<and> set (submitted s') \<subseteq> set (remote s')"
proof -
  have inv: "queue_inv s" using r by (rule sreach_queue_inv)
  have "\<exists>es s'. srun s es s' \<and> list_all answered es \<and> length es \<le> length (store s) + 2
           \<and> store s' = [] \<and> sends s' = [] \<and> loops s' = []"
  proof (cases "sends s")
    case Nil
    from idle_drain [OF r Nil] show ?thesis by fastforce
  next
    case (Cons x xs)
    with inv have sx: "sends s = [x]" by (cases xs) (auto simp: queue_inv_def)
    obtain p snap where x: "x = (p, snap)" by (cases x)
    let ?s1 = "s\<lparr>sends := remove_nth 0 (sends s), remote := remote s @ [p]\<rparr>"
    have st: "step s (Send_settle 0 Resolved) ?s1" using sx x by (intro step.send_resolved) simp_all
    have r1: "sreach ?s1" by (rule sreach_step [OF r _ st]) simp
    have n1: "sends ?s1 = []" using sx by (simp add: remove_nth_def)
    from idle_drain [OF r1 n1] obtain es s' where "srun ?s1 es s'" "list_all answered es"
      "length es \<le> length (store s) + 1" "store s' = []" "sends s' = []" "loops s' = []" by auto
    then show ?thesis using st
      by (intro exI [of _ "Send_settle 0 Resolved # es"] exI [of _ s'])
        (auto intro: srun_step simp: answered_def)
  qed
  then obtain es s' where e: "srun s es s'" and rest: "list_all answered es" "length es \<le> length (store s) + 2"
    "store s' = []" "sends s' = []" "loops s' = []" by blast
  have "queue_inv s'" using srun_sreach [OF e r] by (rule sreach_queue_inv)
  then have "set (submitted s') \<subseteq> set (remote s')" using rest by (simp add: queue_inv_def)
  with e rest show ?thesis by blast
qed

theorem queue_eventually_drains_witness:
  "sreach (init_sys\<lparr>mem := [demo_payload ''A''], store := [demo_payload ''A''],
                    submitted := [demo_payload ''A'']\<rparr>)
   \<and> (\<exists>es s'. srun (init_sys\<lparr>mem := [demo_payload ''A''], store := [demo_payload ''A''],
                                submitted := [demo_payload ''A'']\<rparr>) es s'
          \<and> list_all answered es \<and> length es \<le> 3 \<and> store s' = [] \<and> sends s' = [] \<and> loops s' = []
          \<and> set (submitted s') \<subseteq> set (remote s'))"
  using queue_eventually_drains [OF sreach_one_queued] sreach_one_queued by (simp add: numeral_3_eq_3)

end
