(* ===== verification/Notifications.thy ===== *)
theory Notifications
  imports Session
begin

text \<open>
  The notification reconciliation of \<open>fetchNotifications\<close> (\<open>src/src/App.tsx\<close>):
  from one snapshot of the backend (the bulk read, a map from sheet name to its
  value) and the local read and dismissed id lists, build the feed: server-authored
  alerts addressed to the user, a synthetic ``system online'' alert, and alerts
  derived from low ratings in each inspection sheet, sorted newest first. The
  snapshot's acknowledgement list is also mirrored into the state, before any row
  is processed. A \<open>TypeError\<close> raised while deriving alerts (a truck cell that is a
  non-empty non-string) aborts the whole pass; the \<open>catch\<close> then leaves the feed as
  it was.
\<close>

datatype severity = Critical | Warning | Info | Success

record alert =
  a_id :: string
  a_title :: string
  a_message :: string
  a_type :: severity
  a_timestamp :: cell
  a_read :: bool
  a_module :: string
  a_action_link :: cell
  a_server :: bool

text \<open>A value of the snapshot: the rows of a sheet, a flat list (the acknowledgement
  ids), or an object (the validation lists).\<close>

datatype jval = JRows "cell list list" | JCells "cell list" | JObj "(string \<times> cell list) list"

type_synonym snapshot = "string \<Rightarrow> jval option"

datatype feed_error = Type_error

subsection \<open>Alerts derived from ratings\<close>

text \<open>\<open>rateIndex = type === 'General' ? 8 : 9\<close>.\<close>

definition rate_index :: "string \<Rightarrow> nat" where
  "rate_index ty = (if ty = ''General'' then 8 else 9)"

text \<open>\<open>truck = row[2] || 'Unknown Truck'\<close>.\<close>

definition truck_cell :: "cell list \<Rightarrow> cell" where
  "truck_cell row = js_or (row_get row 2) (Str ''Unknown Truck'')"

text \<open>\<open>`${type}_${new Date(timestamp).getTime()}_${truck.replace(/\s/g, '')}`\<close>;
  \<open>replace\<close> on a truck value that is not a string raises a \<open>TypeError\<close>.\<close>

definition derived_id :: "date_parser \<Rightarrow> string \<Rightarrow> cell list \<Rightarrow> feed_error + string" where
  "derived_id parse ty row =
     (case truck_cell row of
        Str s \<Rightarrow> Inr (ty @ ''_'' @ jsnum_string (date_ms parse (row_get row 1)) @ ''_'' @ strip_ws s)
      | _ \<Rightarrow> Inl Type_error)"

text \<open>The body of the \<open>forEach\<close> of \<open>processForAlerts\<close> for one row.\<close>

definition row_alert ::
  "date_parser \<Rightarrow> string list \<Rightarrow> cell list \<Rightarrow> string list \<Rightarrow> string \<Rightarrow> cell list
   \<Rightarrow> feed_error + alert option" where
  "row_alert parse dismissed acks read_list ty row =
     (case derived_id parse ty row of
        Inl e \<Rightarrow> Inl e
      | Inr aid \<Rightarrow>
          (if aid \<in> set dismissed then Inr None
           else if Str aid \<in> set acks then Inr None
           else
             (let rate = js_Number (row_get row (rate_index ty));
                  truck = js_String (truck_cell row);
                  is_read = aid \<in> set read_list;
                  mk = (\<lambda>title msg sev. \<lparr>a_id = aid, a_title = title, a_message = msg,
                          a_type = sev, a_timestamp = row_get row 1, a_read = is_read,
                          a_module = ty, a_action_link = Undef, a_server = False\<rparr>)
              in if js_le rate 2 then
                   Inr (Some (mk (''Critical: '' @ truck)
                     (ty @ '' Check rated '' @ jsnum_string rate @ ''/5. Urgent attention needed.'')
                     Critical))
                 else if js_eq rate 3 then
                   Inr (Some (mk (''Warning: '' @ truck)
                     (ty @ '' Check rated '' @ jsnum_string rate @ ''/5. Maintenance review required.'')
                     Warning))
                 else Inr None)))"

text \<open>\<open>forEach\<close> over the data rows: the first exception propagates.\<close>

fun collect_alerts :: "(cell list \<Rightarrow> feed_error + alert option) \<Rightarrow> cell list list
                        \<Rightarrow> feed_error + alert list" where
  "collect_alerts f [] = Inr []"
| "collect_alerts f (r # rs) =
     (case f r of
        Inl e \<Rightarrow> Inl e
      | Inr ao \<Rightarrow> (case collect_alerts f rs of
                    Inl e \<Rightarrow> Inl e
                  | Inr as \<Rightarrow> Inr ((case ao of None \<Rightarrow> [] | Some a \<Rightarrow> [a]) @ as)))"

definition process_for_alerts ::
  "date_parser \<Rightarrow> string list \<Rightarrow> cell list \<Rightarrow> string list \<Rightarrow> jval \<Rightarrow> string
   \<Rightarrow> feed_error + alert list" where
  "process_for_alerts parse dismissed acks read_list v ty =
     (case v of
        JRows rows \<Rightarrow>
          if length rows \<le> 1 then Inr []
          else collect_alerts (row_alert parse dismissed acks read_list ty) (tl rows)
      | _ \<Rightarrow> Inr [])"

subsection \<open>Server-authored alerts\<close>

text \<open>Columns ID(0), RecipientID(1), Type(2), Message(3), Date(4), IsRead(5),
  ActionLink(6).\<close>

definition server_severity :: "string \<Rightarrow> severity" where
  "server_severity raw =
     (if raw = ''critical'' then Critical else if raw = ''warning'' then Warning
      else if raw = ''success'' then Success else Info)"

definition addressed_to :: "user option \<Rightarrow> string \<Rightarrow> bool" where
  "addressed_to cu rid \<longleftrightarrow>
     (case cu of None \<Rightarrow> False
      | Some u \<Rightarrow> rid = to_lower (username u) \<or> rid = to_lower (role_name (role u)))
     \<or> rid = ''all''"

definition server_alert :: "user option \<Rightarrow> cell list \<Rightarrow> alert option" where
  "server_alert cu row =
     (let rid = to_lower (trim (js_String (row_get row 1)));
          read_on_server = (to_upper (js_String (row_get row 5)) = ''TRUE'')
      in if \<not> read_on_server \<and> addressed_to cu rid then
           Some \<lparr>a_id = js_String (row_get row 0), a_title = ''System Notification'',
                 a_message = js_String (row_get row 3),
                 a_type = server_severity (to_lower (js_String (row_get row 2))),
                 a_timestamp = row_get row 4, a_read = False, a_module = '''',
                 a_action_link = row_get row 6, a_server = True\<rparr>
         else None)"

definition system_alerts :: "user option \<Rightarrow> jval option \<Rightarrow> alert list" where
  "system_alerts cu v =
     (case v of
        Some (JRows rows) \<Rightarrow>
          if 1 < length rows then List.map_filter (server_alert cu) (tl rows) else []
      | _ \<Rightarrow> [])"

subsection \<open>The reconciliation pass\<close>

definition sys_online_id :: string where
  "sys_online_id = ''sys_online_v1''"

definition online_alert :: "cell \<Rightarrow> string list \<Rightarrow> alert" where
  "online_alert now read_list =
     \<lparr>a_id = sys_online_id, a_title = ''System Online'',
      a_message = ''Connected to SafetyCheck Database securely.'', a_type = Success,
      a_timestamp = now, a_read = sys_online_id \<in> set read_list, a_module = ''System'',
      a_action_link = Undef, a_server = False\<rparr>"

text \<open>
  The comparator \<open>new Date(b.timestamp).getTime() - new Date(a.timestamp).getTime()\<close>
  with a stable sort: newest first, ties in their original order. For timestamps the
  parser rejects the comparator yields \<open>NaN\<close>, which the sort reads as ``equal'';
  the model gives them the key of the epoch.
\<close>

definition ts_key :: "date_parser \<Rightarrow> alert \<Rightarrow> int" where
  "ts_key parse a = (case date_ms parse (a_timestamp a) of Fin t \<Rightarrow> - t | NaN \<Rightarrow> 0)"

definition feed_sort :: "date_parser \<Rightarrow> alert list \<Rightarrow> alert list" where
  "feed_sort parse as = sort_key (ts_key parse) as"


text \<open>The control requests the client sends to the backend without waiting for an
  answer: \<open>mark_notification_read\<close> and \<open>acknowledge_issue\<close> (with who and what role).\<close>

datatype request = Mark_read string | Ack_issue string string string

record notif_state =
  notifications :: "alert list"
  read_ids :: "string list"
  dismissed_ids :: "string list"
  global_ack_ids :: "cell list"
  stored_read :: "string list"
  stored_dismissed :: "string list"
  view :: string
  server_requests :: "request list"

record feed_ctx =
  f_user :: "user option"
  f_url :: string
  f_online :: bool
  f_parse :: date_parser
  f_now :: cell

definition inspection_tables :: "string list" where
  "inspection_tables = [''General'', ''Petroleum'', ''Petroleum_V2'', ''Acid'']"

text \<open>The derived alerts of every inspection sheet present in the snapshot, in the
  order of \<open>inspection_tables\<close>.\<close>

fun derive_all ::
  "date_parser \<Rightarrow> string list \<Rightarrow> cell list \<Rightarrow> string list \<Rightarrow> snapshot \<Rightarrow> string list
   \<Rightarrow> feed_error + alert list" where
  "derive_all parse dis acks rd json [] = Inr []"
| "derive_all parse dis acks rd json (ty # tys) =
     (let here = (case json ty of None \<Rightarrow> Inr [] | Some v \<Rightarrow> process_for_alerts parse dis acks rd v ty)
      in case here of
           Inl e \<Rightarrow> Inl e
         | Inr as \<Rightarrow> (case derive_all parse dis acks rd json tys of
                       Inl e \<Rightarrow> Inl e
                     | Inr bs \<Rightarrow> Inr (as @ bs)))"

definition cell_is_string :: "cell \<Rightarrow> bool" where
  "cell_is_string c = (case c of Str _ \<Rightarrow> True | _ \<Rightarrow> False)"

definition ack_cells :: "jval option \<Rightarrow> cell list" where
  "ack_cells v = (case v of Some (JCells cs) \<Rightarrow> cs | _ \<Rightarrow> [])"

text \<open>The feed one pass computes from a snapshot and the local lists.\<close>

definition reconcile :: "feed_ctx \<Rightarrow> snapshot \<Rightarrow> notif_state \<Rightarrow> feed_error + alert list" where
  "reconcile c json st =
     (let acks = ack_cells (json ''Acknowledgements'');
          sys = system_alerts (f_user c) (json ''SystemNotification'');
          own = (if sys_online_id \<in> set (dismissed_ids st) then []
                 else [online_alert (f_now c) (read_ids st)])
      in case derive_all (f_parse c) (dismissed_ids st) acks (read_ids st) json inspection_tables of
           Inl e \<Rightarrow> Inl e
         | Inr derived \<Rightarrow> Inr (feed_sort (f_parse c) (sys @ own @ derived)))"

text \<open>
  \<open>fetchNotifications\<close>: nothing without a backend or offline; nothing if the
  request or its JSON fails (\<open>None\<close>); otherwise the acknowledgement ids are
  mirrored first and the feed is replaced unless a row raises.
\<close>

definition fetch_notifications :: "feed_ctx \<Rightarrow> snapshot option \<Rightarrow> notif_state \<Rightarrow> notif_state" where
  "fetch_notifications c resp st =
     (if f_url c = [] \<or> \<not> f_online c then st
      else (case resp of
              None \<Rightarrow> st
            | Some json \<Rightarrow>
                (let st1 = st\<lparr>global_ack_ids := ack_cells (json ''Acknowledgements'')\<rparr> in
                 case reconcile c json st of
                   Inl e \<Rightarrow> st1
                 | Inr feed \<Rightarrow> st1\<lparr>notifications := feed\<rparr>)))"

subsection \<open>Where the alerts of a feed come from\<close>

lemma collect_alerts_member:
  "collect_alerts f rs = Inr as \<Longrightarrow> a \<in> set as \<Longrightarrow> \<exists>r \<in> set rs. f r = Inr (Some a)"
proof (induction rs arbitrary: as)
  case Nil
  then show ?case by simp
next
  case (Cons r rs)
  from Cons.prems(1) obtain ao bs where fr: "f r = Inr ao" and cr: "collect_alerts f rs = Inr bs"
    and as: "as = (case ao of None \<Rightarrow> [] | Some b \<Rightarrow> [b]) @ bs"
    by (auto split: sum.splits)
  show ?case
  proof (cases "a \<in> set bs")
    case True
    with Cons.IH [OF cr] show ?thesis by auto
  next
    case False
    with Cons.prems(2) as fr show ?thesis by (cases ao) auto
  qed
qed

lemma row_alert_Some:
  "row_alert parse dis acks rd ty row = Inr (Some a) \<Longrightarrow>
   derived_id parse ty row = Inr (a_id a) \<and> a_id a \<notin> set dis \<and> Str (a_id a) \<notin> set acks
   \<and> \<not> a_server a \<and> a_module a = ty \<and> a_read a = (a_id a \<in> set rd)"
  by (auto simp: row_alert_def Let_def split: sum.splits if_splits)

lemma process_for_alerts_member:
  "process_for_alerts parse dis acks rd v ty = Inr as \<Longrightarrow> a \<in> set as \<Longrightarrow>
   \<exists>row. row_alert parse dis acks rd ty row = Inr (Some a)"
  by (auto simp: process_for_alerts_def split: jval.splits if_splits dest: collect_alerts_member)

lemma derive_all_member:
  "derive_all parse dis acks rd json tys = Inr ds \<Longrightarrow> a \<in> set ds \<Longrightarrow>
   \<exists>ty \<in> set tys. \<exists>row. row_alert parse dis acks rd ty row = Inr (Some a)"
proof (induction tys arbitrary: ds)
  case Nil
  then show ?case by simp
next
  case (Cons ty tys)
  from Cons.prems(1) obtain as bs where
    here: "(case json ty of None \<Rightarrow> Inr [] | Some v \<Rightarrow> process_for_alerts parse dis acks rd v ty)
           = Inr as"
    and rest: "derive_all parse dis acks rd json tys = Inr bs" and ds: "ds = as @ bs"
    by (auto simp: Let_def split: sum.splits)
  show ?case
  proof (cases "a \<in> set bs")
    case True
    with Cons.IH [OF rest] show ?thesis by auto
  next
    case False
    with Cons.prems(2) ds have "a \<in> set as" by simp
    with here show ?thesis
      by (auto split: option.splits dest: process_for_alerts_member)
  qed
qed

lemma set_feed_sort [simp]: "set (feed_sort parse as) = set as"
  by (simp add: feed_sort_def)

lemma system_alerts_server:
  "a \<in> set (system_alerts cu v) \<Longrightarrow> a_server a \<and> a_module a = []"
  by (auto simp: system_alerts_def server_alert_def List.map_filter_def Let_def
      split: option.splits jval.splits if_splits)

lemma reconcile_member:
  assumes "reconcile c json st = Inr feed" and "a \<in> set feed"
  shows "a \<in> set (system_alerts (f_user c) (json ''SystemNotification''))
    \<or> (a = online_alert (f_now c) (read_ids st) \<and> sys_online_id \<notin> set (dismissed_ids st))
    \<or> (\<exists>ty \<in> set inspection_tables. \<exists>row. row_alert (f_parse c) (dismissed_ids st)
          (ack_cells (json ''Acknowledgements'')) (read_ids st) ty row = Inr (Some a))"
proof -
  from assms(1) obtain ds where
    ds: "derive_all (f_parse c) (dismissed_ids st) (ack_cells (json ''Acknowledgements''))
           (read_ids st) json inspection_tables = Inr ds"
    and feed: "feed = feed_sort (f_parse c)
        (system_alerts (f_user c) (json ''SystemNotification'')
         @ (if sys_online_id \<in> set (dismissed_ids st) then []
            else [online_alert (f_now c) (read_ids st)]) @ ds)"
    by (auto simp: reconcile_def Let_def split: sum.splits)
  from assms(2) feed
  have "a \<in> set (system_alerts (f_user c) (json ''SystemNotification''))
        \<or> (a = online_alert (f_now c) (read_ids st) \<and> sys_online_id \<notin> set (dismissed_ids st))
        \<or> a \<in> set ds"
    by (auto split: if_splits)
  then show ?thesis using derive_all_member [OF ds] by blast
qed

subsection \<open>Properties of the reconciliation\<close>

text \<open>The classification the specification gives: rating at most 2 is critical,
  exactly 3 is a warning, anything else (4 and up, or not a number) no alert.\<close>

primrec rating_severity :: "jsnum \<Rightarrow> severity option" where
  "rating_severity (Fin r) = (if r \<le> 2 then Some Critical else if r = 3 then Some Warning else None)"
| "rating_severity NaN = None"

text \<open>
  C10. Rating thresholds: for a row whose alert id is neither dismissed nor
  acknowledged, the derived alert exists exactly when the rating is at most 2 or
  exactly 3, and its severity is critical or warning accordingly.
\<close>

theorem row_alert_thresholds:
  assumes "derived_id parse ty row = Inr aid" and "aid \<notin> set dis" and "Str aid \<notin> set acks"
  shows "map_sum id (map_option a_type) (row_alert parse dis acks rd ty row)
           = Inr (rating_severity (js_Number (row_get row (rate_index ty))))"
  using assms
  by (cases "js_Number (row_get row (rate_index ty))") (simp_all add: row_alert_def Let_def)

definition demo_row :: "cell \<Rightarrow> cell list" where
  "demo_row rating = [Str ''r1'', Str ''2025-01-01'', Str ''AB 12'', Str '''', Str '''', Str '''',
     Str '''', Str '''', rating]"

lemma demo_row_id:
  "derived_id (\<lambda>_. Some 0) ''General'' (demo_row rating) = Inr ''General_0_AB12''"
  by (simp add: derived_id_def truck_cell_def demo_row_def js_or_def decimal_int_def
      decimal_nat.simps string_eval)

text \<open>Ratings 1 and 2 give critical, 3 a warning, 4 nothing.\<close>

theorem row_alert_thresholds_witness:
  "map_sum id (map_option a_type) (row_alert (\<lambda>_. Some 0) [] [] [] ''General'' (demo_row (Num 1)))
     = Inr (Some Critical)
   \<and> map_sum id (map_option a_type) (row_alert (\<lambda>_. Some 0) [] [] [] ''General'' (demo_row (Num 2)))
     = Inr (Some Critical)
   \<and> map_sum id (map_option a_type) (row_alert (\<lambda>_. Some 0) [] [] [] ''General'' (demo_row (Num 3)))
     = Inr (Some Warning)
   \<and> map_sum id (map_option a_type) (row_alert (\<lambda>_. Some 0) [] [] [] ''General'' (demo_row (Num 4)))
     = Inr None"
  using row_alert_thresholds [OF demo_row_id [of "Num 1"], of "[]" "[]" "[]"]
    row_alert_thresholds [OF demo_row_id [of "Num 2"], of "[]" "[]" "[]"]
    row_alert_thresholds [OF demo_row_id [of "Num 3"], of "[]" "[]" "[]"]
    row_alert_thresholds [OF demo_row_id [of "Num 4"], of "[]" "[]" "[]"]
  by (simp_all add: demo_row_def rate_index_def)

text \<open>
  C11. Dismiss permanence for locally owned alerts: no alert of a reconciled feed
  that is not server-authored (a derived alert or the system-online alert) has an id
  in the dismissed list, whatever the snapshot.
\<close>

theorem reconcile_respects_dismissed:
  "reconcile c json st = Inr feed \<Longrightarrow> a \<in> set feed \<Longrightarrow> \<not> a_server a \<Longrightarrow>
   a_id a \<notin> set (dismissed_ids st)"
  by (auto dest!: reconcile_member row_alert_Some system_alerts_server simp: online_alert_def)

text \<open>
  C12. Global acknowledgement suppression: no alert derived from an inspection
  sheet has an id that the snapshot's acknowledgement list contains, even when the
  underlying row still has a failing rating.
\<close>

theorem reconcile_respects_acknowledged:
  "reconcile c json st = Inr feed \<Longrightarrow> a \<in> set feed \<Longrightarrow> a_module a \<in> set inspection_tables \<Longrightarrow>
   Str (a_id a) \<notin> set (ack_cells (json ''Acknowledgements''))"
  by (auto dest!: reconcile_member row_alert_Some system_alerts_server
      simp: online_alert_def inspection_tables_def)

subsection \<open>A concrete pass\<close>

definition demo_alert :: alert where
  "demo_alert = \<lparr>a_id = ''General_0_AB12'', a_title = ''Critical: AB 12'',
     a_message = ''General Check rated 2/5. Urgent attention needed.'',
     a_type = Critical, a_timestamp = Str ''2025-01-01'', a_read = False,
     a_module = ''General'', a_action_link = Undef, a_server = False\<rparr>"

definition demo_json :: snapshot where
  "demo_json k = (if k = ''General'' then Some (JRows [[Str ''id''], demo_row (Num 2)])
     else if k = ''Acknowledgements'' then Some (JCells [Str ''General_0_XY'']) else None)"

definition demo_fctx :: feed_ctx where
  "demo_fctx = \<lparr>f_user = None, f_url = ''u'', f_online = True, f_parse = (\<lambda>_. Some 0),
     f_now = Str ''now''\<rparr>"

definition demo_nstate :: notif_state where
  "demo_nstate = \<lparr>notifications = [], read_ids = [], dismissed_ids = [''sys_online_v1''],
     global_ack_ids = [], stored_read = [], stored_dismissed = [], view = ''overview'',
     server_requests = []\<rparr>"

lemma demo_reconcile: "reconcile demo_fctx demo_json demo_nstate = Inr [demo_alert]"
  by code_simp

theorem reconcile_respects_dismissed_witness:
  "reconcile demo_fctx demo_json demo_nstate = Inr [demo_alert] \<and> demo_alert \<in> set [demo_alert]
   \<and> \<not> a_server demo_alert \<and> a_id demo_alert \<notin> set (dismissed_ids demo_nstate)"
  using reconcile_respects_dismissed [OF demo_reconcile, of demo_alert]
  by (simp add: demo_reconcile demo_alert_def)

theorem reconcile_respects_acknowledged_witness:
  "reconcile demo_fctx demo_json demo_nstate = Inr [demo_alert] \<and> demo_alert \<in> set [demo_alert]
   \<and> a_module demo_alert \<in> set inspection_tables
   \<and> Str (a_id demo_alert) \<notin> set (ack_cells (demo_json ''Acknowledgements''))"
  using reconcile_respects_acknowledged [OF demo_reconcile, of demo_alert]
  by (simp add: demo_reconcile demo_alert_def inspection_tables_def)



subsection \<open>Where the code departs from the specification\<close>

lemma set_map_filter_iff: "y \<in> set (List.map_filter f xs) \<longleftrightarrow> (\<exists>x \<in> set xs. f x = Some y)"
  by (induction xs) (auto simp: List.map_filter_simps split: option.splits)

lemma system_alerts_row:
  "a \<in> set (system_alerts cu v) \<longleftrightarrow>
   (\<exists>rows r. v = Some (JRows rows) \<and> 1 < length rows \<and> r \<in> set (tl rows) \<and> server_alert cu r = Some a)"
  by (auto simp: system_alerts_def set_map_filter_iff split: option.splits jval.splits)

lemma reconcile_Inr:
  "reconcile c json st = Inr feed \<Longrightarrow>
   set (system_alerts (f_user c) (json ''SystemNotification'')) \<subseteq> set feed"
  by (auto simp: reconcile_def Let_def split: sum.splits)

lemma collect_alerts_throws:
  "r \<in> set rs \<Longrightarrow> isl (f r) \<Longrightarrow> isl (collect_alerts f rs)"
  by (induction rs) (auto split: sum.splits)

lemma derive_all_throws:
  "ty \<in> set tys \<Longrightarrow> json ty = Some v \<Longrightarrow> isl (process_for_alerts parse dis acks rd v ty) \<Longrightarrow>
   isl (derive_all parse dis acks rd json tys)"
  by (induction tys) (auto simp: Let_def split: sum.splits option.splits)

definition demo_server_json :: snapshot where
  "demo_server_json k = (if k = ''SystemNotification'' then
       Some (JRows [[Str ''ID''], [Str ''N1'', Str ''all'', Str ''info'', Str ''Check tyres'',
                                  Str ''2025-01-02'', Bool False, Str '''']])
     else None)"

text \<open>
  C14. Dismissal does not reach server-authored alerts: every row of the
  \<open>SystemNotification\<close> sheet that is unread on the server and addressed to the
  user is in the feed of a successful pass, whatever the local dismissed list holds,
  so a server alert the user dismissed comes back at the next pass.
\<close>

theorem dismissed_server_alert_reappears:
  assumes "reconcile c json st = Inr feed"
    and "json ''SystemNotification'' = Some (JRows rows)" and "1 < length rows"
    and "r \<in> set (tl rows)" and "server_alert (f_user c) r = Some a"
  shows "a \<in> set feed"
  using reconcile_Inr [OF assms(1)] assms(2-5) system_alerts_row by blast

definition demo_n1 :: alert where
  "demo_n1 = \<lparr>a_id = ''N1'', a_title = ''System Notification'', a_message = ''Check tyres'',
     a_type = Info, a_timestamp = Str ''2025-01-02'', a_read = False, a_module = '''',
     a_action_link = Str '''', a_server = True\<rparr>"

lemma demo_server_reconcile:
  "reconcile demo_fctx demo_server_json (demo_nstate\<lparr>dismissed_ids := [''N1'', ''sys_online_v1'']\<rparr>)
     = Inr [demo_n1]"
  unfolding demo_n1_def by code_simp

theorem dismissed_server_alert_reappears_witness:
  "demo_server_json ''SystemNotification'' = Some (JRows [[Str ''ID''], [Str ''N1'', Str ''all'', Str ''info'',
      Str ''Check tyres'', Str ''2025-01-02'', Bool False, Str '''']])
   \<and> server_alert (f_user demo_fctx) [Str ''N1'', Str ''all'', Str ''info'', Str ''Check tyres'',
      Str ''2025-01-02'', Bool False, Str ''''] = Some demo_n1
   \<and> ''N1'' \<in> set (dismissed_ids (demo_nstate\<lparr>dismissed_ids := [''N1'', ''sys_online_v1'']\<rparr>))
   \<and> demo_n1 \<in> set [demo_n1]"
proof -
  have j: "demo_server_json ''SystemNotification'' = Some (JRows [[Str ''ID''], [Str ''N1'', Str ''all'',
      Str ''info'', Str ''Check tyres'', Str ''2025-01-02'', Bool False, Str '''']])"
    by (simp add: demo_server_json_def)
  have s: "server_alert (f_user demo_fctx) [Str ''N1'', Str ''all'', Str ''info'', Str ''Check tyres'',
      Str ''2025-01-02'', Bool False, Str ''''] = Some demo_n1"
    unfolding demo_n1_def by code_simp
  have "demo_n1 \<in> set [demo_n1]"
    by (rule dismissed_server_alert_reappears [OF demo_server_reconcile j _ _ s]) simp_all
  with j s show ?thesis by simp
qed

definition demo_mixed_json :: snapshot where
  "demo_mixed_json k =
     (if k = ''General'' then
        Some (JRows [[Str ''id''], [Str ''g1'', Str ''t'', Num 1502, Str '''', Str '''', Str '''',
                                   Str '''', Str '''', Num 2]])
      else if k = ''Acid'' then
        Some (JRows [[Str ''id''], [Str ''a1'', Str ''t'', Str ''ACD 9'', Str '''', Str '''', Str '''',
                                   Str '''', Str '''', Str '''', Num 1]])
      else None)"

text \<open>A truck cell that is truthy but not a string, in any data row of any inspection
  sheet of the snapshot, makes the whole pass throw.\<close>

lemma reconcile_bad_truck:
  assumes "ty \<in> set inspection_tables" and "json ty = Some (JRows rows)" and "1 < length rows"
    and "r \<in> set (tl rows)" and "js_truthy (row_get r 2)" and "\<not> cell_is_string (row_get r 2)"
  shows "reconcile c json st = Inl Type_error"
proof -
  let ?d = "dismissed_ids st" and ?k = "ack_cells (json ''Acknowledgements'')" and ?rd = "read_ids st"
  have "derived_id (f_parse c) ty r = Inl Type_error"
    using assms(5,6) by (cases "row_get r 2") (simp_all add: derived_id_def truck_cell_def js_or_def cell_is_string_def)
  then have "isl (row_alert (f_parse c) ?d ?k ?rd ty r)" by (simp add: row_alert_def)
  then have "isl (process_for_alerts (f_parse c) ?d ?k ?rd (JRows rows) ty)"
    using assms(3,4) collect_alerts_throws by (simp add: process_for_alerts_def)
  then have "isl (derive_all (f_parse c) ?d ?k ?rd json inspection_tables)"
    using derive_all_throws assms(1,2) by blast
  then show ?thesis
    by (auto simp: reconcile_def Let_def isl_def intro: feed_error.exhaust split: sum.splits)
qed

text \<open>
  C15. One bad cell blinds the whole feed: when any data row of any inspection
  sheet has a truck cell that is truthy but not a string (a registration the
  spreadsheet typed as a number), \<open>truck.replace\<close> throws, the pass fails and the
  feed keeps its old content, whatever the other rows and sheets hold. The
  specification has a parse failure affect only its own table.
\<close>

theorem numeric_truck_blinds_feed:
  assumes "ty \<in> set inspection_tables" and "json ty = Some (JRows rows)" and "1 < length rows"
    and "r \<in> set (tl rows)" and "js_truthy (row_get r 2)" and "\<not> cell_is_string (row_get r 2)"
  shows "reconcile c json st = Inl Type_error
         \<and> notifications (fetch_notifications c (Some json) st) = notifications st"
  using reconcile_bad_truck [where json = json and ty = ty, OF assms] by (simp add: fetch_notifications_def)

theorem numeric_truck_blinds_feed_witness:
  "''General'' \<in> set inspection_tables \<and> js_truthy (Num 1502) \<and> \<not> cell_is_string (Num 1502)
   \<and> reconcile demo_fctx demo_mixed_json demo_nstate = Inl Type_error
   \<and> notifications (fetch_notifications demo_fctx (Some demo_mixed_json) demo_nstate) = notifications demo_nstate"
proof -
  let ?r = "[Str ''g1'', Str ''t'', Num 1502, Str '''', Str '''', Str '''', Str '''', Str '''', Num 2]"
  have h: "''General'' \<in> set inspection_tables"
    "demo_mixed_json ''General'' = Some (JRows [[Str ''id''], ?r])"
    "1 < length [[Str ''id''], ?r]" "?r \<in> set (tl [[Str ''id''], ?r])"
    "js_truthy (row_get ?r 2)" "\<not> cell_is_string (row_get ?r 2)"
    by (simp_all add: inspection_tables_def demo_mixed_json_def cell_is_string_def)
  from numeric_truck_blinds_feed [where json = demo_mixed_json and ty = "''General''", OF h,
      of demo_fctx demo_nstate] h(1) show ?thesis
    by (simp add: cell_is_string_def)
qed

text \<open>
  C16. Targeting of server alerts: a server-authored alert of a successful pass
  comes from a row of the \<open>SystemNotification\<close> sheet that is not marked read on
  the server (\<open>IsRead\<close> is not \<open>TRUE\<close> in any case) and whose recipient, trimmed and
  lower-cased, is \<open>all\<close>, the user's lower-cased username or the user's lower-cased
  role; the alert carries that row's id.
\<close>

theorem server_alert_targeting:
  assumes "reconcile c json st = Inr feed" and "a \<in> set feed" and "a_server a"
  shows "\<exists>rows r. json ''SystemNotification'' = Some (JRows rows) \<and> r \<in> set (tl rows)
           \<and> to_upper (js_String (row_get r 5)) \<noteq> ''TRUE''
           \<and> (let rid = to_lower (trim (js_String (row_get r 1))) in
              rid = ''all'' \<or> (\<exists>u. f_user c = Some u \<and>
                                 (rid = to_lower (username u) \<or> rid = to_lower (role_name (role u)))))
           \<and> a_id a = js_String (row_get r 0)"
proof -
  have "a \<in> set (system_alerts (f_user c) (json ''SystemNotification''))"
    using reconcile_member [OF assms(1,2)] assms(3)
    by (auto dest: row_alert_Some simp: online_alert_def)
  then obtain rows r where j: "json ''SystemNotification'' = Some (JRows rows)" and r: "r \<in> set (tl rows)"
    and s: "server_alert (f_user c) r = Some a"
    by (auto simp: system_alerts_row)
  from s have "to_upper (js_String (row_get r 5)) \<noteq> ''TRUE''
      \<and> addressed_to (f_user c) (to_lower (trim (js_String (row_get r 1))))
      \<and> a_id a = js_String (row_get r 0)"
    by (auto simp: server_alert_def Let_def split: if_splits)
  then show ?thesis using j r by (auto simp: addressed_to_def Let_def split: option.splits)
qed

definition demo_user :: "role \<Rightarrow> user" where
  "demo_user r = \<lparr>username = ''jdoe'', name = ''J Doe'', role = r, position = ''''\<rparr>"

theorem server_alert_targeting_witness:
  "reconcile demo_fctx demo_server_json (demo_nstate\<lparr>dismissed_ids := [''N1'', ''sys_online_v1'']\<rparr>)
     = Inr [demo_n1] \<and> a_server demo_n1
   \<and> (\<exists>rows r. demo_server_json ''SystemNotification'' = Some (JRows rows) \<and> r \<in> set (tl rows)
        \<and> to_upper (js_String (row_get r 5)) \<noteq> ''TRUE''
        \<and> (let rid = to_lower (trim (js_String (row_get r 1))) in
           rid = ''all'' \<or> (\<exists>u. f_user demo_fctx = Some u \<and>
                              (rid = to_lower (username u) \<or> rid = to_lower (role_name (role u)))))
        \<and> a_id demo_n1 = js_String (row_get r 0))"
proof -
  have a: "a_server demo_n1" by (simp add: demo_n1_def)
  show ?thesis
    using server_alert_targeting [OF demo_server_reconcile _ a] demo_server_reconcile a by simp
qed

end
