(* ===== verification/Notification_Actions.thy ===== *)
theory Notification_Actions
  imports Notifications
begin

text \<open>
  The user's actions on the feed in \<open>src/src/App.tsx\<close>: \<open>handleMarkNotificationRead\<close>
  (optimistic read flag, then either a fire-and-forget request to the backend for a
  server-authored alert or the local read list, then the navigation an action link
  asks for), \<open>handleDismissNotification\<close>, \<open>handleGlobalAcknowledge\<close> and
  \<open>handleClearAllNotifications\<close>. Every local list that changes is persisted in
  the same step (\<open>stored_read\<close>, \<open>stored_dismissed\<close>).
\<close>

text \<open>The if-chain on the lower-cased action link; \<open>view:petroleum\<close> is tested
  first and also matches \<open>view:petroleum_v2\<close>. Admin-only targets compare the
  role exactly with \<open>'Admin'\<close>.\<close>

definition link_target :: "user option \<Rightarrow> string \<Rightarrow> string \<Rightarrow> string" where
  "link_target cu action cur =
     (let admin = (case cu of Some u \<Rightarrow> role_name (role u) = ''Admin'' | None \<Rightarrow> False) in
      if has_infix ''view:petroleum'' action then ''petroleum''
      else if has_infix ''view:general'' action then ''general''
      else if has_infix ''view:acid'' action then ''acid''
      else if has_infix ''view:settings'' action \<and> admin then ''settings''
      else if has_infix ''view:users'' action \<and> admin then ''users''
      else cur)"

text \<open>\<open>target.actionLink.toLowerCase()\<close> throws on a truthy link that is not a
  string, after the state updates: the view then stays.\<close>

definition follow_link :: "user option \<Rightarrow> alert option \<Rightarrow> string \<Rightarrow> string" where
  "follow_link cu target cur =
     (case target of
        Some t \<Rightarrow> (if js_truthy (a_action_link t) then
                     (case a_action_link t of Str s \<Rightarrow> link_target cu (to_lower s) cur | _ \<Rightarrow> cur)
                   else cur)
      | None \<Rightarrow> cur)"

definition mark_read :: "feed_ctx \<Rightarrow> string \<Rightarrow> notif_state \<Rightarrow> notif_state" where
  "mark_read c i st =
     (let target = find (\<lambda>n. a_id n = i) (notifications st);
          st1 = st\<lparr>notifications := map (\<lambda>n. if a_id n = i then n\<lparr>a_read := True\<rparr> else n)
                                      (notifications st)\<rparr>;
          st2 = (if (case target of Some t \<Rightarrow> a_server t | None \<Rightarrow> False)
                    \<and> f_url c \<noteq> [] \<and> f_online c
                 then st1\<lparr>server_requests := server_requests st1 @ [Mark_read i]\<rparr>
                 else (let r = read_ids st1 @ [i] in st1\<lparr>read_ids := r, stored_read := r\<rparr>))
      in st2\<lparr>view := follow_link (f_user c) target (view st2)\<rparr>)"

definition dismiss_notification :: "string \<Rightarrow> notif_state \<Rightarrow> notif_state" where
  "dismiss_notification i st =
     (let d = dismissed_ids st @ [i] in
      st\<lparr>notifications := filter (\<lambda>n. a_id n \<noteq> i) (notifications st),
         dismissed_ids := d, stored_dismissed := d\<rparr>)"

definition acknowledge :: "feed_ctx \<Rightarrow> string \<Rightarrow> notif_state \<Rightarrow> notif_state" where
  "acknowledge c i st =
     (if f_url c = [] \<or> \<not> f_online c then st
      else st\<lparr>notifications := filter (\<lambda>n. a_id n \<noteq> i) (notifications st),
              global_ack_ids := global_ack_ids st @ [Str i],
              server_requests := server_requests st @
                [Ack_issue i (case f_user c of Some u \<Rightarrow> (if name u = [] then ''Unknown'' else name u)
                                             | None \<Rightarrow> ''Unknown'')
                             (case f_user c of Some u \<Rightarrow> role_name (role u) | None \<Rightarrow> ''Unknown'')]\<rparr>)"

definition clear_all :: "notif_state \<Rightarrow> notif_state" where
  "clear_all st =
     (let ids = map a_id (notifications st);
          r = js_set_dedup (read_ids st @ ids)
      in st\<lparr>notifications := map (\<lambda>n. n\<lparr>a_read := True\<rparr>) (notifications st),
            read_ids := r, stored_read := r\<rparr>)"

subsection \<open>Properties of the actions\<close>

lemma mark_read_notifications [simp]:
  "notifications (mark_read c i st) =
     map (\<lambda>n. if a_id n = i then n\<lparr>a_read := True\<rparr> else n) (notifications st)"
  unfolding mark_read_def Let_def by (simp split: if_splits)

lemma mark_read_marks:
  assumes "a \<in> set (notifications (mark_read c i st))" and "a_id a = i"
  shows "a_read a"
proof -
  from assms(1) obtain n where "a = (if a_id n = i then n\<lparr>a_read := True\<rparr> else n)"
    unfolding mark_read_notifications set_map by (rule imageE)
  then show ?thesis using assms(2) by (cases "a_id n = i") simp_all
qed

lemma mark_read_server:
  "find (\<lambda>n. a_id n = i) (notifications st) = Some t \<Longrightarrow> a_server t \<Longrightarrow> f_url c \<noteq> [] \<Longrightarrow> f_online c \<Longrightarrow>
   read_ids (mark_read c i st) = read_ids st
   \<and> server_requests (mark_read c i st) = server_requests st @ [Mark_read i]"
  unfolding mark_read_def Let_def by simp

lemma mark_read_local:
  "\<not> ((case find (\<lambda>n. a_id n = i) (notifications st) of Some t \<Rightarrow> a_server t | None \<Rightarrow> False)
      \<and> f_url c \<noteq> [] \<and> f_online c) \<Longrightarrow>
   read_ids (mark_read c i st) = read_ids st @ [i]
   \<and> stored_read (mark_read c i st) = read_ids st @ [i]
   \<and> server_requests (mark_read c i st) = server_requests st"
  unfolding mark_read_def Let_def by simp

text \<open>
  C17. Read state follows provenance: marking an alert of the feed read sets its
  read flag; for a server-authored alert, online and with a backend, it sends one
  \<open>mark_notification_read\<close> request and leaves the local read list alone; for a
  locally owned alert it appends the id to the read list and persists that list.
\<close>

theorem mark_read_provenance:
  assumes "find (\<lambda>n. a_id n = i) (notifications st) = Some t"
  shows "(\<forall>a \<in> set (notifications (mark_read c i st)). a_id a = i \<longrightarrow> a_read a)
    \<and> (a_server t \<and> f_url c \<noteq> [] \<and> f_online c \<longrightarrow>
         read_ids (mark_read c i st) = read_ids st
         \<and> server_requests (mark_read c i st) = server_requests st @ [Mark_read i])
    \<and> (\<not> a_server t \<longrightarrow>
         read_ids (mark_read c i st) = read_ids st @ [i]
         \<and> stored_read (mark_read c i st) = read_ids st @ [i]
         \<and> server_requests (mark_read c i st) = server_requests st)"
proof (intro conjI impI ballI)
  fix a assume "a \<in> set (notifications (mark_read c i st))" and "a_id a = i"
  then show "a_read a" by (rule mark_read_marks)
qed (simp_all add: assms mark_read_server [OF assms] mark_read_local)

definition demo_feed_state :: "alert list \<Rightarrow> notif_state" where
  "demo_feed_state ns = demo_nstate\<lparr>notifications := ns\<rparr>"

theorem mark_read_provenance_witness:
  "find (\<lambda>n. a_id n = ''General_0_AB12'') (notifications (demo_feed_state [demo_alert]))
     = Some demo_alert
   \<and> read_ids (mark_read demo_fctx ''General_0_AB12'' (demo_feed_state [demo_alert]))
     = [''General_0_AB12'']
   \<and> stored_read (mark_read demo_fctx ''General_0_AB12'' (demo_feed_state [demo_alert]))
     = [''General_0_AB12'']"
proof -
  have f: "find (\<lambda>n. a_id n = ''General_0_AB12'') (notifications (demo_feed_state [demo_alert]))
     = Some demo_alert" by (simp add: demo_feed_state_def demo_alert_def)
  have "\<not> a_server demo_alert" by (simp add: demo_alert_def)
  then show ?thesis using f mark_read_provenance [OF f, of demo_fctx]
    by (simp add: demo_feed_state_def demo_nstate_def)
qed

text \<open>
  Offline, a server-authored alert is marked read in the local read list:
  the condition of the server branch includes connectivity, so the local branch
  runs and records the server's id in \<open>readIds\<close> and storage, which the
  specification reserves for derived alerts; no request reaches the backend, so the
  alert is shown unread again on the next pass.
\<close>

definition demo_server_alert :: alert where
  "demo_server_alert = \<lparr>a_id = ''N1'', a_title = ''System Notification'', a_message = ''Check tyres'',
     a_type = Info, a_timestamp = Str ''2025-01-02'', a_read = False, a_module = '''',
     a_action_link = Str '''', a_server = True\<rparr>"

theorem offline_mark_read_of_server_alert_is_local:
  "read_ids (mark_read (demo_fctx\<lparr>f_online := False\<rparr>) ''N1'' (demo_feed_state [demo_server_alert]))
     = [''N1'']
   \<and> server_requests (mark_read (demo_fctx\<lparr>f_online := False\<rparr>) ''N1''
                        (demo_feed_state [demo_server_alert])) = []"
  by (simp add: mark_read_local demo_feed_state_def demo_nstate_def)

text \<open>
  Action links: \<open>view:petroleum_v2\<close> opens the first petroleum module, not the
  second, because the \<open>view:petroleum\<close> test matches it first; \<open>view:users\<close> is
  followed for an Admin and ignored for an Inspector.
\<close>

theorem action_link_targets:
  "link_target (Some (demo_user Inspector)) ''view:petroleum_v2'' ''overview'' = ''petroleum''
   \<and> link_target (Some (demo_user Admin)) ''view:users'' ''overview'' = ''users''
   \<and> link_target (Some (demo_user Inspector)) ''view:users'' ''overview'' = ''overview''"
  by code_simp

text \<open>
  C20. Dismiss permanence across a refresh: after a dismissal, no later
  reconciliation pass (on any snapshot) puts a locally owned alert with that id in
  the feed, and the dismissal is persisted.
\<close>

theorem dismiss_then_reconcile:
  assumes "reconcile c json (dismiss_notification i st) = Inr feed"
  shows "(\<forall>a \<in> set feed. \<not> a_server a \<longrightarrow> a_id a \<noteq> i)
    \<and> i \<notin> a_id ` set (notifications (dismiss_notification i st))
    \<and> stored_dismissed (dismiss_notification i st) = dismissed_ids (dismiss_notification i st)"
proof (intro conjI ballI impI)
  fix a assume a: "a \<in> set feed" and ns: "\<not> a_server a"
  have d: "i \<in> set (dismissed_ids (dismiss_notification i st))"
    by (simp add: dismiss_notification_def Let_def)
  from reconcile_member [OF assms a] ns
  have "a_id a \<notin> set (dismissed_ids (dismiss_notification i st))"
    by (auto dest!: row_alert_Some system_alerts_server simp: online_alert_def)
  with d show "a_id a \<noteq> i" by auto
qed (auto simp: dismiss_notification_def Let_def)

theorem dismiss_then_reconcile_witness:
  "reconcile demo_fctx demo_json (dismiss_notification ''General_0_AB12'' demo_nstate) = Inr []
   \<and> stored_dismissed (dismiss_notification ''General_0_AB12'' demo_nstate)
       = [''sys_online_v1'', ''General_0_AB12'']"
proof -
  have r: "reconcile demo_fctx demo_json (dismiss_notification ''General_0_AB12'' demo_nstate)
             = Inr []" by code_simp
  from dismiss_then_reconcile [OF r]
  have "stored_dismissed (dismiss_notification ''General_0_AB12'' demo_nstate)
          = [''sys_online_v1'', ''General_0_AB12'']"
    by (simp add: dismiss_notification_def demo_nstate_def Let_def)
  with r show ?thesis by (rule conjI)
qed

text \<open>
  Clear all: every alert of the feed is read afterwards, and the persisted
  read list is exactly the old read ids and the feed's ids, without repetitions.
\<close>

theorem clear_all_result:
  "(\<forall>a \<in> set (notifications (clear_all st)). a_read a)
   \<and> set (read_ids (clear_all st)) = set (read_ids st) \<union> a_id ` set (notifications st)
   \<and> distinct (read_ids (clear_all st))
   \<and> stored_read (clear_all st) = read_ids (clear_all st)
   \<and> map a_id (notifications (clear_all st)) = map a_id (notifications st)"
  by (simp add: clear_all_def Let_def comp_def)

theorem clear_all_result_witness:
  "read_ids (clear_all (demo_feed_state [demo_alert, demo_server_alert]))
     = [''General_0_AB12'', ''N1'']
   \<and> map a_read (notifications (clear_all (demo_feed_state [demo_alert, demo_server_alert])))
       = [True, True]
   \<and> distinct (read_ids (clear_all (demo_feed_state [demo_alert, demo_server_alert])))"
proof -
  have r: "read_ids (clear_all (demo_feed_state [demo_alert, demo_server_alert]))
     = [''General_0_AB12'', ''N1'']" by code_simp
  from clear_all_result [of "demo_feed_state [demo_alert, demo_server_alert]"] r show ?thesis
    by (simp add: clear_all_def demo_feed_state_def Let_def)
qed

text \<open>
  Global acknowledgement: offline or without a backend nothing happens;
  otherwise the alert leaves the feed at once, its id joins the local mirror of
  acknowledged ids, and one \<open>acknowledge_issue\<close> request for it is sent.
\<close>

theorem acknowledge_result:
  "(f_url c = [] \<or> \<not> f_online c \<longrightarrow> acknowledge c i st = st)
   \<and> (f_url c \<noteq> [] \<and> f_online c \<longrightarrow>
        i \<notin> a_id ` set (notifications (acknowledge c i st))
        \<and> Str i \<in> set (global_ack_ids (acknowledge c i st))
        \<and> (\<exists>who r. server_requests (acknowledge c i st) = server_requests st @ [Ack_issue i who r]))"
  by (auto simp: acknowledge_def)

theorem acknowledge_result_witness:
  "acknowledge (demo_fctx\<lparr>f_online := False\<rparr>) ''General_0_AB12'' (demo_feed_state [demo_alert])
     = demo_feed_state [demo_alert]
   \<and> notifications (acknowledge demo_fctx ''General_0_AB12'' (demo_feed_state [demo_alert])) = []
   \<and> Str ''General_0_AB12'' \<in> set (global_ack_ids (acknowledge demo_fctx ''General_0_AB12''
                                                    (demo_feed_state [demo_alert])))"
proof -
  have n: "notifications (acknowledge demo_fctx ''General_0_AB12'' (demo_feed_state [demo_alert])) = []"
    by (simp add: acknowledge_def demo_fctx_def demo_feed_state_def demo_alert_def)
  have c: "f_url (demo_fctx\<lparr>f_online := False\<rparr>) = [] \<or> \<not> f_online (demo_fctx\<lparr>f_online := False\<rparr>)"
    and on: "f_url demo_fctx \<noteq> [] \<and> f_online demo_fctx"
    by (simp_all add: demo_fctx_def)
  from acknowledge_result [of "demo_fctx\<lparr>f_online := False\<rparr>" "''General_0_AB12''" "demo_feed_state [demo_alert]"]
       acknowledge_result [of demo_fctx "''General_0_AB12''" "demo_feed_state [demo_alert]"] c on n
  show ?thesis by blast
qed
end
