(* ===== verification/Backend_Store.thy ===== *)
theory Backend_Store
  imports Notifications "HOL-Library.AList"
begin

text \<open>
  The spreadsheet behind the backend script (\<open>BACKEND_SCRIPT_TEMPLATE\<close> in
  \<open>src/src/constants.ts\<close>) and the Apps Script calls the script makes on it. A
  spreadsheet is the list of its sheets in creation order (\<open>ss.getSheets()\<close>), a
  sheet the list of its rows from row 1 (the header). Writing a string into a cell
  goes through the spreadsheet's automatic typing, a parameter \<open>autotype\<close>: Sheets
  stores \<open>"1502"\<close> as the number 1502. The theory holds the reads
  (\<open>getDataRange().getValues()\<close>, \<open>getLastRow\<close>), the writes (\<open>appendRow\<close>,
  \<open>setValue\<close>, \<open>deleteRow\<close>), the bulk read \<open>doGet\<close> and the validation-list
  maintenance \<open>updateValidationSingle\<close>/\<open>updateValidationData\<close>.
\<close>

type_synonym sheet = "cell list list"
type_synonym spreadsheet = "(string \<times> sheet) list"
type_synonym autotype = "string \<Rightarrow> cell"

definition get_sheet :: "spreadsheet \<Rightarrow> string \<Rightarrow> sheet option" where
  "get_sheet ss n = map_of ss n"

text \<open>Replacing a sheet keeps its position; a new sheet (\<open>insertSheet\<close>) goes last.\<close>

definition put_sheet :: "spreadsheet \<Rightarrow> string \<Rightarrow> sheet \<Rightarrow> spreadsheet" where
  "put_sheet ss n sh = AList.update n sh ss"

text \<open>What a cell holds after a value is written: strings are typed by the
  spreadsheet, \<open>null\<close> and \<open>undefined\<close> leave the cell empty.\<close>

definition write_cell :: "autotype \<Rightarrow> cell \<Rightarrow> cell" where
  "write_cell at v = (case v of Str s \<Rightarrow> at s | Null \<Rightarrow> Str [] | Undef \<Rightarrow> Str [] | _ \<Rightarrow> v)"

text \<open>One instance of the automatic typing, used in the concrete runs: a
  non-empty string of decimal digits is stored as that number (Sheets also
  recognises fractions, dates and booleans).\<close>

definition digits_autotype :: autotype where
  "digits_autotype s = (if s = [] then Str s
                        else (case digits_value 0 s of Some n \<Rightarrow> Num n | None \<Rightarrow> Str s))"

definition append_row :: "autotype \<Rightarrow> cell list \<Rightarrow> sheet \<Rightarrow> sheet" where
  "append_row at vals sh = sh @ [map (write_cell at) vals]"

definition pad_row :: "nat \<Rightarrow> cell list \<Rightarrow> cell list" where
  "pad_row n r = r @ replicate (n - length r) (Str [])"

definition width :: "sheet \<Rightarrow> nat" where
  "width sh = foldr (\<lambda>r m. max (length r) m) sh 0"

text \<open>\<open>getDataRange().getValues()\<close>: a rectangle, short rows filled with empty
  cells.\<close>

definition sheet_values :: "sheet \<Rightarrow> cell list list" where
  "sheet_values sh = map (pad_row (width sh)) sh"

text \<open>\<open>getRange(r, c).setValue(v)\<close>, 1-based; rows and columns past the end are
  created empty.\<close>

definition set_cell :: "autotype \<Rightarrow> sheet \<Rightarrow> nat \<Rightarrow> nat \<Rightarrow> cell \<Rightarrow> sheet" where
  "set_cell at sh r c v =
     (let sh1 = sh @ replicate (r - length sh) [];
          row = pad_row c (sh1 ! (r - 1))
      in sh1[r - 1 := row[c - 1 := write_cell at v]])"

definition delete_row :: "sheet \<Rightarrow> nat \<Rightarrow> sheet" where
  "delete_row sh r = take (r - 1) sh @ drop r sh"

subsection \<open>The bulk read \<open>doGet\<close>\<close>

text \<open>The value of one sheet in the JSON answer: \<open>Validation_Data\<close> as an object of
  columns (non-empty, distinct values), \<open>Acknowledgements\<close> as the list of the first
  column's cells, any other sheet as its header and its last 200 rows.\<close>

definition validation_columns :: "cell list list \<Rightarrow> (string \<times> cell list) list" where
  "validation_columns vals =
     fold (\<lambda>(h, j) obj. AList.update (js_String h)
             (js_set_dedup (filter (\<lambda>c. c \<noteq> Str []) (map (\<lambda>r. r ! j) (tl vals)))) obj)
          (zip (hd vals) [0..<length (hd vals)]) []"

definition sheet_view :: "string \<Rightarrow> sheet \<Rightarrow> jval" where
  "sheet_view nm sh =
     (let lr = length sh; vals = sheet_values sh in
      if nm = ''Validation_Data'' then
        (if 1 < lr then JObj (validation_columns vals) else JObj [])
      else if nm = ''Acknowledgements'' then
        (if 1 < lr then JCells (map (\<lambda>r. r ! 0) (tl vals)) else JCells [])
      else if 0 < lr then
        (let start = max 1 (lr - 200) in
         JRows ((if 1 < start then [hd vals] else []) @ drop (start - 1) vals))
      else JRows [])"

definition do_get :: "spreadsheet \<Rightarrow> snapshot" where
  "do_get ss k = (if k = ''Users'' then None else map_option (sheet_view k) (get_sheet ss k))"

subsection \<open>Validation lists\<close>

definition validation_headers :: "string list" where
  "validation_headers = [''Truck_Reg_No'', ''Trailer_Reg_No'', ''Driver_Name'', ''Inspector_Name'',
     ''Location'', ''Position'']"

text \<open>\<open>fullCol\<close>: the column as strings from row 1 down to the last row, followed
  by one empty cell for the rows below the data (\<open>getMaxRows()\<close> exceeds the last
  row; when it does not, the script's fallback \<open>getLastRow() + 1\<close> is the same
  row).\<close>

definition full_col :: "sheet \<Rightarrow> nat \<Rightarrow> string list" where
  "full_col sh c = map (\<lambda>r. js_String (row_get (pad_row c r) (c - 1))) sh @ [[]]"

text \<open>\<open>updateValidationSingle(ss, headerName, value)\<close>. \<open>None\<close> is the exception
  \<open>getRange\<close> raises when the sheet exists but has no column.\<close>

definition update_validation_single ::
  "autotype \<Rightarrow> string \<Rightarrow> cell \<Rightarrow> spreadsheet \<Rightarrow> spreadsheet option" where
  "update_validation_single at h v ss =
     (if \<not> js_truthy v \<or> trim (js_String v) = [] then Some ss
      else
        (let val = trim (js_String v);
             vs = (case get_sheet ss ''Validation_Data'' of
                     Some sh \<Rightarrow> sh
                   | None \<Rightarrow> append_row at (map Str validation_headers) [])
         in if width vs = 0 then None
            else
              (let hdrs = pad_row (width vs) (hd vs);
                   (vs1, col) = (case index_from (\<lambda>c. c = Str h) 0 hdrs of
                                   Some i \<Rightarrow> (vs, Suc i)
                                 | None \<Rightarrow> (set_cell at vs 1 (Suc (length hdrs)) (Str h),
                                            Suc (length hdrs)));
                   fc = full_col vs1 col
               in if val \<in> set fc then Some (put_sheet ss ''Validation_Data'' vs1)
                  else
                    (let target = (case index_from (\<lambda>s. s = []) 1 (drop 1 fc) of
                                     Some i \<Rightarrow> Suc i
                                   | None \<Rightarrow> Suc (length vs1))
                     in Some (put_sheet ss ''Validation_Data'' (set_cell at vs1 target col (Str val)))))))"

text \<open>The fields \<open>updateValidationData\<close> reads from a data row: General rows and
  the tanker rows keep the people and the location in different columns.\<close>

definition validation_fields :: "string \<Rightarrow> cell list \<Rightarrow> (string \<times> cell) list" where
  "validation_fields sheet row =
     (if sheet = ''General'' then
        [(''Truck_Reg_No'', row_get row 2), (''Trailer_Reg_No'', row_get row 3),
         (''Driver_Name'', row_get row 5), (''Inspector_Name'', row_get row 4),
         (''Location'', row_get row 6)]
      else
        [(''Truck_Reg_No'', row_get row 2), (''Trailer_Reg_No'', row_get row 3),
         (''Driver_Name'', row_get row 8), (''Inspector_Name'', row_get row 7),
         (''Location'', row_get row 5)])"

text \<open>The five updates in order; an exception stops the rest and is swallowed by
  the \<open>catch\<close>, the updates made before it stay.\<close>

fun update_all :: "autotype \<Rightarrow> (string \<times> cell) list \<Rightarrow> spreadsheet \<Rightarrow> spreadsheet" where
  "update_all at [] ss = ss"
| "update_all at ((h, v) # fs) ss =
     (case update_validation_single at h v ss of None \<Rightarrow> ss | Some ss' \<Rightarrow> update_all at fs ss')"

definition update_validation_data :: "autotype \<Rightarrow> string \<Rightarrow> cell list \<Rightarrow> spreadsheet \<Rightarrow> spreadsheet" where
  "update_validation_data at sheet row ss = update_all at (validation_fields sheet row) ss"

subsection \<open>Facts about the store\<close>

lemma get_put_sheet [simp]:
  "get_sheet (put_sheet ss n sh) m = (if m = n then Some sh else get_sheet ss m)"
  by (simp add: get_sheet_def put_sheet_def update_conv')

lemma update_validation_single_other:
  "update_validation_single at h v ss = Some ss' \<Longrightarrow> n \<noteq> ''Validation_Data'' \<Longrightarrow>
   get_sheet ss' n = get_sheet ss n"
  by (auto simp: update_validation_single_def Let_def split: if_splits option.splits prod.splits)

lemma update_all_other:
  "n \<noteq> ''Validation_Data'' \<Longrightarrow> get_sheet (update_all at fs ss) n = get_sheet ss n"
  by (induction at fs ss rule: update_all.induct)
    (auto simp: update_validation_single_other split: option.splits)

lemma update_validation_data_other:
  "n \<noteq> ''Validation_Data'' \<Longrightarrow> get_sheet (update_validation_data at sh row ss) n = get_sheet ss n"
  by (simp add: update_validation_data_def update_all_other)

lemma row_get_pad_lt: "i < length r \<Longrightarrow> row_get (pad_row n r) i = r ! i"
  by (simp add: pad_row_def row_get_def nth_append)

lemma sheet_view_last:
  assumes "nm \<noteq> ''Validation_Data''" and "nm \<noteq> ''Acknowledgements''" and "1 < length sh"
  obtains rows where "sheet_view nm sh = JRows rows" and "1 < length rows"
    and "last rows = last (sheet_values sh)"
proof -
  let ?vals = "sheet_values sh"
  let ?start = "max 1 (length sh - 200)"
  have lv: "length ?vals = length sh" by (simp add: sheet_values_def)
  show ?thesis
  proof (cases "1 < ?start")
    case True
    let ?rows = "[hd ?vals] @ drop (?start - 1) ?vals"
    have ne: "drop (?start - 1) ?vals \<noteq> []" using lv assms(3) by (auto simp: max_def)
    have "sh \<noteq> []" "1 < length sh - 200" using True assms(3) by auto
    then have "sheet_view nm sh = JRows ?rows" using assms by (simp add: sheet_view_def Let_def)
    moreover have "1 < length ?rows" using lv assms(3) by (auto simp: max_def)
    moreover have "last ?rows = last ?vals" using ne lv by (simp add: last_drop)
    ultimately show ?thesis by (rule that)
  next
    case False
    then have "sheet_view nm sh = JRows ?vals" using assms by (simp add: sheet_view_def Let_def sheet_values_def)
    moreover have "1 < length ?vals" using lv assms(3) by simp
    ultimately show ?thesis using that by blast
  qed
qed

end
