(* ===== verification/Backend.thy ===== *)
theory Backend
  imports Backend_Store Forms
begin

text \<open>
  The handlers of \<open>doPost\<close> in the backend script (\<open>src/src/constants.ts\<close>), each
  a function from the parsed request body and the spreadsheet to the JSON answer
  and the new spreadsheet. The time stamp \<open>new Date().toISOString()\<close> is the
  parameter \<open>now\<close>; the exception text \<open>err.toString()\<close> is abstracted to
  \<open>script_exception\<close>. \<open>doPost\<close> runs under \<open>lock.tryLock(10000)\<close>, whose result
  is ignored: the model runs each request atomically, which the script guarantees
  only when the lock is obtained.
\<close>

text \<open>The parsed body: its scalar fields (\<open>undefined\<close> when absent), the arrays
  \<open>headers\<close> and \<open>row\<close> when present, and \<open>JSON.stringify(body.preferences)\<close>
  when that is truthy.\<close>

record post_body =
  b_fields :: "string \<Rightarrow> cell"
  b_headers :: "cell list option"
  b_row :: "cell list option"
  b_prefs :: "string option"

datatype response =
    Ok_sheet string
  | Ok_message string
  | Fail_message string
  | Fail_code string string
  | Ok_login cell cell string cell
  | Ok_users "(cell \<times> cell \<times> cell \<times> string \<times> cell \<times> cell) list"
  | Ok_ids "string list"

definition script_exception :: string where
  "script_exception = ''Exception''"

text \<open>\<open>String(x).trim().toLowerCase()\<close>, the key usernames are compared by.\<close>

definition user_key :: "cell \<Rightarrow> string" where
  "user_key c = to_lower (trim (js_String c))"

text \<open>\<open>body.f ? String(body.f).trim().toLowerCase() : ""\<close>.\<close>

definition body_key :: "post_body \<Rightarrow> string \<Rightarrow> string" where
  "body_key b f = (if js_truthy (b_fields b f) then user_key (b_fields b f) else [])"

definition users_header :: "string list" where
  "users_header = [''Username'', ''Password'', ''Name'', ''Role'', ''Position'', ''Last_Login'',
     ''Preferences'']"

definition ack_header :: "string list" where
  "ack_header = [''Issue_ID'', ''Acknowledged_By'', ''Role'', ''Timestamp'']"

subsection \<open>Users\<close>

definition handle_login :: "autotype \<Rightarrow> string \<Rightarrow> post_body \<Rightarrow> spreadsheet \<Rightarrow> response \<times> spreadsheet" where
  "handle_login at now b ss =
     (let username = body_key b ''username'';
          password = (if js_truthy (b_fields b ''password'') then js_String (b_fields b ''password'') else [])
      in case get_sheet ss ''Users'' of
           None \<Rightarrow> (Fail_code ''NO_USERS'' ''No users found in database.'', ss)
         | Some sh \<Rightarrow>
             if length sh \<le> 1 then (Fail_code ''NO_USERS'' ''No users found in database.'', ss)
             else
               (let data = sheet_values sh in
                case index_from (\<lambda>row. user_key (row_get row 0) = username
                                       \<and> js_String (row_get row 1) = password) 1 (drop 1 data) of
                  None \<Rightarrow> (Fail_code ''INVALID_CREDENTIALS'' ''Invalid username or password.'', ss)
                | Some i \<Rightarrow>
                    (let row = data ! i in
                     (Ok_login (row_get row 0) (row_get row 2) (trim (js_String (row_get row 3)))
                        (js_or (row_get row 4) (Str [])),
                      put_sheet ss ''Users'' (set_cell at sh (Suc i) 6 (Str now))))))"

text \<open>The two optional validation updates after a user is written; an exception
  there reaches the \<open>catch\<close> of \<open>doPost\<close>.\<close>

definition learn_user :: "autotype \<Rightarrow> post_body \<Rightarrow> string \<Rightarrow> spreadsheet \<Rightarrow> response \<times> spreadsheet" where
  "learn_user at b msg ss =
     (case (if js_truthy (b_fields b ''name'')
            then update_validation_single at ''Inspector_Name'' (b_fields b ''name'') ss else Some ss) of
        None \<Rightarrow> (Fail_message script_exception, ss)
      | Some ss1 \<Rightarrow>
          (case (if js_truthy (b_fields b ''position'')
                 then update_validation_single at ''Position'' (b_fields b ''position'') ss1 else Some ss1) of
             None \<Rightarrow> (Fail_message script_exception, ss1)
           | Some ss2 \<Rightarrow> (Ok_message msg, ss2)))"

definition handle_register_user ::
  "autotype \<Rightarrow> string \<Rightarrow> post_body \<Rightarrow> spreadsheet \<Rightarrow> response \<times> spreadsheet" where
  "handle_register_user at now b ss =
     (let sh0 = (case get_sheet ss ''Users'' of
                   Some sh \<Rightarrow> sh | None \<Rightarrow> append_row at (map Str users_header) []);
          ss0 = put_sheet ss ''Users'' sh0;
          username = body_key b ''username''
      in if list_ex (\<lambda>row. user_key (row_get row 0) = username) (drop 1 (sheet_values sh0))
         then (Fail_message ''Username already exists.'', ss0)
         else
           learn_user at b ''User created.''
             (put_sheet ss0 ''Users''
                (append_row at [Str username, b_fields b ''password'', b_fields b ''name'',
                                Str (trim (js_String (b_fields b ''role''))),
                                js_or (b_fields b ''position'') (Str []), Str now, Str ''{}''] sh0)))"

definition handle_update_user :: "autotype \<Rightarrow> post_body \<Rightarrow> spreadsheet \<Rightarrow> response \<times> spreadsheet" where
  "handle_update_user at b ss =
     (case get_sheet ss ''Users'' of
        None \<Rightarrow> (Fail_message ''Database not found.'', ss)
      | Some sh \<Rightarrow>
          (let f = b_fields b;
               cur = (if js_truthy (f ''originalUsername'') then user_key (f ''originalUsername'')
                      else user_key (f ''username''))
           in case index_from (\<lambda>row. user_key (row_get row 0) = cur) 1 (drop 1 (sheet_values sh)) of
                None \<Rightarrow> (Fail_message ''User not found.'', ss)
              | Some i \<Rightarrow>
                  (let r = Suc i;
                       sh1 = (if js_truthy (f ''username'') \<and> user_key (f ''username'') \<noteq> cur
                              then set_cell at sh r 1 (Str (user_key (f ''username''))) else sh);
                       sh2 = (if js_truthy (f ''name'') then set_cell at sh1 r 3 (f ''name'') else sh1);
                       sh3 = (if js_truthy (f ''role'')
                              then set_cell at sh2 r 4 (Str (trim (js_String (f ''role'')))) else sh2);
                       sh4 = (if f ''position'' \<noteq> Undef then set_cell at sh3 r 5 (f ''position'') else sh3);
                       sh5 = (case b_prefs b of Some p \<Rightarrow> set_cell at sh4 r 7 (Str p) | None \<Rightarrow> sh4);
                       sh6 = (if js_truthy (f ''password'') \<and> trim (js_String (f ''password'')) \<noteq> []
                              then set_cell at sh5 r 2 (f ''password'') else sh5)
                   in learn_user at b ''User updated.'' (put_sheet ss ''Users'' sh6))))"

definition handle_get_users :: "spreadsheet \<Rightarrow> response \<times> spreadsheet" where
  "handle_get_users ss =
     (case get_sheet ss ''Users'' of
        None \<Rightarrow> (Ok_users [], ss)
      | Some sh \<Rightarrow>
          (Ok_users (map (\<lambda>row. (row_get row 0, row_get row 1, row_get row 2,
                                 trim (js_String (row_get row 3)), row_get row 4, row_get row 5))
                        (filter (\<lambda>row. js_truthy (row_get row 0)) (drop 1 (sheet_values sh)))), ss))"

definition handle_delete_user :: "post_body \<Rightarrow> spreadsheet \<Rightarrow> response \<times> spreadsheet" where
  "handle_delete_user b ss =
     (case get_sheet ss ''Users'' of
        None \<Rightarrow> (Fail_message ''Database not found.'', ss)
      | Some sh \<Rightarrow>
          (let username = body_key b ''username'' in
           case index_from (\<lambda>row. user_key (row_get row 0) = username) 1 (drop 1 (sheet_values sh)) of
             None \<Rightarrow> (Fail_message ''User not found.'', ss)
           | Some i \<Rightarrow> (Ok_message ''User deleted.'', put_sheet ss ''Users'' (delete_row sh (Suc i)))))"

subsection \<open>Acknowledgements and server notifications\<close>

text \<open>The duplicate test runs over every row, the header included.\<close>

definition handle_acknowledge_issue ::
  "autotype \<Rightarrow> string \<Rightarrow> post_body \<Rightarrow> spreadsheet \<Rightarrow> response \<times> spreadsheet" where
  "handle_acknowledge_issue at now b ss =
     (let sh0 = (case get_sheet ss ''Acknowledgements'' of
                   Some sh \<Rightarrow> sh | None \<Rightarrow> append_row at (map Str ack_header) []);
          iid = js_String (b_fields b ''issueId'');
          sh1 = (if list_ex (\<lambda>row. js_String (row_get row 0) = iid) (sheet_values sh0) then sh0
                 else append_row at [Str iid, js_or (b_fields b ''user'') (Str ''Unknown''),
                                     js_or (b_fields b ''role'') (Str ''Unknown''), Str now] sh0)
      in (Ok_message ''Issue acknowledged.'', put_sheet ss ''Acknowledgements'' sh1))"

definition handle_get_acknowledgements :: "spreadsheet \<Rightarrow> response \<times> spreadsheet" where
  "handle_get_acknowledgements ss =
     (case get_sheet ss ''Acknowledgements'' of
        None \<Rightarrow> (Ok_ids [], ss)
      | Some sh \<Rightarrow>
          (Ok_ids (map (\<lambda>row. js_String (row_get row 0))
                     (filter (\<lambda>row. js_truthy (row_get row 0)) (drop 1 (sheet_values sh)))), ss))"

definition handle_mark_notification_read ::
  "autotype \<Rightarrow> post_body \<Rightarrow> spreadsheet \<Rightarrow> response \<times> spreadsheet" where
  "handle_mark_notification_read at b ss =
     (case get_sheet ss ''SystemNotification'' of
        None \<Rightarrow> (Fail_message ''Notification sheet not found'', ss)
      | Some sh \<Rightarrow>
          (let idm = js_String (b_fields b ''id'') in
           case index_from (\<lambda>row. js_String (row_get row 0) = idm) 1 (drop 1 (sheet_values sh)) of
             None \<Rightarrow> (Fail_message ''ID not found'', ss)
           | Some i \<Rightarrow> (Ok_message ''Marked as read'',
                         put_sheet ss ''SystemNotification'' (set_cell at sh (Suc i) 6 (Str ''TRUE'')))))"

subsection \<open>Data append\<close>

definition system_sheets :: "string list" where
  "system_sheets = [''System_Settings'', ''Validation_Data'', ''Users'', ''Acknowledgements'',
     ''SystemNotification'']"

text \<open>\<open>safeRow\<close>: every value as a string, \<open>null\<close> and \<open>undefined\<close> as the empty string.\<close>

definition safe_cell :: "cell \<Rightarrow> cell" where
  "safe_cell c = (if c = Null \<or> c = Undef then Str [] else Str (js_String c))"

text \<open>Get or create the sheet (with its header row when \<open>headers\<close> is an array),
  then append the row, then learn the validation values. A missing \<open>row\<close> makes
  \<open>rowData.map\<close> throw after the sheet was created; a sheet name that is not a
  string makes \<open>getSheetByName\<close> throw.\<close>

definition data_append :: "autotype \<Rightarrow> post_body \<Rightarrow> spreadsheet \<Rightarrow> response \<times> spreadsheet" where
  "data_append at b ss =
     (case b_fields b ''sheet'' of
        Str nm \<Rightarrow>
          (let sh0 = (case get_sheet ss nm of
                        Some sh \<Rightarrow> sh
                      | None \<Rightarrow> (case b_headers b of Some hs \<Rightarrow> append_row at hs [] | None \<Rightarrow> []));
               ss0 = put_sheet ss nm sh0
           in case b_row b of
                None \<Rightarrow> (Fail_message script_exception, ss0)
              | Some row \<Rightarrow>
                  (let ss1 = put_sheet ss0 nm (append_row at (map safe_cell row) sh0) in
                   (Ok_sheet nm,
                    if nm \<in> set system_sheets then ss1 else update_validation_data at nm row ss1)))
      | _ \<Rightarrow> (Fail_message script_exception, ss))"

definition do_post :: "autotype \<Rightarrow> string \<Rightarrow> post_body \<Rightarrow> spreadsheet \<Rightarrow> response \<times> spreadsheet" where
  "do_post at now b ss =
     (let a = b_fields b ''action'' in
      if a = Str ''login'' then handle_login at now b ss
      else if a = Str ''register_user'' then handle_register_user at now b ss
      else if a = Str ''get_users'' then handle_get_users ss
      else if a = Str ''delete_user'' then handle_delete_user b ss
      else if a = Str ''update_user'' then handle_update_user at b ss
      else if a = Str ''acknowledge_issue'' then handle_acknowledge_issue at now b ss
      else if a = Str ''get_acknowledgements'' then handle_get_acknowledgements ss
      else if a = Str ''mark_notification_read'' then handle_mark_notification_read at b ss
      else data_append at b ss)"

subsection \<open>The client's requests as bodies\<close>

text \<open>\<open>JSON.stringify\<close> of an array writes \<open>undefined\<close> as \<open>null\<close>.\<close>

definition json_cell :: "cell \<Rightarrow> cell" where
  "json_cell c = (if c = Undef then Null else c)"

text \<open>The data-append body \<open>handleGoogleSheetSubmit\<close> and \<open>syncOfflineQueue\<close> send.\<close>

definition payload_body :: "payload \<Rightarrow> post_body" where
  "payload_body p =
     \<lparr>b_fields = (\<lambda>k. if k = ''sheet'' then Str (p_sheet p) else if k = ''action'' then Str (p_action p)
                     else if k = ''id'' then Str (p_id p) else Undef),
      b_headers = Some (map Str (p_headers p)), b_row = Some (map json_cell (p_row p)),
      b_prefs = None\<rparr>"

subsection \<open>Delivery of the client's records\<close>

text \<open>A data-append request of the client, as the queue's \<open>post\<close> sends it, and
  the data rows (below the header) of a sheet.\<close>

definition deliver :: "autotype \<Rightarrow> string \<Rightarrow> payload \<Rightarrow> spreadsheet \<Rightarrow> spreadsheet" where
  "deliver at now p ss = snd (do_post at now (payload_body p) ss)"

definition data_rows :: "spreadsheet \<Rightarrow> string \<Rightarrow> cell list list" where
  "data_rows ss n = (case get_sheet ss n of None \<Rightarrow> [] | Some sh \<Rightarrow> drop 1 sh)"

definition stored_row :: "autotype \<Rightarrow> payload \<Rightarrow> cell list" where
  "stored_row at p = map (write_cell at \<circ> safe_cell \<circ> json_cell) (p_row p)"

definition client_payload :: "payload \<Rightarrow> bool" where
  "client_payload p \<longleftrightarrow> p_action p = ''create'' \<and> p_sheet p \<in> set inspection_tables"

text \<open>The key of a user row, and the well-formedness of the user table: a header
  row and pairwise distinct keys below it.\<close>

definition row_key :: "cell list \<Rightarrow> string" where
  "row_key r = user_key (row_get (pad_row 1 r) 0)"

definition users_ok :: "spreadsheet \<Rightarrow> bool" where
  "users_ok ss = (case get_sheet ss ''Users'' of
                    None \<Rightarrow> True
                  | Some sh \<Rightarrow> sh \<noteq> [] \<and> hd sh \<noteq> [] \<and> distinct (map row_key (tl sh)))"

text \<open>The acknowledgement sheet as the script creates it: a header whose first
  cell is \<open>Issue_ID\<close>, and strings in the first column.\<close>

definition cell_is_str :: "cell \<Rightarrow> bool" where
  "cell_is_str c = (case c of Str _ \<Rightarrow> True | _ \<Rightarrow> False)"

definition acks_ok :: "spreadsheet \<Rightarrow> bool" where
  "acks_ok ss = (case get_sheet ss ''Acknowledgements'' of
                   None \<Rightarrow> True
                 | Some sh \<Rightarrow> sh \<noteq> [] \<and> row_get (hd sh) 0 = Str ''Issue_ID''
                              \<and> list_all (\<lambda>r. cell_is_str (row_get (pad_row 1 r) 0)) sh)"

text \<open>Requests and a user table for the concrete runs below.\<close>

definition demo_body :: "(string \<times> cell) list \<Rightarrow> post_body" where
  "demo_body kvs = \<lparr>b_fields = (\<lambda>k. case map_of kvs k of Some v \<Rightarrow> v | None \<Rightarrow> Undef),
     b_headers = None, b_row = None, b_prefs = None\<rparr>"

definition demo_user_row :: "string \<Rightarrow> cell list" where
  "demo_user_row u = [Str u, Str ''pw'', Str ''Name'', Str ''Inspector'', Str [], Str [], Str ''{}'']"

definition demo_users :: spreadsheet where
  "demo_users = [(''Users'', [map Str users_header, demo_user_row ''alice'', demo_user_row ''bob''])]"

subsection \<open>Properties of the handlers\<close>

lemma learn_user_other:
  "n \<noteq> ''Validation_Data'' \<Longrightarrow> get_sheet (snd (learn_user at b msg ss)) n = get_sheet ss n"
  by (auto simp: learn_user_def update_validation_single_other split: option.splits if_splits)

lemma payload_body_fields [simp]:
  "b_fields (payload_body p) ''action'' = Str (p_action p)"
  "b_fields (payload_body p) ''sheet'' = Str (p_sheet p)"
  "b_row (payload_body p) = Some (map json_cell (p_row p))"
  "b_headers (payload_body p) = Some (map Str (p_headers p))"
  by (simp_all add: payload_body_def)

lemma do_post_create:
  "p_action p = ''create'' \<Longrightarrow> do_post at now (payload_body p) ss = data_append at (payload_body p) ss"
  by (simp add: do_post_def)

lemma inspection_not_system: "n \<in> set inspection_tables \<Longrightarrow> n \<notin> set system_sheets \<and> n \<noteq> ''Validation_Data''"
  by (auto simp: inspection_tables_def system_sheets_def)

lemma deliver_sheet:
  assumes "client_payload p"
  shows "get_sheet (deliver at now p ss) n =
           (if n = p_sheet p then
              Some ((case get_sheet ss n of Some sh \<Rightarrow> sh
                     | None \<Rightarrow> append_row at (map Str (p_headers p)) []) @ [stored_row at p])
            else if n = ''Validation_Data'' then get_sheet (deliver at now p ss) n
            else get_sheet ss n)"
proof -
  from assms have d: "deliver at now p ss = snd (data_append at (payload_body p) ss)"
    by (simp add: deliver_def client_payload_def do_post_create)
  from assms have "p_sheet p \<notin> set system_sheets \<and> p_sheet p \<noteq> ''Validation_Data''"
    by (simp add: client_payload_def inspection_not_system)
  then show ?thesis
    unfolding d data_append_def
    by (cases "get_sheet ss (p_sheet p)")
      (simp_all add: Let_def append_row_def stored_row_def update_validation_data_other)
qed

lemma deliver_data_rows:
  assumes "client_payload p" and "n \<in> set inspection_tables" and "get_sheet ss n \<noteq> Some []"
  shows "data_rows (deliver at now p ss) n =
           data_rows ss n @ (if p_sheet p = n then [stored_row at p] else [])"
  using assms deliver_sheet [OF assms(1), of at now ss n] inspection_not_system [OF assms(2)]
  by (auto simp: data_rows_def append_row_def split: option.splits)

lemma deliver_nonempty:
  "client_payload p \<Longrightarrow> n \<in> set inspection_tables \<Longrightarrow> get_sheet ss n \<noteq> Some [] \<Longrightarrow>
   get_sheet (deliver at now p ss) n \<noteq> Some []"
  using deliver_sheet [of p at now ss n] inspection_not_system [of n]
  by (auto split: option.splits if_splits)

lemma user_key_idem [simp]: "user_key (Str (user_key c)) = user_key c"
  by (simp add: user_key_def trim_to_lower)

lemma width_ge: "r \<in> set sh \<Longrightarrow> length r \<le> width sh"
  by (induction sh) (auto simp: width_def)

lemma width_pos:
  assumes "sh \<noteq> []" and "hd sh \<noteq> []" shows "0 < width sh"
proof -
  have "length (hd sh) \<le> width sh" using assms(1) by (intro width_ge) simp
  with assms(2) show ?thesis by (cases "hd sh") auto
qed

lemma row_get_pad_Nil: "0 < n \<Longrightarrow> row_get (pad_row n []) 0 = Str []"
  by (simp add: pad_row_def row_get_def)

lemma row_get_pad_Cons: "row_get (pad_row n (a # r)) 0 = a"
  by (simp add: pad_row_def row_get_def)

lemma pad_row_col0: "0 < n \<Longrightarrow> row_get (pad_row n r) 0 = row_get (pad_row 1 r) 0"
  by (cases r) (simp_all only: row_get_pad_Nil row_get_pad_Cons zero_less_one)

lemma keys_values:
  assumes "0 < width sh"
  shows "map (\<lambda>r. user_key (row_get r 0)) (sheet_values sh) = map row_key sh"
  unfolding sheet_values_def row_key_def map_map comp_def
proof (rule map_cong [OF refl])
  fix r show "user_key (row_get (pad_row (width sh) r) 0) = user_key (row_get (pad_row 1 r) 0)"
    using pad_row_col0 [OF assms, of r] by (rule arg_cong)
qed

lemma list_ex_keys:
  assumes "0 < width sh"
  shows "list_ex (\<lambda>row. user_key (row_get row 0) = k) (drop 1 (sheet_values sh))
         \<longleftrightarrow> k \<in> set (map row_key (tl sh))"
proof -
  have "map (\<lambda>r. user_key (row_get r 0)) (drop 1 (sheet_values sh)) = map row_key (tl sh)"
    using keys_values [OF assms] by (simp add: drop_Suc map_tl)
  then have e: "(\<lambda>r. user_key (row_get r 0)) ` set (drop 1 (sheet_values sh)) = set (map row_key (tl sh))"
    by (metis list.set_map)
  show ?thesis unfolding list_ex_iff e [symmetric] by blast
qed

lemma row_key_Cons [simp]: "row_key (x # r) = user_key x"
  by (simp add: row_key_def row_get_pad_Cons)

lemma user_key_Nil [simp]: "user_key (Str []) = []"
  by (simp add: user_key_def trim_def to_lower_def)

lemma user_key_body_key [simp]: "user_key (Str (body_key b f)) = body_key b f"
  by (simp add: body_key_def)

lemma distinct_remove_at:
  "distinct (map f xs) \<Longrightarrow> distinct (map f (take k xs @ drop (Suc k) xs))"
  by (simp add: take_map [symmetric] drop_map [symmetric] distinct_take distinct_drop
      set_take_disj_set_drop_if_distinct del: take_map drop_map)

lemma row_key_update_padded:
  "0 < k \<Longrightarrow> k < n \<Longrightarrow> row_key ((pad_row n r)[k := v]) = row_key r"
  by (cases r; cases k) (simp_all add: row_key_def pad_row_def row_get_def)

lemma register_users_ok:
  assumes ok: "users_ok ss" and keep: "user_key (aty (body_key b ''username'')) = body_key b ''username''"
  shows "users_ok (snd (handle_register_user aty now b ss))"
proof -
  define sh0 where "sh0 = (case get_sheet ss ''Users'' of Some sh \<Rightarrow> sh
                           | None \<Rightarrow> append_row aty (map Str users_header) [])"
  have sh0: "sh0 \<noteq> [] \<and> hd sh0 \<noteq> [] \<and> distinct (map row_key (tl sh0))"
    using ok by (cases "get_sheet ss ''Users''")
      (auto simp: sh0_def users_ok_def append_row_def users_header_def)
  then have w: "0 < width sh0" by (intro width_pos) auto
  let ?u = "body_key b ''username''"
  show ?thesis
  proof (cases "list_ex (\<lambda>row. user_key (row_get row 0) = ?u) (drop 1 (sheet_values sh0))")
    case True
    then show ?thesis using sh0
      by (simp add: handle_register_user_def sh0_def [symmetric] Let_def users_ok_def)
  next
    case False
    with list_ex_keys [OF w] have "?u \<notin> set (map row_key (tl sh0))" by simp
    with sh0 show ?thesis
      by (simp add: handle_register_user_def sh0_def [symmetric] Let_def users_ok_def
          learn_user_other append_row_def write_cell_def keep)
  qed
qed

lemma index_from_rows:
  "index_from P 1 (drop 1 (sheet_values sh)) = Some i \<Longrightarrow> \<exists>j. i = Suc j \<and> Suc j < length sh"
  using index_from_Some [of P 1 "drop 1 (sheet_values sh)" i]
  by (auto simp: sheet_values_def intro: exI [of _ "i - 1"])

lemma delete_users_ok:
  assumes ok: "users_ok ss"
  shows "users_ok (snd (handle_delete_user b ss))"
proof (cases "get_sheet ss ''Users''")
  case None
  then show ?thesis using ok by (simp add: handle_delete_user_def)
next
  case (Some sh)
  note us = Some
  with ok obtain h t where sh: "sh = h # t" and h: "h \<noteq> []" and d: "distinct (map row_key t)"
    by (cases sh) (auto simp: users_ok_def)
  show ?thesis
  proof (cases "index_from (\<lambda>row. user_key (row_get row 0) = body_key b ''username'') 1
                  (drop 1 (sheet_values sh))")
    case None
    with us ok show ?thesis by (simp add: handle_delete_user_def)
  next
    case (Some i)
    from index_from_rows [OF Some] obtain j where i: "i = Suc j" by blast
    have "delete_row sh (Suc i) = h # (take j t @ drop (Suc j) t)"
      by (simp add: delete_row_def sh i)
    with us Some h distinct_remove_at [OF d, of j] show ?thesis
      by (simp add: handle_delete_user_def users_ok_def)
  qed
qed

lemma login_users_ok:
  assumes ok: "users_ok ss"
  shows "users_ok (snd (handle_login aty now b ss))"
proof (cases "get_sheet ss ''Users''")
  case None
  then show ?thesis using ok by (simp add: handle_login_def Let_def)
next
  case (Some sh)
  note us = Some
  with ok obtain h t where sh: "sh = h # t" and h: "h \<noteq> []" and d: "distinct (map row_key t)"
    by (cases sh) (auto simp: users_ok_def)
  let ?P = "\<lambda>row. user_key (row_get row 0) = body_key b ''username''
                 \<and> js_String (row_get row 1) =
                   (if js_truthy (b_fields b ''password'') then js_String (b_fields b ''password'') else [])"
  show ?thesis
  proof (cases "index_from ?P 1 (drop 1 (sheet_values sh))")
    case None
    with us ok show ?thesis by (simp add: handle_login_def Let_def)
  next
    case (Some i)
    from index_from_rows [OF Some] obtain j where i: "i = Suc j" and j: "j < length t"
      by (auto simp: sh)
    have upd: "set_cell aty sh (Suc i) 6 (Str now) =
               h # t[j := (pad_row 6 (t ! j))[5 := write_cell aty (Str now)]]"
      using j by (simp add: set_cell_def sh i)
    have "map row_key (t[j := (pad_row 6 (t ! j))[5 := write_cell aty (Str now)]]) = map row_key t"
      using j by (simp add: map_update row_key_update_padded) (metis list_update_id nth_map)
    with us Some h d upd show ?thesis
      by (simp add: handle_login_def Let_def users_ok_def sh)
  qed
qed

lemma first_cell_values:
  assumes "0 < width sh" and "r \<in> set sh"
  shows "pad_row (width sh) r ! 0 = row_get (pad_row 1 r) 0"
proof -
  have "0 < length (pad_row (width sh) r)" using assms(1) by (simp add: pad_row_def)
  then have "pad_row (width sh) r ! 0 = row_get (pad_row (width sh) r) 0" by simp
  also have "\<dots> = row_get (pad_row 1 r) 0" by (rule pad_row_col0 [OF assms(1)])
  finally show ?thesis .
qed

lemma ack_view_cells:
  assumes "1 < length sh" and w: "0 < width sh"
  shows "ack_cells (Some (sheet_view ''Acknowledgements'' sh)) = map (\<lambda>r. row_get (pad_row 1 r) 0) (tl sh)"
proof -
  have "map (\<lambda>r. pad_row (width sh) r ! 0) (tl sh) = map (\<lambda>r. row_get (pad_row 1 r) 0) (tl sh)"
    by (rule map_cong [OF refl]) (metis first_cell_values [OF w] list.set_sel(2) list.sel(2) empty_iff list.set(1))
  with assms(1) show ?thesis
    by (simp add: ack_cells_def sheet_view_def Let_def sheet_values_def map_tl [symmetric])
qed

lemma ack_sheet_start:
  assumes "acks_ok ss"
  defines "sh0 \<equiv> (case get_sheet ss ''Acknowledgements'' of Some sh \<Rightarrow> sh
                   | None \<Rightarrow> append_row Str (map Str ack_header) [])"
  shows "sh0 \<noteq> [] \<and> row_get (hd sh0) 0 = Str ''Issue_ID'' \<and> 0 < width sh0
         \<and> list_all (\<lambda>r. cell_is_str (row_get (pad_row 1 r) 0)) sh0"
proof -
  have s: "sh0 \<noteq> [] \<and> row_get (hd sh0) 0 = Str ''Issue_ID''
           \<and> list_all (\<lambda>r. cell_is_str (row_get (pad_row 1 r) 0)) sh0"
    using assms(1) by (cases "get_sheet ss ''Acknowledgements''")
      (auto simp: sh0_def acks_ok_def append_row_def ack_header_def write_cell_def cell_is_str_def
         row_get_def pad_row_def)
  then have "hd sh0 \<noteq> []" by (auto simp: row_get_def)
  with s show ?thesis using width_pos [of sh0] by simp
qed

lemma ack_listed:
  assumes ok: "acks_ok ss" and ne: "js_String (b_fields b ''issueId'') \<noteq> ''Issue_ID''"
  shows "Str (js_String (b_fields b ''issueId''))
           \<in> set (ack_cells (do_get (snd (handle_acknowledge_issue Str now b ss)) ''Acknowledgements''))"
proof -
  define iid where "iid = js_String (b_fields b ''issueId'')"
  define sh0 where "sh0 = (case get_sheet ss ''Acknowledgements'' of Some sh \<Rightarrow> sh
                           | None \<Rightarrow> append_row Str (map Str ack_header) [])"
  from ack_sheet_start [OF ok] obtain h t where sh: "sh0 = h # t"
    and hd: "row_get h 0 = Str ''Issue_ID''" and w: "0 < width sh0"
    and strs: "list_all (\<lambda>r. cell_is_str (row_get (pad_row 1 r) 0)) sh0"
    unfolding sh0_def [symmetric] by (cases sh0) auto
  show ?thesis
  proof (cases "list_ex (\<lambda>row. js_String (row_get row 0) = iid) (sheet_values sh0)")
    case True
    then obtain r0 where r0: "r0 \<in> set sh0" and c: "js_String (row_get (pad_row (width sh0) r0) 0) = iid"
      by (auto simp: list_ex_iff sheet_values_def)
    from r0 strs have "cell_is_str (row_get (pad_row 1 r0) 0)" by (simp add: list_all_iff)
    moreover from c have "js_String (row_get (pad_row 1 r0) 0) = iid"
      by (simp add: pad_row_col0 [OF w])
    ultimately have cell: "row_get (pad_row 1 r0) 0 = Str iid"
      by (cases "row_get (pad_row 1 r0) 0") (auto simp: cell_is_str_def)
    have "r0 \<noteq> h"
    proof
      assume "r0 = h"
      with hd cell have "Str iid = Str ''Issue_ID''" by (cases h) (simp_all add: row_get_pad_Cons)
      with ne show False by (simp add: iid_def)
    qed
    with r0 sh have t: "r0 \<in> set t" by simp
    then have "1 < length sh0" by (cases t) (simp_all add: sh)
    with w t cell True show ?thesis
      by (force simp: handle_acknowledge_issue_def sh0_def [symmetric] iid_def [symmetric] Let_def
          do_get_def ack_view_cells sh)
  next
    case False
    let ?row = "map (write_cell Str) [Str iid, js_or (b_fields b ''user'') (Str ''Unknown''),
                                     js_or (b_fields b ''role'') (Str ''Unknown''), Str now]"
    from hd have "h \<noteq> []" by (auto simp: row_get_def)
    then have w1: "0 < width (sh0 @ [?row])" using width_pos [of "sh0 @ [?row]"] sh by simp
    have "Str iid \<in> set (ack_cells (Some (sheet_view ''Acknowledgements'' (sh0 @ [?row]))))"
      using ack_view_cells [OF _ w1] by (simp add: sh write_cell_def row_get_pad_Cons)
    with False show ?thesis
      by (simp add: handle_acknowledge_issue_def sh0_def [symmetric] iid_def [symmetric] Let_def
          do_get_def append_row_def)
  qed
qed

lemma digits_value_append:
  "digits_value acc (xs @ ys) = (case digits_value acc xs of Some a \<Rightarrow> digits_value a ys | None \<Rightarrow> None)"
  by (induction xs arbitrary: acc) auto

lemma digits_value_zeros:
  "digits_value acc (replicate k CHR ''0'' @ xs) = digits_value (acc * 10 ^ k) xs"
  by (induction k arbitrary: acc) (simp_all add: is_digit_def algebra_simps)

lemma digits_value_decimal_nat:
  "digits_value acc (decimal_nat n) = Some (acc * 10 ^ length (decimal_nat n) + int n)"
proof (induction n arbitrary: acc rule: decimal_nat.induct)
  case (1 n)
  show ?case
  proof (cases "n < 10")
    case True
    then show ?thesis by (subst (1 2) decimal_nat.simps) (simp add: is_digit_def)
  next
    case False
    have "int n = 10 * int (n div 10) + int (n mod 10)"
      using div_mult_mod_eq [of n 10] by (metis of_nat_add of_nat_mult of_nat_numeral mult.commute)
    moreover have "n mod 10 < 10" by simp
    ultimately show ?thesis using 1 [OF False]
      by (subst (1 2) decimal_nat.simps) (simp add: False digits_value_append is_digit_def algebra_simps)
  qed
qed

lemma digits_value_non_digit: "\<exists>c \<in> set s. \<not> is_digit c \<Longrightarrow> digits_value acc s = None"
  by (induction s arbitrary: acc) auto

lemma user_key_digits:
  assumes "\<forall>c \<in> set s. is_digit c" shows "user_key (Str s) = s"
proof -
  have ns: "\<forall>c \<in> set s. \<not> is_space c" using assms by (auto simp: is_digit_def is_space_def Let_def)
  have "dropWhile is_space s = s" using ns by (cases s) auto
  moreover have "dropWhile is_space (rev s) = rev s" using ns by (cases "rev s") (auto dest: arg_cong [of _ _ set])
  moreover have "to_lower s = s"
    using assms by (induction s) (auto simp: to_lower_def char_lower_def is_digit_def is_upper_def Let_def)
  ultimately show ?thesis by (simp add: user_key_def trim_def)
qed

lemma zeros_decimal_digits: "\<forall>c \<in> set (replicate k CHR ''0'' @ decimal_nat n). is_digit c"
  using decimal_nat_digits [of n] by (auto simp: is_digit_def)

text \<open>Under the digit typing, the string of \<open>k\<close> zeros followed by the decimal
  rendering of \<open>n\<close> is stored as the number \<open>n\<close>, whose key is \<open>n\<close> in decimal.\<close>

lemma digits_autotype_zeros:
  "digits_autotype (replicate k CHR ''0'' @ decimal_nat n) = Num (int n)"
  using decimal_nat_nonempty [of n]
  by (simp add: digits_autotype_def digits_value_zeros digits_value_decimal_nat)

lemma user_key_num: "user_key (Num (int n)) = decimal_nat n"
proof -
  have "user_key (Num (int n)) = user_key (Str (decimal_nat n))" by (simp add: user_key_def decimal_int_def)
  with user_key_digits [OF zeros_decimal_digits [of 0 n]] show ?thesis by simp
qed

lemma users_sheet:
  assumes "users_ok ss" and "get_sheet ss ''Users'' = Some sh"
  shows "sh \<noteq> [] \<and> hd sh \<noteq> [] \<and> 0 < width sh \<and> distinct (map row_key (tl sh))"
  using assms width_pos [of sh] by (simp add: users_ok_def)

text \<open>A registration with a new key appends the typed row to the user table.\<close>

lemma register_appends:
  assumes ok: "users_ok ss" and us: "get_sheet ss ''Users'' = Some sh"
    and new: "body_key b ''username'' \<notin> row_key ` set (tl sh)"
  shows "get_sheet (snd (handle_register_user at now b ss)) ''Users'' =
           Some (sh @ [map (write_cell at) [Str (body_key b ''username''), b_fields b ''password'',
                   b_fields b ''name'', Str (trim (js_String (b_fields b ''role''))),
                   js_or (b_fields b ''position'') (Str []), Str now, Str ''{}'']])"
proof -
  from users_sheet [OF ok us] have w: "0 < width sh" by simp
  from list_ex_keys [OF w] new
  have "\<not> list_ex (\<lambda>row. user_key (row_get row 0) = body_key b ''username'') (drop 1 (sheet_values sh))"
    by simp
  with us show ?thesis
    by (simp add: handle_register_user_def Let_def learn_user_other append_row_def)
qed

text \<open>Registering a user whose key is new but whose stored cell has the key of a
  row already there leaves two rows with one key.\<close>

lemma register_key_collision:
  assumes ok: "users_ok ss" and us: "get_sheet ss ''Users'' = Some sh"
    and new: "body_key b ''username'' \<notin> row_key ` set (tl sh)"
    and hit: "user_key (aty (body_key b ''username'')) \<in> row_key ` set (tl sh)"
  shows "\<not> users_ok (snd (handle_register_user aty now b ss))"
  using register_appends [OF ok us new] users_sheet [OF ok us] hit
  by (simp add: users_ok_def write_cell_def)

lemma set_cell_keys:
  assumes "0 < r" and "r \<le> length sh" and "1 < c"
  shows "map row_key (set_cell at sh r c v) = map row_key sh"
proof -
  have "set_cell at sh r c v = sh[r - 1 := (pad_row c (sh ! (r - 1)))[c - 1 := write_cell at v]]"
    using assms(2) by (simp add: set_cell_def)
  moreover have "row_key ((pad_row c (sh ! (r - 1)))[c - 1 := write_cell at v]) = row_key (sh ! (r - 1))"
    using assms(3) by (intro row_key_update_padded) simp_all
  moreover have "r - 1 < length sh" using assms(1,2) by simp
  ultimately show ?thesis by (simp add: map_update) (metis list_update_id nth_map)
qed

lemma set_cell_keys_if:
  "map row_key sh = ks \<Longrightarrow> 0 < r \<Longrightarrow> r \<le> length ks \<Longrightarrow> 1 < c \<Longrightarrow>
   map row_key (if P then set_cell at sh r c v else sh) = ks"
  using set_cell_keys [of r sh c at v] map_eq_imp_length_eq [of row_key sh id ks] by auto

lemma set_cell_key_col1:
  assumes "0 < r" and "r \<le> length sh"
  shows "map row_key (set_cell at sh r 1 v) = (map row_key sh)[r - 1 := user_key (write_cell at v)]"
proof -
  have "(pad_row 1 (sh ! (r - 1)))[0 := write_cell at v] = write_cell at v # tl (pad_row 1 (sh ! (r - 1)))"
    by (cases "sh ! (r - 1)") (simp_all add: pad_row_def)
  then show ?thesis using assms by (simp add: set_cell_def map_update)
qed

text \<open>The row \<open>handleUpdateUser\<close> rewrites is the first data row whose key is the
  current username.\<close>

lemma update_user_target:
  assumes ok: "users_ok ss" and us: "get_sheet ss ''Users'' = Some sh"
    and ra: "ra \<in> set (tl sh)" and ka: "row_key ra = k"
  obtains j where "index_from (\<lambda>row. user_key (row_get row 0) = k) 1 (drop 1 (sheet_values sh)) = Some (Suc j)"
    and "Suc j < length sh" and "row_key (sh ! Suc j) = k"
proof -
  from users_sheet [OF ok us] have w: "0 < width sh" by simp
  let ?P = "\<lambda>row. user_key (row_get row 0) = k"
  have "list_ex ?P (drop 1 (sheet_values sh))" using list_ex_keys [OF w] ra ka by auto
  then obtain i where i: "index_from ?P 1 (drop 1 (sheet_values sh)) = Some i"
    by (cases "index_from ?P 1 (drop 1 (sheet_values sh))") (auto simp: index_from_None list_ex_iff)
  from index_from_rows [OF i] obtain j where j: "i = Suc j" "Suc j < length sh" by blast
  from index_from_Some [OF i] j have "?P (sheet_values sh ! Suc j)" by (simp add: nth_drop sheet_values_def)
  then have "(map (\<lambda>r. user_key (row_get r 0)) (sheet_values sh)) ! Suc j = k"
    using j(2) by (simp add: sheet_values_def)
  then have "row_key (sh ! Suc j) = k" using j(2) by (simp add: keys_values [OF w])
  with i j that show ?thesis by simp
qed

text \<open>A login against a table whose last row is the only one with the requested
  key fails exactly when that row's password cell, read with \<open>String\<close>, differs
  from the typed password.\<close>

lemma login_last_row:
  assumes us: "get_sheet ss ''Users'' = Some (sh @ [row])" and ne: "sh \<noteq> []"
    and w: "0 < width (sh @ [row])"
    and new: "body_key b ''username'' \<notin> row_key ` set (tl sh)"
    and k: "row_key row = body_key b ''username''" and l: "1 < length row"
    and pw: "js_truthy (b_fields b ''password'')"
  shows "fst (handle_login at now b ss) = Fail_code ''INVALID_CREDENTIALS'' ''Invalid username or password.''
         \<longleftrightarrow> js_String (row ! 1) \<noteq> js_String (b_fields b ''password'')"
proof -
  let ?W = "width (sh @ [row])"
  let ?P = "\<lambda>x. user_key (row_get x 0) = body_key b ''username''
               \<and> js_String (row_get x 1) = js_String (b_fields b ''password'')"
  have key: "user_key (row_get (pad_row ?W x) 0) = row_key x" for x
    by (simp add: row_key_def pad_row_col0 [OF w])
  have "drop 1 (sheet_values (sh @ [row])) = map (pad_row ?W) (tl sh @ [row])"
    using ne by (simp add: sheet_values_def drop_map [symmetric] drop_Suc map_tl)
  moreover have "row_get (pad_row ?W row) 1 = row ! 1" using l by (simp add: row_get_pad_lt)
  ultimately have idx: "index_from ?P 1 (drop 1 (sheet_values (sh @ [row]))) = None
                        \<longleftrightarrow> js_String (row ! 1) \<noteq> js_String (b_fields b ''password'')"
    using new k by (auto simp: index_from_None key image_iff)
  have "1 < length (sh @ [row])" using ne by (cases sh) simp_all
  with us pw idx show ?thesis
    by (auto simp: handle_login_def Let_def split: option.split)
qed

text \<open>
  C23. The backend refines the queue's log of appended records: delivering a
  sequence of client records (data-append requests for an inspection sheet) leaves
  each inspection sheet with its old data rows followed by exactly the rows of the
  records addressed to it, in delivery order, each as the typed \<open>safeRow\<close> of the
  record.
\<close>

theorem backend_refines_remote_log:
  assumes "\<forall>p \<in> set ps. client_payload p" and "n \<in> set inspection_tables"
    and "get_sheet ss n \<noteq> Some []"
  shows "data_rows (fold (deliver at now) ps ss) n =
           data_rows ss n @ map (stored_row at) (filter (\<lambda>p. p_sheet p = n) ps)"
  using assms
proof (induction ps arbitrary: ss)
  case Nil
  then show ?case by simp
next
  case (Cons p ps)
  then have "get_sheet (deliver at now p ss) n \<noteq> Some []" by (simp add: deliver_nonempty)
  with Cons show ?case by (simp add: deliver_data_rows)
qed

definition demo_record :: "string \<Rightarrow> payload" where
  "demo_record i = \<lparr>p_sheet = ''General'', p_action = ''create'', p_row = [Str i, Num 3, Null],
     p_headers = [''id'', ''rate'', ''remarks''], p_id = i\<rparr>"

theorem backend_refines_remote_log_witness:
  "list_all client_payload [demo_record ''r1'', demo_record ''r2'']
   \<and> ''General'' \<in> set inspection_tables \<and> get_sheet [] ''General'' \<noteq> Some []
   \<and> data_rows (fold (deliver Str ''now'') [demo_record ''r1'', demo_record ''r2''] []) ''General''
       = [[Str ''r1'', Str ''3'', Str []], [Str ''r2'', Str ''3'', Str []]]"
proof -
  have h: "\<forall>p \<in> set [demo_record ''r1'', demo_record ''r2'']. client_payload p"
    "''General'' \<in> set inspection_tables" "get_sheet [] ''General'' \<noteq> Some []"
    by (simp_all add: client_payload_def demo_record_def inspection_tables_def get_sheet_def)
  from backend_refines_remote_log [OF h, of Str "''now''"] h(2,3) show ?thesis
    by (simp add: data_rows_def get_sheet_def stored_row_def demo_record_def write_cell_def
        safe_cell_def json_cell_def decimal_int_def decimal_nat.simps string_eval
        client_payload_def inspection_tables_def)
qed

text \<open>
  C27. Usernames stay unique: if the Users sheet has a header and its rows carry
  pairwise distinct keys (trimmed, lower-cased usernames), deleting a user and logging
  in keep it so, and so does registering a user whenever the spreadsheet stores the
  new key as a cell with that same key (the case of every username that does not
  read as a number, see C21).
\<close>

theorem users_unique_invariant:
  assumes "users_ok ss" and "user_key (aty (body_key b ''username'')) = body_key b ''username''"
  shows "users_ok (snd (handle_register_user aty now b ss))
    \<and> users_ok (snd (handle_delete_user b ss))
    \<and> users_ok (snd (handle_login aty now b ss))"
  using register_users_ok [where aty = aty and b = b, OF assms] delete_users_ok [OF assms(1)] login_users_ok [OF assms(1)]
  by simp

theorem users_unique_invariant_witness:
  "users_ok demo_users
   \<and> users_ok (snd (handle_register_user digits_autotype ''t''
        (demo_body [(''action'', Str ''register_user''), (''username'', Str '' Carol '')]) demo_users))"
proof -
  have ok: "users_ok demo_users" by code_simp
  have k: "user_key (digits_autotype (body_key (demo_body [(''action'', Str ''register_user''),
             (''username'', Str '' Carol '')]) ''username''))
           = body_key (demo_body [(''action'', Str ''register_user''), (''username'', Str '' Carol '')]) ''username''"
    by code_simp
  from users_unique_invariant [where aty = digits_autotype and now = "''t''", OF ok k] ok
  show ?thesis by simp
qed

text \<open>
  C21. Digit usernames collide: under the digit typing, registering the username
  \<open>0...0n\<close> (at least one leading zero) while a user with key \<open>n\<close> exists passes
  the duplicate check, since the strings differ, but the sheet stores the new
  username as the number \<open>n\<close>, so two rows now have the key \<open>n\<close>.
\<close>

theorem digit_usernames_collide:
  assumes "users_ok ss" and "get_sheet ss ''Users'' = Some sh" and "r \<in> set (tl sh)"
    and "row_key r = decimal_nat n"
    and "b_fields b ''username'' = Str (replicate k CHR ''0'' @ decimal_nat n)"
    and "replicate k CHR ''0'' @ decimal_nat n \<notin> row_key ` set (tl sh)"
  shows "\<not> users_ok (snd (handle_register_user digits_autotype now b ss))"
proof -
  have ne: "replicate k CHR ''0'' @ decimal_nat n \<noteq> []" using decimal_nat_nonempty [of n] by simp
  have key: "body_key b ''username'' = replicate k CHR ''0'' @ decimal_nat n"
    using assms(5) ne user_key_digits [OF zeros_decimal_digits] by (simp add: body_key_def)
  have "user_key (digits_autotype (body_key b ''username'')) \<in> row_key ` set (tl sh)"
    using assms(3,4) by (simp add: key digits_autotype_zeros user_key_num) (metis image_eqI)
  with assms(6) key show ?thesis by (intro register_key_collision [OF assms(1,2)]) simp_all
qed

definition demo_users_7 :: spreadsheet where
  "demo_users_7 = [(''Users'', [map Str users_header, demo_user_row ''alice'', demo_user_row ''7''])]"

theorem digit_usernames_collide_witness:
  "users_ok demo_users_7 \<and> \<not> users_ok (snd (handle_register_user digits_autotype ''t''
     (demo_body [(''action'', Str ''register_user''), (''username'', Str ''007'')]) demo_users_7))"
proof -
  let ?sh = "[map Str users_header, demo_user_row ''alice'', demo_user_row ''7'']"
  have h: "users_ok demo_users_7" "get_sheet demo_users_7 ''Users'' = Some ?sh"
    "demo_user_row ''7'' \<in> set (tl ?sh)" "row_key (demo_user_row ''7'') = decimal_nat 7"
    "b_fields (demo_body [(''action'', Str ''register_user''), (''username'', Str ''007'')]) ''username''
       = Str (replicate 2 CHR ''0'' @ decimal_nat 7)"
    "replicate 2 CHR ''0'' @ decimal_nat 7 \<notin> row_key ` set (tl ?sh)"
    by code_simp+
  from digit_usernames_collide [OF h, of "''t''"] h(1) show ?thesis by simp
qed

text \<open>
  C28. \<open>update_user\<close> does not check the new username: renaming the user of one
  row to the username of another row (with a spreadsheet that stores that username
  with its key) leaves two rows with the same key, and \<open>handleLogin\<close> then only
  ever finds the first.
\<close>

theorem update_user_breaks_uniqueness:
  assumes ok: "users_ok ss" and us: "get_sheet ss ''Users'' = Some sh"
    and ra: "ra \<in> set (tl sh)" and rb: "rb \<in> set (tl sh)" and d: "row_key ra \<noteq> row_key rb"
    and o: "js_truthy (b_fields b ''originalUsername'')" "user_key (b_fields b ''originalUsername'') = row_key ra"
    and u: "js_truthy (b_fields b ''username'')" "user_key (b_fields b ''username'') = row_key rb"
    and keep: "user_key (aty (row_key rb)) = row_key rb"
  shows "\<not> users_ok (snd (handle_update_user aty b ss))"
proof -
  obtain j where idx: "index_from (\<lambda>row. user_key (row_get row 0) = row_key ra) 1
                         (drop 1 (sheet_values sh)) = Some (Suc j)"
    and j: "Suc j < length sh" and kj: "row_key (sh ! Suc j) = row_key ra"
    using update_user_target [OF ok us ra refl] by blast
  let ?r = "Suc (Suc j)" and ?f = "b_fields b"
  define sh1 where "sh1 = set_cell aty sh ?r 1 (Str (row_key rb))"
  define sh2 where "sh2 = (if js_truthy (?f ''name'') then set_cell aty sh1 ?r 3 (?f ''name'') else sh1)"
  define sh3 where "sh3 = (if js_truthy (?f ''role'')
                           then set_cell aty sh2 ?r 4 (Str (trim (js_String (?f ''role'')))) else sh2)"
  define sh4 where "sh4 = (if ?f ''position'' \<noteq> Undef then set_cell aty sh3 ?r 5 (?f ''position'') else sh3)"
  define sh5 where "sh5 = (case b_prefs b of Some p \<Rightarrow> set_cell aty sh4 ?r 7 (Str p) | None \<Rightarrow> sh4)"
  define sh6 where "sh6 = (if js_truthy (?f ''password'') \<and> trim (js_String (?f ''password'')) \<noteq> []
                           then set_cell aty sh5 ?r 2 (?f ''password'') else sh5)"
  define ks where "ks = (map row_key sh)[Suc j := row_key rb]"
  have l: "?r \<le> length ks" using j by (simp add: ks_def)
  have k1: "map row_key sh1 = ks"
    using set_cell_key_col1 [of ?r sh aty "Str (row_key rb)"] j keep by (simp add: sh1_def ks_def write_cell_def)
  have k2: "map row_key sh2 = ks" unfolding sh2_def by (rule set_cell_keys_if [OF k1 _ l]) simp_all
  have k3: "map row_key sh3 = ks" unfolding sh3_def by (rule set_cell_keys_if [OF k2 _ l]) simp_all
  have k4: "map row_key sh4 = ks" unfolding sh4_def by (rule set_cell_keys_if [OF k3 _ l]) simp_all
  have k5: "map row_key sh5 = ks" using set_cell_keys_if [OF k4 _ l, of 7 True] k4
    by (simp add: sh5_def split: option.split)
  have k6: "map row_key sh6 = ks" unfolding sh6_def by (rule set_cell_keys_if [OF k5 _ l]) simp_all
  have res: "snd (handle_update_user aty b ss) = snd (learn_user aty b ''User updated.'' (put_sheet ss ''Users'' sh6))"
    unfolding sh6_def sh5_def sh4_def sh3_def sh2_def sh1_def
    using us idx o u d by (simp add: handle_update_user_def Let_def split: option.split)
  obtain jb where jb: "jb < length (tl sh)" "tl sh ! jb = rb" using rb by (auto simp: in_set_conv_nth)
  have "jb \<noteq> j" using jb kj d j by (cases sh) auto
  then have "tl ks ! jb = row_key rb" "tl ks ! j = row_key rb"
    using jb j by (simp_all add: ks_def nth_tl)
  moreover have "jb < length (tl ks)" "j < length (tl ks)" using jb j by (simp_all add: ks_def)
  ultimately have "\<not> distinct (tl ks)" using \<open>jb \<noteq> j\<close> by (metis nth_eq_iff_index_eq)
  then have "\<not> distinct (map row_key (tl sh6))" using k6 by (simp add: map_tl)
  with res show ?thesis by (simp add: users_ok_def learn_user_other)
qed

theorem update_user_breaks_uniqueness_witness:
  "users_ok demo_users
   \<and> \<not> users_ok (snd (handle_update_user Str
        (demo_body [(''action'', Str ''update_user''), (''originalUsername'', Str ''bob''),
                    (''username'', Str ''Alice'')]) demo_users))"
proof -
  let ?b = "demo_body [(''action'', Str ''update_user''), (''originalUsername'', Str ''bob''),
                       (''username'', Str ''Alice'')]"
  let ?sh = "[map Str users_header, demo_user_row ''alice'', demo_user_row ''bob'']"
  have h: "users_ok demo_users" "get_sheet demo_users ''Users'' = Some ?sh"
    "demo_user_row ''bob'' \<in> set (tl ?sh)" "demo_user_row ''alice'' \<in> set (tl ?sh)"
    "row_key (demo_user_row ''bob'') \<noteq> row_key (demo_user_row ''alice'')"
    "js_truthy (b_fields ?b ''originalUsername'')"
    "user_key (b_fields ?b ''originalUsername'') = row_key (demo_user_row ''bob'')"
    "js_truthy (b_fields ?b ''username'')"
    "user_key (b_fields ?b ''username'') = row_key (demo_user_row ''alice'')"
    "user_key (Str (row_key (demo_user_row ''alice''))) = row_key (demo_user_row ''alice'')"
    by code_simp+
  from update_user_breaks_uniqueness [where aty = Str and b = ?b, OF h] h(1) show ?thesis by simp
qed

text \<open>
  C29. The user table is hidden from the public bulk read but not from
  \<open>get_users\<close>: \<open>doGet\<close> never returns the Users sheet, while a \<open>doPost\<close> whose
  action is \<open>get_users\<close>, with no credentials at all, answers every user row with a
  username, password included.
\<close>

theorem get_users_exposes_passwords:
  assumes "b_fields b ''action'' = Str ''get_users''" and "get_sheet ss ''Users'' = Some sh"
    and "row \<in> set (drop 1 (sheet_values sh))" and "js_truthy (row_get row 0)"
  shows "do_get ss ''Users'' = None
    \<and> (\<exists>us. fst (do_post at now b ss) = Ok_users us
            \<and> (row_get row 0, row_get row 1, row_get row 2, trim (js_String (row_get row 3)),
               row_get row 4, row_get row 5) \<in> set us)"
  using assms by (auto simp: do_get_def do_post_def handle_get_users_def)

theorem get_users_exposes_passwords_witness:
  "b_fields (demo_body [(''action'', Str ''get_users'')]) ''action'' = Str ''get_users''
   \<and> get_sheet demo_users ''Users'' = Some [map Str users_header, demo_user_row ''alice'', demo_user_row ''bob'']
   \<and> demo_user_row ''alice'' \<in> set (drop 1 (sheet_values [map Str users_header, demo_user_row ''alice'', demo_user_row ''bob'']))
   \<and> js_truthy (row_get (demo_user_row ''alice'') 0)
   \<and> (\<exists>us. fst (do_post Str ''t'' (demo_body [(''action'', Str ''get_users'')]) demo_users) = Ok_users us
          \<and> (Str ''alice'', Str ''pw'', Str ''Name'', ''Inspector'', Str [], Str []) \<in> set us)"
proof -
  have h: "b_fields (demo_body [(''action'', Str ''get_users'')]) ''action'' = Str ''get_users''"
    "get_sheet demo_users ''Users'' = Some [map Str users_header, demo_user_row ''alice'', demo_user_row ''bob'']"
    "demo_user_row ''alice'' \<in> set (drop 1 (sheet_values [map Str users_header, demo_user_row ''alice'', demo_user_row ''bob'']))"
    "js_truthy (row_get (demo_user_row ''alice'') 0)"
    by code_simp+
  have t: "trim ''Inspector'' = ''Inspector''" by code_simp
  from get_users_exposes_passwords [OF h, of Str "''t''"] h show ?thesis
    by (simp add: demo_user_row_def t)
qed

text \<open>
  C32. A numeric-looking password locks its owner out: under the digit typing the
  spreadsheet stores a new user's password \<open>0...0n\<close> (at least one leading zero) as
  the number \<open>n\<close>, and \<open>handleLogin\<close> compares \<open>String(row[1])\<close>, i.e. \<open>n\<close>, with
  the typed password, so logging in with the password just registered fails; with
  strings stored as written the same login succeeds.
\<close>

theorem numeric_password_locks_out:
  assumes ok: "users_ok ss" and us: "get_sheet ss ''Users'' = Some sh"
    and u: "b_fields br ''username'' = Str u" "b_fields bl ''username'' = Str u"
    and key: "user_key (Str u) = u" and nd: "\<exists>c \<in> set u. \<not> is_digit c"
    and new: "u \<notin> row_key ` set (tl sh)"
    and p: "b_fields br ''password'' = Str (replicate (Suc k) CHR ''0'' @ decimal_nat n)"
           "b_fields bl ''password'' = Str (replicate (Suc k) CHR ''0'' @ decimal_nat n)"
  shows "fst (handle_login digits_autotype now2 bl (snd (handle_register_user digits_autotype now1 br ss)))
           = Fail_code ''INVALID_CREDENTIALS'' ''Invalid username or password.''
         \<and> fst (handle_login Str now2 bl (snd (handle_register_user Str now1 br ss)))
           \<noteq> Fail_code ''INVALID_CREDENTIALS'' ''Invalid username or password.''"
proof -
  let ?p = "replicate (Suc k) CHR ''0'' @ decimal_nat n"
  from users_sheet [OF ok us] have ne: "sh \<noteq> []" and hd: "hd sh \<noteq> []" by simp_all
  have une: "u \<noteq> []" using nd by auto
  have bk: "body_key br ''username'' = u" "body_key bl ''username'' = u"
    using u key une by (simp_all add: body_key_def)
  have pw: "js_truthy (b_fields bl ''password'')" using p by simp
  have w: "0 < width (sh @ [r])" for r :: "cell list"
    using width_pos [of "sh @ [r]"] ne hd by simp
  have du: "digits_autotype u = Str u" using une nd by (simp add: digits_autotype_def digits_value_non_digit)
  have "length (decimal_nat n) \<noteq> length ?p" by simp
  then have "decimal_nat n \<noteq> ?p" by metis
  then have dp: "js_String (digits_autotype ?p) \<noteq> ?p"
    by (simp only: digits_autotype_zeros js_String.simps decimal_int_def nat_int) simp
  have dig: "fst (handle_login digits_autotype now2 bl (snd (handle_register_user digits_autotype now1 br ss)))
           = Fail_code ''INVALID_CREDENTIALS'' ''Invalid username or password.''"
    using login_last_row [where b = bl and at = digits_autotype and now = now2,
        OF register_appends [where at = digits_autotype and now = now1 and b = br, OF ok us] ne w]
      new bk p du key dp
    by (simp add: write_cell_def)
  have str: "fst (handle_login Str now2 bl (snd (handle_register_user Str now1 br ss)))
           \<noteq> Fail_code ''INVALID_CREDENTIALS'' ''Invalid username or password.''"
    using login_last_row [where b = bl and at = Str and now = now2,
        OF register_appends [where at = Str and now = now1 and b = br, OF ok us] ne w]
      new bk p key
    by (simp add: write_cell_def)
  from dig str show ?thesis ..
qed

definition demo_carol :: "string \<Rightarrow> post_body" where
  "demo_carol act = demo_body [(''action'', Str act), (''username'', Str ''carol''),
                               (''password'', Str ''007''), (''role'', Str ''Inspector'')]"

theorem numeric_password_locks_out_witness:
  "fst (handle_login digits_autotype ''t2'' (demo_carol ''login'')
          (snd (handle_register_user digits_autotype ''t1'' (demo_carol ''register_user'') demo_users)))
     = Fail_code ''INVALID_CREDENTIALS'' ''Invalid username or password.''
   \<and> fst (handle_login Str ''t2'' (demo_carol ''login'')
          (snd (handle_register_user Str ''t1'' (demo_carol ''register_user'') demo_users)))
     \<noteq> Fail_code ''INVALID_CREDENTIALS'' ''Invalid username or password.''"
proof -
  let ?sh = "[map Str users_header, demo_user_row ''alice'', demo_user_row ''bob'']"
  have h: "users_ok demo_users" "get_sheet demo_users ''Users'' = Some ?sh"
    "b_fields (demo_carol ''register_user'') ''username'' = Str ''carol''"
    "b_fields (demo_carol ''login'') ''username'' = Str ''carol''"
    "user_key (Str ''carol'') = ''carol''" "\<exists>c \<in> set ''carol''. \<not> is_digit c"
    "''carol'' \<notin> row_key ` set (tl ?sh)"
    "b_fields (demo_carol ''register_user'') ''password'' = Str (replicate (Suc 1) CHR ''0'' @ decimal_nat 7)"
    "b_fields (demo_carol ''login'') ''password'' = Str (replicate (Suc 1) CHR ''0'' @ decimal_nat 7)"
    by code_simp+
  from numeric_password_locks_out [OF h] show ?thesis .
qed

end
