(* ===== verification/Catalog.thy ===== *)
theory Catalog
  imports Forms "HOL-Library.Multiset"
begin

text \<open>
  The inspection catalog of \<open>src/src/constants.ts\<close> (the checklist items of each
  module with the category each belongs to; the display labels are left out) and the
  part of \<open>App.tsx\<close> that turns it into form inputs: \<open>renderInspectionSection\<close>
  selects the items of the shown categories, the form sections 2 to 4 show fixed
  category groups, and the details, photo and signature sections write fixed
  fields. Each input is stored only if the module's sheet schema has a column of the
  same name (\<open>build_payload\<close> reads the form by column name).
\<close>

record item_config =
  item_id :: string
  category :: string

text \<open>\<open>CATEGORIES.KEY\<close>: the title stored under a key of a category object.\<close>

definition cat :: "(string \<times> string) list \<Rightarrow> string \<Rightarrow> string" where
  "cat cs k = (case map_of cs k of Some t \<Rightarrow> t | None \<Rightarrow> [])"

definition item :: "string \<Rightarrow> string \<Rightarrow> item_config" where
  "item i c = \<lparr>item_id = i, category = c\<rparr>"

definition INSPECTION_CATEGORIES :: "(string \<times> string) list" where
  "INSPECTION_CATEGORIES =
    [(''PPE'', ''PPE & Safety Gear''),
     (''DOCUMENTATION'', ''Documentation & Legal''),
     (''VEHICLE_EXTERIOR'', ''Vehicle Exterior & Cab''),
     (''LIGHTS_ELECTRICAL'', ''Lights & Electrical''),
     (''MECHANICAL'', ''Mechanical & Safety Equipment''),
     (''TRAILER'', ''Trailer Specifics'')]"

definition INSPECTION_ITEMS :: "item_config list" where
  "INSPECTION_ITEMS =
    [item ''reflectiveWorkSuit'' (cat INSPECTION_CATEGORIES ''PPE''),
     item ''safetyGear'' (cat INSPECTION_CATEGORIES ''PPE''),
     item ''dustMask'' (cat INSPECTION_CATEGORIES ''PPE''),
     item ''roadFitness'' (cat INSPECTION_CATEGORIES ''DOCUMENTATION''),
     item ''validDriverDocs'' (cat INSPECTION_CATEGORIES ''DOCUMENTATION''),
     item ''driverManual'' (cat INSPECTION_CATEGORIES ''DOCUMENTATION''),
     item ''routeRisk'' (cat INSPECTION_CATEGORIES ''DOCUMENTATION''),
     item ''windscreen'' (cat INSPECTION_CATEGORIES ''VEHICLE_EXTERIOR''),
     item ''mirrors'' (cat INSPECTION_CATEGORIES ''VEHICLE_EXTERIOR''),
     item ''chevrons'' (cat INSPECTION_CATEGORIES ''VEHICLE_EXTERIOR''),
     item ''generalCondition'' (cat INSPECTION_CATEGORIES ''VEHICLE_EXTERIOR''),
     item ''seatBelt'' (cat INSPECTION_CATEGORIES ''VEHICLE_EXTERIOR''),
     item ''headLamps'' (cat INSPECTION_CATEGORIES ''LIGHTS_ELECTRICAL''),
     item ''indicators'' (cat INSPECTION_CATEGORIES ''LIGHTS_ELECTRICAL''),
     item ''parkingLights'' (cat INSPECTION_CATEGORIES ''LIGHTS_ELECTRICAL''),
     item ''reverseAlarm'' (cat INSPECTION_CATEGORIES ''LIGHTS_ELECTRICAL''),
     item ''hornIgnition'' (cat INSPECTION_CATEGORIES ''LIGHTS_ELECTRICAL''),
     item ''brakes'' (cat INSPECTION_CATEGORIES ''MECHANICAL''),
     item ''tyres'' (cat INSPECTION_CATEGORIES ''MECHANICAL''),
     item ''wheelNuts'' (cat INSPECTION_CATEGORIES ''MECHANICAL''),
     item ''fluidLeaks'' (cat INSPECTION_CATEGORIES ''MECHANICAL''),
     item ''fireExtinguisher'' (cat INSPECTION_CATEGORIES ''MECHANICAL''),
     item ''warningTriangles'' (cat INSPECTION_CATEGORIES ''MECHANICAL''),
     item ''firstAid'' (cat INSPECTION_CATEGORIES ''MECHANICAL''),
     item ''trailerCondition'' (cat INSPECTION_CATEGORIES ''TRAILER''),
     item ''fifthWheel'' (cat INSPECTION_CATEGORIES ''TRAILER''),
     item ''landingLegs'' (cat INSPECTION_CATEGORIES ''TRAILER''),
     item ''tarpaulins'' (cat INSPECTION_CATEGORIES ''TRAILER'')]"

definition PETROLEUM_CATEGORIES :: "(string \<times> string) list" where
  "PETROLEUM_CATEGORIES =
    [(''TRUCK_EQUIPMENT'', ''Truck/Tractor and Equipment''),
     (''TYRES'', ''Tyres and Horses''),
     (''PPE_ID'', ''Drivers Protective Gear & ID''),
     (''DOCUMENTS'', ''Documents''),
     (''ONBOARD'', ''On Board Equipment'')]"

definition PETROLEUM_INSPECTION_ITEMS :: "item_config list" where
  "PETROLEUM_INSPECTION_ITEMS =
    [item ''petro_1'' (cat PETROLEUM_CATEGORIES ''TRUCK_EQUIPMENT''),
     item ''petro_2'' (cat PETROLEUM_CATEGORIES ''TRUCK_EQUIPMENT''),
     item ''petro_3'' (cat PETROLEUM_CATEGORIES ''TRUCK_EQUIPMENT''),
     item ''petro_4'' (cat PETROLEUM_CATEGORIES ''TRUCK_EQUIPMENT''),
     item ''petro_5'' (cat PETROLEUM_CATEGORIES ''TRUCK_EQUIPMENT''),
     item ''petro_6'' (cat PETROLEUM_CATEGORIES ''TRUCK_EQUIPMENT''),
     item ''petro_7'' (cat PETROLEUM_CATEGORIES ''TRUCK_EQUIPMENT''),
     item ''petro_8'' (cat PETROLEUM_CATEGORIES ''TRUCK_EQUIPMENT''),
     item ''petro_9'' (cat PETROLEUM_CATEGORIES ''TRUCK_EQUIPMENT''),
     item ''petro_10'' (cat PETROLEUM_CATEGORIES ''TRUCK_EQUIPMENT''),
     item ''petro_11'' (cat PETROLEUM_CATEGORIES ''TRUCK_EQUIPMENT''),
     item ''petro_12'' (cat PETROLEUM_CATEGORIES ''TRUCK_EQUIPMENT''),
     item ''petro_13'' (cat PETROLEUM_CATEGORIES ''TRUCK_EQUIPMENT''),
     item ''petro_14'' (cat PETROLEUM_CATEGORIES ''TRUCK_EQUIPMENT''),
     item ''petro_15'' (cat PETROLEUM_CATEGORIES ''TRUCK_EQUIPMENT''),
     item ''petro_16'' (cat PETROLEUM_CATEGORIES ''TRUCK_EQUIPMENT''),
     item ''petro_17'' (cat PETROLEUM_CATEGORIES ''TRUCK_EQUIPMENT''),
     item ''petro_18'' (cat PETROLEUM_CATEGORIES ''TRUCK_EQUIPMENT''),
     item ''petro_19'' (cat PETROLEUM_CATEGORIES ''TRUCK_EQUIPMENT''),
     item ''petro_20'' (cat PETROLEUM_CATEGORIES ''TRUCK_EQUIPMENT''),
     item ''petro_21'' (cat PETROLEUM_CATEGORIES ''TRUCK_EQUIPMENT''),
     item ''petro_22'' (cat PETROLEUM_CATEGORIES ''TRUCK_EQUIPMENT''),
     item ''petro_23'' (cat PETROLEUM_CATEGORIES ''TRUCK_EQUIPMENT''),
     item ''petro_24'' (cat PETROLEUM_CATEGORIES ''TYRES''),
     item ''petro_25'' (cat PETROLEUM_CATEGORIES ''TYRES''),
     item ''petro_26'' (cat PETROLEUM_CATEGORIES ''TYRES''),
     item ''petro_27'' (cat PETROLEUM_CATEGORIES ''TYRES''),
     item ''petro_28'' (cat PETROLEUM_CATEGORIES ''TYRES''),
     item ''petro_29'' (cat PETROLEUM_CATEGORIES ''TYRES''),
     item ''petro_30'' (cat PETROLEUM_CATEGORIES ''TYRES''),
     item ''petro_31'' (cat PETROLEUM_CATEGORIES ''TYRES''),
     item ''petro_32'' (cat PETROLEUM_CATEGORIES ''PPE_ID''),
     item ''petro_33'' (cat PETROLEUM_CATEGORIES ''PPE_ID''),
     item ''petro_34'' (cat PETROLEUM_CATEGORIES ''PPE_ID''),
     item ''petro_35'' (cat PETROLEUM_CATEGORIES ''PPE_ID''),
     item ''petro_36'' (cat PETROLEUM_CATEGORIES ''PPE_ID''),
     item ''petro_37'' (cat PETROLEUM_CATEGORIES ''DOCUMENTS''),
     item ''petro_38'' (cat PETROLEUM_CATEGORIES ''DOCUMENTS''),
     item ''petro_39'' (cat PETROLEUM_CATEGORIES ''DOCUMENTS''),
     item ''petro_40'' (cat PETROLEUM_CATEGORIES ''DOCUMENTS''),
     item ''petro_41'' (cat PETROLEUM_CATEGORIES ''DOCUMENTS''),
     item ''petro_42'' (cat PETROLEUM_CATEGORIES ''DOCUMENTS''),
     item ''petro_43'' (cat PETROLEUM_CATEGORIES ''DOCUMENTS''),
     item ''petro_44'' (cat PETROLEUM_CATEGORIES ''DOCUMENTS''),
     item ''petro_45'' (cat PETROLEUM_CATEGORIES ''DOCUMENTS''),
     item ''petro_46'' (cat PETROLEUM_CATEGORIES ''ONBOARD''),
     item ''petro_47'' (cat PETROLEUM_CATEGORIES ''ONBOARD''),
     item ''petro_48'' (cat PETROLEUM_CATEGORIES ''ONBOARD''),
     item ''petro_49'' (cat PETROLEUM_CATEGORIES ''ONBOARD''),
     item ''petro_50'' (cat PETROLEUM_CATEGORIES ''ONBOARD''),
     item ''petro_51'' (cat PETROLEUM_CATEGORIES ''ONBOARD''),
     item ''petro_52'' (cat PETROLEUM_CATEGORIES ''ONBOARD''),
     item ''petro_53'' (cat PETROLEUM_CATEGORIES ''ONBOARD''),
     item ''petro_54'' (cat PETROLEUM_CATEGORIES ''ONBOARD'')]"

definition ACID_CATEGORIES :: "(string \<times> string) list" where
  "ACID_CATEGORIES =
    [(''PPE'', ''A. Personal Protective Equipment''),
     (''VEHICLE'', ''B. Vehicle (Horse & Trailer)''),
     (''SPILL_KIT'', ''C. Spill Kit''),
     (''DOCUMENTATION'', ''D. Documentation'')]"

definition ACID_INSPECTION_ITEMS :: "item_config list" where
  "ACID_INSPECTION_ITEMS =
    [item ''acid_1'' (cat ACID_CATEGORIES ''PPE''),
     item ''acid_2'' (cat ACID_CATEGORIES ''PPE''),
     item ''acid_3'' (cat ACID_CATEGORIES ''VEHICLE''),
     item ''acid_4'' (cat ACID_CATEGORIES ''VEHICLE''),
     item ''acid_5'' (cat ACID_CATEGORIES ''VEHICLE''),
     item ''acid_6'' (cat ACID_CATEGORIES ''VEHICLE''),
     item ''acid_7'' (cat ACID_CATEGORIES ''VEHICLE''),
     item ''acid_8'' (cat ACID_CATEGORIES ''VEHICLE''),
     item ''acid_9'' (cat ACID_CATEGORIES ''VEHICLE''),
     item ''acid_10'' (cat ACID_CATEGORIES ''VEHICLE''),
     item ''acid_11'' (cat ACID_CATEGORIES ''VEHICLE''),
     item ''acid_12'' (cat ACID_CATEGORIES ''VEHICLE''),
     item ''acid_13'' (cat ACID_CATEGORIES ''VEHICLE''),
     item ''acid_14'' (cat ACID_CATEGORIES ''VEHICLE''),
     item ''acid_15'' (cat ACID_CATEGORIES ''VEHICLE''),
     item ''acid_16'' (cat ACID_CATEGORIES ''VEHICLE''),
     item ''acid_17'' (cat ACID_CATEGORIES ''VEHICLE''),
     item ''acid_18'' (cat ACID_CATEGORIES ''VEHICLE''),
     item ''acid_19'' (cat ACID_CATEGORIES ''VEHICLE''),
     item ''acid_20'' (cat ACID_CATEGORIES ''VEHICLE''),
     item ''acid_21'' (cat ACID_CATEGORIES ''VEHICLE''),
     item ''acid_22'' (cat ACID_CATEGORIES ''VEHICLE''),
     item ''acid_23'' (cat ACID_CATEGORIES ''VEHICLE''),
     item ''acid_25'' (cat ACID_CATEGORIES ''SPILL_KIT''),
     item ''acid_26'' (cat ACID_CATEGORIES ''SPILL_KIT''),
     item ''acid_27'' (cat ACID_CATEGORIES ''SPILL_KIT''),
     item ''acid_28'' (cat ACID_CATEGORIES ''SPILL_KIT''),
     item ''acid_29'' (cat ACID_CATEGORIES ''SPILL_KIT''),
     item ''acid_30'' (cat ACID_CATEGORIES ''DOCUMENTATION''),
     item ''acid_31'' (cat ACID_CATEGORIES ''DOCUMENTATION''),
     item ''acid_32'' (cat ACID_CATEGORIES ''DOCUMENTATION''),
     item ''acid_33'' (cat ACID_CATEGORIES ''DOCUMENTATION''),
     item ''acid_34'' (cat ACID_CATEGORIES ''DOCUMENTATION'')]"

definition PETROLEUM_V2_CATEGORIES :: "(string \<times> string) list" where
  "PETROLEUM_V2_CATEGORIES =
    [(''PRIME_MOVER'', ''Prime Mover''),
     (''TRAILER_TANKS'', ''Trailer/Tanks''),
     (''DRIVER'', ''Driver''),
     (''SAFETY_SIGNS'', ''Safety & Warning Signs''),
     (''DOCUMENTS'', ''Licence & Mandatory Documents'')]"

definition PETROLEUM_V2_ITEMS :: "item_config list" where
  "PETROLEUM_V2_ITEMS =
    [item ''petro2_1'' (cat PETROLEUM_V2_CATEGORIES ''PRIME_MOVER''),
     item ''petro2_2'' (cat PETROLEUM_V2_CATEGORIES ''PRIME_MOVER''),
     item ''petro2_3'' (cat PETROLEUM_V2_CATEGORIES ''PRIME_MOVER''),
     item ''petro2_4'' (cat PETROLEUM_V2_CATEGORIES ''PRIME_MOVER''),
     item ''petro2_5'' (cat PETROLEUM_V2_CATEGORIES ''PRIME_MOVER''),
     item ''petro2_6'' (cat PETROLEUM_V2_CATEGORIES ''PRIME_MOVER''),
     item ''petro2_7'' (cat PETROLEUM_V2_CATEGORIES ''PRIME_MOVER''),
     item ''petro2_8'' (cat PETROLEUM_V2_CATEGORIES ''PRIME_MOVER''),
     item ''petro2_9'' (cat PETROLEUM_V2_CATEGORIES ''PRIME_MOVER''),
     item ''petro2_10'' (cat PETROLEUM_V2_CATEGORIES ''PRIME_MOVER''),
     item ''petro2_11'' (cat PETROLEUM_V2_CATEGORIES ''PRIME_MOVER''),
     item ''petro2_12'' (cat PETROLEUM_V2_CATEGORIES ''PRIME_MOVER''),
     item ''petro2_13'' (cat PETROLEUM_V2_CATEGORIES ''PRIME_MOVER''),
     item ''petro2_14'' (cat PETROLEUM_V2_CATEGORIES ''PRIME_MOVER''),
     item ''petro2_15'' (cat PETROLEUM_V2_CATEGORIES ''PRIME_MOVER''),
     item ''petro2_16'' (cat PETROLEUM_V2_CATEGORIES ''TRAILER_TANKS''),
     item ''petro2_17'' (cat PETROLEUM_V2_CATEGORIES ''TRAILER_TANKS''),
     item ''petro2_18'' (cat PETROLEUM_V2_CATEGORIES ''TRAILER_TANKS''),
     item ''petro2_19'' (cat PETROLEUM_V2_CATEGORIES ''TRAILER_TANKS''),
     item ''petro2_20'' (cat PETROLEUM_V2_CATEGORIES ''TRAILER_TANKS''),
     item ''petro2_21'' (cat PETROLEUM_V2_CATEGORIES ''TRAILER_TANKS''),
     item ''petro2_22'' (cat PETROLEUM_V2_CATEGORIES ''TRAILER_TANKS''),
     item ''petro2_23'' (cat PETROLEUM_V2_CATEGORIES ''TRAILER_TANKS''),
     item ''petro2_24'' (cat PETROLEUM_V2_CATEGORIES ''TRAILER_TANKS''),
     item ''petro2_25'' (cat PETROLEUM_V2_CATEGORIES ''TRAILER_TANKS''),
     item ''petro2_26'' (cat PETROLEUM_V2_CATEGORIES ''TRAILER_TANKS''),
     item ''petro2_27'' (cat PETROLEUM_V2_CATEGORIES ''TRAILER_TANKS''),
     item ''petro2_28'' (cat PETROLEUM_V2_CATEGORIES ''TRAILER_TANKS''),
     item ''petro2_29'' (cat PETROLEUM_V2_CATEGORIES ''TRAILER_TANKS''),
     item ''petro2_30'' (cat PETROLEUM_V2_CATEGORIES ''TRAILER_TANKS''),
     item ''petro2_31'' (cat PETROLEUM_V2_CATEGORIES ''TRAILER_TANKS''),
     item ''petro2_32'' (cat PETROLEUM_V2_CATEGORIES ''TRAILER_TANKS''),
     item ''petro2_33'' (cat PETROLEUM_V2_CATEGORIES ''DRIVER''),
     item ''petro2_34'' (cat PETROLEUM_V2_CATEGORIES ''DRIVER''),
     item ''petro2_35'' (cat PETROLEUM_V2_CATEGORIES ''DRIVER''),
     item ''petro2_36'' (cat PETROLEUM_V2_CATEGORIES ''DRIVER''),
     item ''petro2_37'' (cat PETROLEUM_V2_CATEGORIES ''DRIVER''),
     item ''petro2_38'' (cat PETROLEUM_V2_CATEGORIES ''SAFETY_SIGNS''),
     item ''petro2_39'' (cat PETROLEUM_V2_CATEGORIES ''SAFETY_SIGNS''),
     item ''petro2_40'' (cat PETROLEUM_V2_CATEGORIES ''SAFETY_SIGNS''),
     item ''petro2_41'' (cat PETROLEUM_V2_CATEGORIES ''SAFETY_SIGNS''),
     item ''petro2_42'' (cat PETROLEUM_V2_CATEGORIES ''SAFETY_SIGNS''),
     item ''petro2_43'' (cat PETROLEUM_V2_CATEGORIES ''SAFETY_SIGNS''),
     item ''petro2_44'' (cat PETROLEUM_V2_CATEGORIES ''SAFETY_SIGNS''),
     item ''petro2_45'' (cat PETROLEUM_V2_CATEGORIES ''DOCUMENTS''),
     item ''petro2_46'' (cat PETROLEUM_V2_CATEGORIES ''DOCUMENTS''),
     item ''petro2_47'' (cat PETROLEUM_V2_CATEGORIES ''DOCUMENTS''),
     item ''petro2_48'' (cat PETROLEUM_V2_CATEGORIES ''DOCUMENTS''),
     item ''petro2_49'' (cat PETROLEUM_V2_CATEGORIES ''DOCUMENTS''),
     item ''petro2_50'' (cat PETROLEUM_V2_CATEGORIES ''DOCUMENTS''),
     item ''petro2_51'' (cat PETROLEUM_V2_CATEGORIES ''DOCUMENTS''),
     item ''petro2_52'' (cat PETROLEUM_V2_CATEGORIES ''DOCUMENTS''),
     item ''petro2_53'' (cat PETROLEUM_V2_CATEGORIES ''DOCUMENTS'')]"

subsection \<open>The catalog in the form\<close>

text \<open>The item list \<open>renderInspectionSection\<close> draws from; any module other than
  the three tanker modules uses the general list.\<close>

definition module_catalog :: "string \<Rightarrow> item_config list" where
  "module_catalog m =
     (if m = ''petroleum'' then PETROLEUM_INSPECTION_ITEMS
      else if m = ''petroleum_v2'' then PETROLEUM_V2_ITEMS
      else if m = ''acid'' then ACID_INSPECTION_ITEMS
      else INSPECTION_ITEMS)"

definition items_to_render :: "string \<Rightarrow> string list \<Rightarrow> item_config list" where
  "items_to_render m cats = filter (\<lambda>i. category i \<in> set cats) (module_catalog m)"

text \<open>The category groups of the form sections 2 to 4 of each module.\<close>

definition section_categories :: "string \<Rightarrow> nat \<Rightarrow> string list" where
  "section_categories m s =
     (if m = ''general'' then
        (if s = 2 then [cat INSPECTION_CATEGORIES ''PPE'', cat INSPECTION_CATEGORIES ''DOCUMENTATION'']
         else if s = 3 then [cat INSPECTION_CATEGORIES ''VEHICLE_EXTERIOR'',
                             cat INSPECTION_CATEGORIES ''LIGHTS_ELECTRICAL'']
         else if s = 4 then [cat INSPECTION_CATEGORIES ''MECHANICAL'', cat INSPECTION_CATEGORIES ''TRAILER'']
         else [])
      else if m = ''petroleum'' then
        (if s = 2 then [cat PETROLEUM_CATEGORIES ''TRUCK_EQUIPMENT'']
         else if s = 3 then [cat PETROLEUM_CATEGORIES ''TYRES'', cat PETROLEUM_CATEGORIES ''PPE_ID'']
         else if s = 4 then [cat PETROLEUM_CATEGORIES ''DOCUMENTS'', cat PETROLEUM_CATEGORIES ''ONBOARD'']
         else [])
      else if m = ''petroleum_v2'' then
        (if s = 2 then [cat PETROLEUM_V2_CATEGORIES ''PRIME_MOVER'']
         else if s = 3 then [cat PETROLEUM_V2_CATEGORIES ''TRAILER_TANKS'']
         else if s = 4 then [cat PETROLEUM_V2_CATEGORIES ''DRIVER'', cat PETROLEUM_V2_CATEGORIES ''SAFETY_SIGNS'',
                             cat PETROLEUM_V2_CATEGORIES ''DOCUMENTS'']
         else [])
      else if m = ''acid'' then
        (if s = 2 then [cat ACID_CATEGORIES ''PPE'']
         else if s = 3 then [cat ACID_CATEGORIES ''VEHICLE'']
         else if s = 4 then [cat ACID_CATEGORIES ''SPILL_KIT'', cat ACID_CATEGORIES ''DOCUMENTATION'']
         else [])
      else [])"

definition section_items :: "string \<Rightarrow> item_config list" where
  "section_items m = concat (map (\<lambda>s. items_to_render m (section_categories m s)) [2, 3, 4])"

text \<open>The fields the details, photo and signature sections write
  (\<open>updateField\<close> calls of \<open>renderDetailsSection\<close>, \<open>renderPhotosSection\<close> and
  \<open>renderSignaturesSection\<close>), the same for every module.\<close>

definition form_fields :: "string list" where
  "form_fields = [''truckNo'', ''trailerNo'', ''jobCard'', ''inspectedBy'', ''driverName'', ''location'',
     ''odometer'', ''photoFront'', ''photoLS'', ''photoRS'', ''photoBack'', ''remarks'', ''photoDamage'',
     ''rate'', ''inspectorSignature'', ''driverSignature'']"

definition module_inputs :: "string \<Rightarrow> string list" where
  "module_inputs m = form_fields @ map item_id (section_items m)"

definition inspection_modules :: "string list" where
  "inspection_modules = [''general'', ''petroleum'', ''petroleum_v2'', ''acid'']"

text \<open>Inputs of a module that its sheet has no column for: their values never
  reach the payload.\<close>

definition unstored_inputs :: "string \<Rightarrow> string list" where
  "unstored_inputs m = filter (\<lambda>f. f \<notin> set (snd (sheet_target m))) (module_inputs m)"

subsection \<open>Properties of the catalog\<close>

text \<open>
  Every checklist item is asked exactly once: for each inspection module the
  items shown over the form sections 2 to 4 are the module's catalog, each once, and
  the item ids are distinct.
\<close>

theorem sections_cover_catalog:
  "list_all (\<lambda>m. mset (section_items m) = mset (module_catalog m)
                  \<and> distinct (map item_id (module_catalog m))) inspection_modules"
  by code_simp

text \<open>
  Every input of the tanker modules has a column in their sheet, but the
  General form's Job Card number has none: \<open>SHEET_HEADERS\<close> lacks \<open>jobCard\<close>, so
  the value entered is silently dropped from every General record.
\<close>

theorem unstored_inputs_modules:
  "unstored_inputs ''petroleum'' = [] \<and> unstored_inputs ''petroleum_v2'' = []
   \<and> unstored_inputs ''acid'' = [] \<and> unstored_inputs ''general'' = [''jobCard'']"
  by code_simp

end
