(* ===== verification/Input_Format.thy ===== *)
theory Input_Format
  imports Prelude
begin

text \<open>
  The typing rules of \<open>src/src/components/ui/AutocompleteInput.tsx\<close>, used for the
  registration numbers, names and locations of every inspection: \<open>handleChange\<close>
  formats what is typed (registration numbers upper-cased, reduced to letters and
  digits and split between letters and digits; names and locations with each word
  capitalised), \<open>filteredOptions\<close> selects the suggestions, and \<open>handleKeyDown\<close>
  moves the highlighted suggestion and selects on Enter. The regular expressions are
  over ASCII: \<open>[A-Z]\<close>, \<open>\d\<close> and \<open>\w\<close> match ASCII characters only, and the
  case conversions are modelled on ASCII letters.
\<close>

definition is_alnum_upper :: "char \<Rightarrow> bool" where
  "is_alnum_upper c \<longleftrightarrow> is_upper c \<or> is_digit c"

text \<open>\<open>\w\<close>: letters, digits and the underscore.\<close>

definition is_word :: "char \<Rightarrow> bool" where
  "is_word c \<longleftrightarrow> is_upper c \<or> is_lower c \<or> is_digit c \<or> c = CHR ''_''"

text \<open>\<open>raw.replace(/([A-Z])(\d)/g, '$1 $2')\<close>: matches are found left to right and do
  not overlap, so the scan resumes after the digit.\<close>

fun sep_letter_digit :: "string \<Rightarrow> string" where
  "sep_letter_digit (a # b # r) =
     (if is_upper a \<and> is_digit b then a # CHR '' '' # b # sep_letter_digit r
      else a # sep_letter_digit (b # r))"
| "sep_letter_digit r = r"

text \<open>\<open>raw.replace(/(\d)([A-Z])/g, '$1 $2')\<close>.\<close>

fun sep_digit_letter :: "string \<Rightarrow> string" where
  "sep_digit_letter (a # b # r) =
     (if is_digit a \<and> is_upper b then a # CHR '' '' # b # sep_digit_letter r
      else a # sep_digit_letter (b # r))"
| "sep_digit_letter r = r"

definition format_reg_no :: "string \<Rightarrow> string" where
  "format_reg_no s =
     (let raw = filter is_alnum_upper (to_upper s) in sep_digit_letter (sep_letter_digit raw))"

text \<open>\<open>newVal.replace(/\b\w/g, c => c.toUpperCase())\<close>: a word character right after
  a non-word character (or at the start) is upper-cased; the flag says whether the
  previous character was a word character.\<close>

fun title_go :: "bool \<Rightarrow> string \<Rightarrow> string" where
  "title_go prev [] = []"
| "title_go prev (c # cs) = (if is_word c \<and> \<not> prev then char_upper c else c) # title_go (is_word c) cs"

definition format_title :: "string \<Rightarrow> string" where
  "format_title s = title_go False s"

text \<open>\<open>handleChange\<close>: nothing when read-only; otherwise the formatted value passed
  to \<open>onChange\<close>. The dropdown opens and the highlight resets.\<close>

record ac_state =
  is_open :: bool
  highlighted :: int

definition handle_change ::
  "bool \<Rightarrow> bool \<Rightarrow> bool \<Rightarrow> string \<Rightarrow> ac_state \<Rightarrow> (string option \<times> ac_state)" where
  "handle_change read_only is_reg is_title typed st =
     (if read_only then (None, st)
      else
        (let v1 = (if is_reg then format_reg_no typed else typed);
             v2 = (if is_title \<and> \<not> is_reg then format_title v1 else v1)
         in (Some v2, st\<lparr>is_open := True, highlighted := -1\<rparr>)))"

definition filtered_options :: "string list \<Rightarrow> string \<Rightarrow> string list" where
  "filtered_options opts v = filter (\<lambda>opt. opt \<noteq> [] \<and> has_infix (to_lower v) (to_lower opt)) opts"

datatype key = Arrow_down | Arrow_up | Enter | Escape | Other_key

text \<open>\<open>handleKeyDown\<close>: the selected value (\<open>handleSelect\<close>) if any, and the new
  state. Enter selects the highlighted suggestion when it exists and is non-empty,
  and the typed text otherwise.\<close>

definition handle_key ::
  "bool \<Rightarrow> string list \<Rightarrow> string \<Rightarrow> key \<Rightarrow> ac_state \<Rightarrow> (string option \<times> ac_state)" where
  "handle_key read_only opts v k st =
     (let fo = filtered_options opts v; h = highlighted st in
      if read_only then (None, st)
      else (case k of
              Arrow_down \<Rightarrow> (None, st\<lparr>highlighted := min (h + 1) (int (length fo) - 1)\<rparr>)
            | Arrow_up \<Rightarrow> (None, st\<lparr>highlighted := max (h - 1) 0\<rparr>)
            | Enter \<Rightarrow>
                (if 0 \<le> h \<and> nat h < length fo \<and> fo ! nat h \<noteq> []
                 then (Some (fo ! nat h), st\<lparr>is_open := False, highlighted := -1\<rparr>)
                 else (Some v, st\<lparr>is_open := False, highlighted := -1\<rparr>))
            | Escape \<Rightarrow> (None, st\<lparr>is_open := False\<rparr>)
            | Other_key \<Rightarrow> (None, st)))"

text \<open>No adjacent letter and digit without a space between them.\<close>

fun no_mixed_pair :: "string \<Rightarrow> bool" where
  "no_mixed_pair (a # b # r) =
     (\<not> (is_upper a \<and> is_digit b) \<and> \<not> (is_digit a \<and> is_upper b) \<and> no_mixed_pair (b # r))"
| "no_mixed_pair r = True"

text \<open>Adjacent pairs a string must avoid.\<close>

fun adj_free :: "(char \<Rightarrow> char \<Rightarrow> bool) \<Rightarrow> string \<Rightarrow> bool" where
  "adj_free P (a # b # r) = (\<not> P a b \<and> adj_free P (b # r))"
| "adj_free P r = True"

definition letter_digit :: "char \<Rightarrow> char \<Rightarrow> bool" where
  "letter_digit a b \<longleftrightarrow> is_upper a \<and> is_digit b"

definition digit_letter :: "char \<Rightarrow> char \<Rightarrow> bool" where
  "digit_letter a b \<longleftrightarrow> is_digit a \<and> is_upper b"

subsection \<open>Properties of the formatting\<close>

lemma no_mixed_pair_iff:
  "no_mixed_pair xs \<longleftrightarrow> adj_free letter_digit xs \<and> adj_free digit_letter xs"
  by (induction xs rule: no_mixed_pair.induct) (auto simp: letter_digit_def digit_letter_def)

lemma space_not_alnum [simp]: "\<not> is_alnum_upper CHR '' ''"
  by (simp add: is_alnum_upper_def is_upper_def is_digit_def)

lemma hd_sep_letter_digit: "xs \<noteq> [] \<Longrightarrow> hd (sep_letter_digit xs) = hd xs"
  by (induction xs rule: sep_letter_digit.induct) auto

lemma hd_sep_digit_letter: "xs \<noteq> [] \<Longrightarrow> hd (sep_digit_letter xs) = hd xs"
  by (induction xs rule: sep_digit_letter.induct) auto

lemma sep_letter_digit_Nil_iff [simp]: "sep_letter_digit xs = [] \<longleftrightarrow> xs = []"
  by (induction xs rule: sep_letter_digit.induct) auto

lemma sep_digit_letter_Nil_iff [simp]: "sep_digit_letter xs = [] \<longleftrightarrow> xs = []"
  by (induction xs rule: sep_digit_letter.induct) auto

lemma filter_sep_letter_digit [simp]:
  "filter is_alnum_upper (sep_letter_digit xs) = filter is_alnum_upper xs"
  by (induction xs rule: sep_letter_digit.induct) auto

lemma filter_sep_digit_letter [simp]:
  "filter is_alnum_upper (sep_digit_letter xs) = filter is_alnum_upper xs"
  by (induction xs rule: sep_digit_letter.induct) auto

lemma set_sep_letter_digit: "set (sep_letter_digit xs) \<subseteq> set xs \<union> {CHR '' ''}"
  by (induction xs rule: sep_letter_digit.induct) auto

lemma set_sep_digit_letter: "set (sep_digit_letter xs) \<subseteq> set xs \<union> {CHR '' ''}"
  by (induction xs rule: sep_digit_letter.induct) auto

lemma adj_free_Cons2: "adj_free P (a # xs) \<longleftrightarrow> (xs = [] \<or> \<not> P a (hd xs)) \<and> adj_free P xs"
  by (cases xs) auto

lemma sep_letter_digit_free: "adj_free letter_digit (sep_letter_digit xs)"
proof (induction xs rule: sep_letter_digit.induct)
  case (1 a b r)
  then show ?case
    by (cases "sep_letter_digit r")
      (auto simp: adj_free_Cons2 letter_digit_def hd_sep_letter_digit is_upper_def is_digit_def Let_def)
qed simp_all

lemma char_class_facts [simp]:
  "\<not> is_upper CHR '' ''" "\<not> is_digit CHR '' ''" "\<not> is_lower CHR '' ''"
  "is_upper c \<Longrightarrow> \<not> is_digit c" "is_upper c \<Longrightarrow> \<not> is_lower c" "is_digit c \<Longrightarrow> \<not> is_lower c"
  by (auto simp: is_upper_def is_digit_def is_lower_def Let_def)

lemma sep_digit_letter_free:
  "adj_free letter_digit xs \<Longrightarrow>
   adj_free letter_digit (sep_digit_letter xs) \<and> adj_free digit_letter (sep_digit_letter xs)"
proof (induction xs rule: sep_digit_letter.induct)
  case (1 a b r)
  then show ?case
    by (cases r) (auto simp: adj_free_Cons2 letter_digit_def digit_letter_def hd_sep_digit_letter)
qed simp_all

lemma char_upper_id: "\<not> is_lower c \<Longrightarrow> char_upper c = c"
  by (simp add: char_upper_def)

lemma format_reg_no_chars: "c \<in> set (format_reg_no s) \<Longrightarrow> is_alnum_upper c \<or> c = CHR '' ''"
  using set_sep_digit_letter [of "sep_letter_digit (filter is_alnum_upper (to_upper s))"]
    set_sep_letter_digit [of "filter is_alnum_upper (to_upper s)"]
  by (auto simp: format_reg_no_def)

lemma to_upper_format_reg_no: "to_upper (format_reg_no s) = format_reg_no s"
proof -
  have "\<forall>c \<in> set (format_reg_no s). char_upper c = c"
    using format_reg_no_chars by (fastforce simp: is_alnum_upper_def intro: char_upper_id)
  then show ?thesis by (simp add: to_upper_def map_idI)
qed

lemma filter_format_reg_no: "filter is_alnum_upper (format_reg_no s) = filter is_alnum_upper (to_upper s)"
  by (simp add: format_reg_no_def)

text \<open>
  C33. Registration numbers: whatever is typed, the stored value has no letter next
  to a digit without a space, keeps exactly the upper-cased letters and digits typed
  in their order, contains nothing but upper-case letters, digits and spaces, and
  formatting it again changes nothing.
\<close>

theorem reg_no_format:
  "no_mixed_pair (format_reg_no s)
   \<and> filter is_alnum_upper (format_reg_no s) = filter is_alnum_upper (to_upper s)
   \<and> list_all (\<lambda>c. is_alnum_upper c \<or> c = CHR '' '') (format_reg_no s)
   \<and> format_reg_no (format_reg_no s) = format_reg_no s"
proof (intro conjI)
  show "no_mixed_pair (format_reg_no s)"
    using sep_digit_letter_free [OF sep_letter_digit_free]
    by (simp add: no_mixed_pair_iff format_reg_no_def)
  show "list_all (\<lambda>c. is_alnum_upper c \<or> c = CHR '' '') (format_reg_no s)"
    using format_reg_no_chars by (simp add: list_all_iff)
  show "format_reg_no (format_reg_no s) = format_reg_no s"
    by (simp add: format_reg_no_def [of "format_reg_no s"] to_upper_format_reg_no
        filter_format_reg_no) (simp add: format_reg_no_def)
qed (rule filter_format_reg_no)

lemma of_char_char_upper:
  assumes "is_lower c"
  shows "(of_char (char_upper c) :: nat) = of_char c - 32 \<and> 65 \<le> (of_char c :: nat) - 32
         \<and> (of_char c :: nat) - 32 \<le> 90"
proof -
  from assms have r: "97 \<le> (of_char c :: nat) \<and> (of_char c :: nat) \<le> 122"
    by (simp add: is_lower_def Let_def)
  then have "((of_char c :: nat) - 32) mod 256 = of_char c - 32" by (intro mod_less) linarith
  with assms r show ?thesis by (simp add: char_upper_def) linarith
qed

lemma is_word_char_upper [simp]: "is_word (char_upper c) = is_word c"
proof (cases "is_lower c")
  case True
  from of_char_char_upper [OF True] True show ?thesis
    by (auto simp: is_word_def is_upper_def Let_def)
qed (simp add: char_upper_def)

lemma char_upper_idem [simp]: "char_upper (char_upper c) = char_upper c"
proof (cases "is_lower c")
  case True
  from of_char_char_upper [OF True] have "\<not> is_lower (char_upper c)"
    by (simp add: is_lower_def Let_def)
  then show ?thesis by (simp add: char_upper_id)
qed (simp add: char_upper_def)

lemma title_go_idem: "title_go p (title_go p s) = title_go p s"
  by (induction p s rule: title_go.induct) auto

lemma length_title_go [simp]: "length (title_go p s) = length s"
  by (induction p s rule: title_go.induct) auto

text \<open>
  Names and locations: the capitalisation keeps the length and is idempotent,
  but, unlike the comment above it (\<open>lowercase the rest\<close>), it only upper-cases the
  first character of each word: \<open>jOHN mCdONALD\<close> is stored as \<open>JOHN MCdONALD\<close>.
\<close>

theorem title_case_format:
  "length (format_title s) = length s
   \<and> format_title (format_title s) = format_title s
   \<and> format_title ''jOHN mCdONALD'' = ''JOHN MCdONALD''"
  by (simp add: format_title_def title_go_idem) code_simp

end
