(* ===== verification/History.thy ===== *)
theory History
  imports Complex_Main Forms Backend_Store
begin

text \<open>
  The read side of the inspection records: \<open>fetchHistory\<close> and \<open>stats\<close> in
  \<open>src/src/App.tsx\<close> (the current module's records from the bulk read, newest
  first, the suggestion lists of \<open>Validation_Data\<close>, and the module's pass rate),
  and \<open>fetchAllData\<close> of \<open>src/src/views/OverviewDashboard.tsx\<close> (the counts over
  all inspection sheets). A record read back is a partial map from column names to
  cells. Percentages are computed on binary64 numbers as the code computes them:
  the quotient and the product are each rounded to the nearest double, and the
  result is rounded half up as \<open>Math.round\<close> and \<open>toFixed(0)\<close> round a
  non-negative number.
\<close>

type_synonym inspection_item = "string \<rightharpoonup> cell"

text \<open>The if-chain of \<open>fetchHistory\<close> choosing the sheet and the schema.\<close>

definition history_target :: "string \<Rightarrow> string \<times> string list" where
  "history_target m =
     (if m = ''petroleum'' then (''Petroleum'', PETROLEUM_HEADERS)
      else if m = ''petroleum_v2'' then (''Petroleum_V2'', PETROLEUM_V2_HEADERS)
      else if m = ''acid'' then (''Acid'', ACID_HEADERS)
      else (''General'', SHEET_HEADERS))"

text \<open>\<open>targetHeaders.forEach((header, index) => item[header] = row[index] !== undefined
  ? row[index] : null)\<close>: a later column of the same name overwrites an earlier one.\<close>

definition row_item :: "string list \<Rightarrow> cell list \<Rightarrow> inspection_item" where
  "row_item hs row =
     map_of (rev (zip hs (map (\<lambda>i. if i < length row then row ! i else Null) [0..<length hs])))"

record validation_lists =
  trucks :: "cell list"
  trailers :: "cell list"
  drivers :: "cell list"
  inspectors :: "cell list"
  locations :: "cell list"
  positions :: "cell list"

record history_state =
  history_list :: "inspection_item list"
  v_lists :: validation_lists

text \<open>\<open>validationData['Key'] || []\<close>.\<close>

definition obj_list :: "(string \<times> cell list) list \<Rightarrow> string \<Rightarrow> cell list" where
  "obj_list obj k = (case map_of obj k of Some cs \<Rightarrow> cs | None \<Rightarrow> [])"

definition lists_of :: "jval \<Rightarrow> validation_lists" where
  "lists_of v =
     (let obj = (case v of JObj ob \<Rightarrow> ob | _ \<Rightarrow> []) in
      \<lparr>trucks = obj_list obj ''Truck_Reg_No'', trailers = obj_list obj ''Trailer_Reg_No'',
       drivers = obj_list obj ''Driver_Name'', inspectors = obj_list obj ''Inspector_Name'',
       locations = obj_list obj ''Location'', positions = obj_list obj ''Position''\<rparr>)"

text \<open>\<open>fetchHistory\<close>: nothing without a backend or offline, nothing when the request
  or its JSON fails; otherwise the lists are replaced when \<open>Validation_Data\<close> is
  present, and the history becomes the data rows of the module's sheet read by the
  module's schema, newest first.\<close>

definition history_items :: "string \<Rightarrow> snapshot \<Rightarrow> inspection_item list" where
  "history_items m json =
     (let (sheet, hs) = history_target m in
      case json sheet of
        Some (JRows rows) \<Rightarrow> (if 1 < length rows then rev (map (row_item hs) (tl rows)) else [])
      | _ \<Rightarrow> [])"

definition fetch_history ::
  "string \<Rightarrow> bool \<Rightarrow> string \<Rightarrow> snapshot option \<Rightarrow> history_state \<Rightarrow> history_state" where
  "fetch_history url online m resp st =
     (if url = [] \<or> \<not> online then st
      else (case resp of
              None \<Rightarrow> st
            | Some json \<Rightarrow>
                (let st1 = (case json ''Validation_Data'' of
                              Some v \<Rightarrow> st\<lparr>v_lists := lists_of v\<rparr> | None \<Rightarrow> st)
                 in st1\<lparr>history_list := history_items m json\<rparr>)))"

text \<open>\<open>Number(i.rate) >= 4\<close>, with \<open>i.rate\<close> undefined when the record has no rate.\<close>

definition item_rate :: "inspection_item \<Rightarrow> jsnum" where
  "item_rate i = (case i ''rate'' of Some c \<Rightarrow> js_Number c | None \<Rightarrow> NaN)"

text \<open>\<open>Math.round((passed / total) * 100)\<close> and \<open>((passed / total) * 100).toFixed(0)\<close>
  on binary64 numbers. \<open>nbits\<close> is the bit length of a natural number;
  \<open>round_div_even\<close> divides rounding to the nearest, ties to even; \<open>fl_frac a b\<close>
  is the double nearest to \<open>a / b\<close>, as a significand of 53 bits and an exponent
  (the quotients and products of counts are far from the subnormal and overflow
  ranges); \<open>scaled\<close> is the exact product of a double with a natural number, as a
  fraction, so that \<open>fl_frac\<close> of it is the rounded product; \<open>round_half_up\<close>
  is \<open>Math.round\<close> (and \<open>toFixed(0)\<close>) of a non-negative double: the nearest
  integer, ties upward.\<close>

fun nbits :: "nat \<Rightarrow> nat" where
  "nbits n = (if n = 0 then 0 else Suc (nbits (n div 2)))"

definition round_div_even :: "nat \<Rightarrow> nat \<Rightarrow> nat" where
  "round_div_even a b =
     (let q = a div b; r = a mod b
      in if 2 * r < b then q else if b < 2 * r then q + 1 else if even q then q else q + 1)"

definition fl_frac :: "nat \<Rightarrow> nat \<Rightarrow> nat \<times> int" where
  "fl_frac a b =
     (if a = 0 then (0, 0)
      else let l = int (nbits a) - int (nbits b);
               above = (if 0 \<le> l then b * 2 ^ nat l \<le> a else b \<le> a * 2 ^ nat (- l));
               lg = (if above then l else l - 1);
               sh = 52 - lg
           in (if 0 \<le> sh then round_div_even (a * 2 ^ nat sh) b
               else round_div_even a (b * 2 ^ nat (- sh)), - sh))"

definition scaled :: "nat \<times> int \<Rightarrow> nat \<Rightarrow> nat \<times> nat" where
  "scaled me c = (case me of (m, e) \<Rightarrow>
     if 0 \<le> e then (m * c * 2 ^ nat e, 1) else (m * c, 2 ^ nat (- e)))"

definition round_half_up :: "nat \<times> int \<Rightarrow> nat" where
  "round_half_up me = (case me of (m, e) \<Rightarrow>
     if 0 \<le> e then m * 2 ^ nat e else (2 * m + 2 ^ nat (- e)) div (2 * 2 ^ nat (- e)))"

definition percent :: "nat \<Rightarrow> nat \<Rightarrow> nat" where
  "percent k n = round_half_up (case scaled (fl_frac k n) 100 of (a, b) \<Rightarrow> fl_frac a b)"

record module_stats =
  st_total :: nat
  st_pass_rate :: nat

definition history_stats :: "inspection_item list \<Rightarrow> module_stats" where
  "history_stats hl =
     (if hl = [] then \<lparr>st_total = 0, st_pass_rate = 0\<rparr>
      else \<lparr>st_total = length hl,
            st_pass_rate = percent (length (filter (\<lambda>i. js_ge (item_rate i) 4) hl)) (length hl)\<rparr>)"

subsection \<open>The overview dashboard\<close>

text \<open>The shortened schemas \<open>fetchAllData\<close> reads each sheet with, and
  \<open>processSheet\<close>, which leaves a column undefined past the end of a row.\<close>

definition overview_headers :: "string \<Rightarrow> string list" where
  "overview_headers sheet =
     (if sheet = ''General'' then
        [''id'', ''timestamp'', ''truckNo'', ''trailerNo'', ''inspectedBy'', ''driverName'', ''location'',
         ''odometer'', ''rate'', ''remarks'']
      else [''id'', ''timestamp'', ''truckNo'', ''trailerNo'', ''jobCard'', ''location'', ''odometer'',
            ''inspectedBy'', ''driverName'', ''rate'', ''remarks''])"

definition process_sheet :: "jval option \<Rightarrow> string list \<Rightarrow> inspection_item list" where
  "process_sheet v hs =
     (case v of
        Some (JRows rows) \<Rightarrow>
          (if length rows \<le> 1 then []
           else map (\<lambda>row. map_of (rev (filter (\<lambda>(h, c). c \<noteq> Undef)
                                       (zip hs (map (row_get row) [0..<length hs]))))) (tl rows))
      | _ \<Rightarrow> [])"

record overview_stats =
  total_inspections :: nat
  pass_rate :: nat
  active_vehicles :: nat
  critical_issues :: nat
  by_general :: nat
  by_petroleum :: nat
  by_acid :: nat
  recent :: "inspection_item list"

text \<open>\<open>{...i, type: 'General'}\<close>: the record with its module's name added.\<close>

definition tag_type :: "string \<Rightarrow> inspection_item \<Rightarrow> inspection_item" where
  "tag_type t i = i(''type'' \<mapsto> Str t)"

text \<open>The comparator \<open>new Date(b.timestamp) - new Date(a.timestamp)\<close> as a sort
  key, newest first (the sort is stable); a timestamp that does not parse gives
  \<open>NaN\<close>, which the comparator treats as equal to everything and the key places
  at 0.\<close>

definition item_ts_key :: "date_parser \<Rightarrow> inspection_item \<Rightarrow> int" where
  "item_ts_key parse i =
     (case date_ms parse (case i ''timestamp'' of Some c \<Rightarrow> c | None \<Rightarrow> Undef) of
        Fin t \<Rightarrow> - t | NaN \<Rightarrow> 0)"

definition overview :: "date_parser \<Rightarrow> snapshot \<Rightarrow> overview_stats" where
  "overview parse json =
     (let gl = process_sheet (json ''General'') (overview_headers ''General'');
          pl = process_sheet (json ''Petroleum'') (overview_headers ''Petroleum'');
          p2 = process_sheet (json ''Petroleum_V2'') (overview_headers ''Petroleum_V2'');
          al = process_sheet (json ''Acid'') (overview_headers ''Acid'');
          alls = map (tag_type ''General'') gl @ map (tag_type ''Petroleum'') pl
                 @ map (tag_type ''Petroleum V2'') p2 @ map (tag_type ''Acid'') al;
          n = length alls;
          passed = length (filter (\<lambda>i. js_ge (item_rate i) 4) alls);
          crit = length (filter (\<lambda>i. js_le (item_rate i) 2) alls)
      in \<lparr>total_inspections = n, pass_rate = (if 0 < n then percent passed n else 0),
          active_vehicles = length (remdups (map (\<lambda>i. i ''truckNo'') alls)),
          critical_issues = crit, by_general = length gl, by_petroleum = length pl + length p2,
          by_acid = length al, recent = take 10 (sort_key (item_ts_key parse) alls)\<rparr>)"

subsection \<open>Facts about reading records back\<close>

lemma history_target_eq: "history_target = sheet_target"
  by (rule ext) (simp add: history_target_def sheet_target_def)

text \<open>A record reads only the first \<open>length hs\<close> cells of its row.\<close>

lemma row_item_prefix: "length hs \<le> length r \<Longrightarrow> row_item hs (r @ xs) = row_item hs r"
  unfolding row_item_def by (rule arg_cong [where f = "\<lambda>l. map_of (rev (zip hs l))"]) (auto simp: nth_append)

text \<open>A row written column by column from the same schema reads back as the
  written value in every column of the schema, whatever repetitions it has.\<close>

lemma row_item_map:
  "row_item hs (map g hs) = (\<lambda>h. if h \<in> set hs then Some (g h) else None)"
proof -
  have "map (\<lambda>i. if i < length (map g hs) then map g hs ! i else Null) [0..<length hs] = map g hs"
    by (rule nth_equalityI) simp_all
  then have "rev (zip hs (map (\<lambda>i. if i < length (map g hs) then map g hs ! i else Null)
                [0..<length hs])) = map (\<lambda>k. (k, g k)) (rev hs)"
    by (simp add: zip_map2 zip_same_conv_map rev_map)
  then show ?thesis
    by (simp add: row_item_def map_of_map_restrict restrict_map_def comp_def)
qed

lemma history_items_hd:
  assumes "json (fst (sheet_target m)) = Some (JRows rows)" and "1 < length rows"
  shows "history_items m json \<noteq> [] \<and>
         hd (history_items m json) = row_item (snd (sheet_target m)) (last rows)"
proof -
  from assms(2) have "tl rows \<noteq> []" by (cases rows) auto
  then have "hd (rev (map (row_item (snd (sheet_target m))) (tl rows))) =
             row_item (snd (sheet_target m)) (last rows)"
    by (simp add: hd_rev last_map last_tl)
  moreover obtain sheet hs where "sheet_target m = (sheet, hs)" by (cases "sheet_target m")
  ultimately show ?thesis using assms \<open>tl rows \<noteq> []\<close>
    by (simp add: history_items_def history_target_eq)
qed

lemmas percent_eval = percent_def fl_frac_def Let_def round_div_even_def scaled_def round_half_up_def

text \<open>The rounded double differs from the rounded rational: \<open>23 / 40 * 100\<close> is
  the double just below \<open>57.5\<close>, so 23 passes out of 40 show 57, not 58.\<close>

lemma percent_examples:
  "percent 23 40 = 57 \<and> percent 2 3 = 67 \<and> percent 1 2 = 50 \<and> percent 7 7 = 100 \<and> percent 0 7 = 0"
  by (simp add: percent_eval)

end
