(* ===== verification/User_Management.thy ===== *)
theory User_Management
  imports Backend Offline_Queue
begin

text \<open>
  The admin's user-management view, \<open>src/src/views/UserManagementView.tsx\<close>, composed
  with the backend handlers it calls. The view's React state is a record; each
  handler takes the view state and the spreadsheet and returns both, sending its
  requests through \<open>doPost\<close> of \<open>Backend\<close>. A request has a transport outcome (the
  \<open>transport\<close> of \<open>Offline_Queue\<close>): it is answered, rejected before it reaches the
  script, or processed by the script with the answer lost; a rejection of any kind
  lands in the handler's \<open>catch\<close>. The loading and submitting flags, set at the
  start of a handler and cleared in its \<open>finally\<close>, are not modelled; toasts are
  kept as a log.
\<close>

datatype toast_kind = Toast_success | Toast_error | Toast_info

datatype um_mode = List_mode | Form_mode

text \<open>An element of \<open>result.users\<close>: username, password, name, role, position,
  last login, in the order \<open>get_users\<close> writes them.\<close>

type_synonym user_entry = "cell \<times> cell \<times> cell \<times> string \<times> cell \<times> cell"

record um_form =
  fm_name :: cell
  fm_username :: cell
  fm_password :: cell
  fm_role :: cell
  fm_position :: cell

record um_state =
  um_users :: "user_entry list"
  um_mode :: um_mode
  um_editing :: bool
  um_original :: cell
  um_form :: um_form
  um_toasts :: "(string \<times> toast_kind) list"

definition empty_form :: um_form where
  "empty_form = \<lparr>fm_name = Str [], fm_username = Str [], fm_password = Str [],
                 fm_role = Str ''Inspector'', fm_position = Str []\<rparr>"

definition um_init :: um_state where
  "um_init = \<lparr>um_users = [], um_mode = List_mode, um_editing = False, um_original = Str [],
              um_form = empty_form, um_toasts = []\<rparr>"

definition toast :: "string \<Rightarrow> toast_kind \<Rightarrow> um_state \<Rightarrow> um_state" where
  "toast m k st = st\<lparr>um_toasts := um_toasts st @ [(m, k)]\<rparr>"

subsection \<open>Requests\<close>

text \<open>\<open>JSON.stringify\<close> of a flat object, as the script's \<open>JSON.parse\<close> reads it
  back: the listed fields, every other field \<open>undefined\<close>.\<close>

definition object_body :: "(string \<times> cell) list \<Rightarrow> post_body" where
  "object_body kvs = \<lparr>b_fields = (\<lambda>k. case map_of kvs k of Some v \<Rightarrow> v | None \<Rightarrow> Undef),
     b_headers = None, b_row = None, b_prefs = None\<rparr>"

text \<open>\<open>await fetch(appScriptUrl, {method: 'POST', ...})\<close> then \<open>response.json()\<close>:
  the answer, or \<open>None\<close> when the promise rejects.\<close>

definition send_request ::
  "autotype \<Rightarrow> string \<Rightarrow> transport \<Rightarrow> post_body \<Rightarrow> spreadsheet \<Rightarrow> response option \<times> spreadsheet" where
  "send_request at now t b ss =
     (case t of
        Resolved \<Rightarrow> (let (r, ss') = do_post at now b ss in (Some r, ss'))
      | Rejected \<Rightarrow> (None, ss)
      | Lost_response \<Rightarrow> (None, snd (do_post at now b ss)))"

text \<open>\<open>result.status === 'success'\<close>, and \<open>result.message || fallback\<close>.\<close>

definition is_success :: "response \<Rightarrow> bool" where
  "is_success r = (case r of Fail_message _ \<Rightarrow> False | Fail_code _ _ \<Rightarrow> False | _ \<Rightarrow> True)"

definition fail_text :: "response \<Rightarrow> string \<Rightarrow> string" where
  "fail_text r d = (case r of Fail_message m \<Rightarrow> if m = [] then d else m
                            | Fail_code _ m \<Rightarrow> if m = [] then d else m | _ \<Rightarrow> d)"

subsection \<open>The handlers\<close>

definition fetch_users ::
  "autotype \<Rightarrow> string \<Rightarrow> string \<Rightarrow> transport \<Rightarrow> um_state \<times> spreadsheet \<Rightarrow> um_state \<times> spreadsheet" where
  "fetch_users at now url t sys =
     (let (st, ss) = sys in
      if url = [] then (st, ss)
      else (case send_request at now t (object_body [(''action'', Str ''get_users'')]) ss of
              (None, ss') \<Rightarrow> (toast ''Failed to load users'' Toast_error st, ss')
            | (Some (Ok_users us), ss') \<Rightarrow> (st\<lparr>um_users := us\<rparr>, ss')
            | (Some _, ss') \<Rightarrow> (st, ss')))"

text \<open>\<open>handleDelete(username)\<close>, after the \<open>window.confirm\<close> answer \<open>ok\<close>; on
  success the list is fetched again (a second request with its own outcome).\<close>

definition handle_delete ::
  "autotype \<Rightarrow> string \<Rightarrow> string \<Rightarrow> bool \<Rightarrow> cell \<Rightarrow> transport \<Rightarrow> transport \<Rightarrow>
   um_state \<times> spreadsheet \<Rightarrow> um_state \<times> spreadsheet" where
  "handle_delete at now url ok u t1 t2 sys =
     (let (st, ss) = sys in
      if \<not> ok then (st, ss)
      else (case send_request at now t1 (object_body [(''action'', Str ''delete_user''), (''username'', u)]) ss of
              (None, ss') \<Rightarrow> (toast ''Connection failed'' Toast_error st, ss')
            | (Some r, ss') \<Rightarrow>
                if is_success r
                then fetch_users at now url t2 (toast ''User removed successfully'' Toast_success st, ss')
                else (toast (fail_text r ''Failed to delete user'') Toast_error st, ss')))"

definition handle_edit :: "user_entry \<Rightarrow> um_state \<Rightarrow> um_state" where
  "handle_edit u st =
     (case u of (un, pw, nm, rl, pos, ll) \<Rightarrow>
        st\<lparr>um_form := \<lparr>fm_name = nm, fm_username = un, fm_password = Str [], fm_role = Str rl,
                        fm_position = js_or pos (Str [])\<rparr>,
           um_original := un, um_editing := True, um_mode := Form_mode\<rparr>)"

text \<open>The body of \<open>handleSubmit\<close>: the action, the spread form fields, and
  \<open>originalUsername\<close> when editing.\<close>

definition submit_body :: "um_state \<Rightarrow> post_body" where
  "submit_body st =
     (let f = um_form st in
      object_body ([(''action'', Str (if um_editing st then ''update_user'' else ''register_user'')),
                    (''name'', fm_name f), (''username'', fm_username f), (''password'', fm_password f),
                    (''role'', fm_role f), (''position'', fm_position f)]
                   @ (if um_editing st then [(''originalUsername'', um_original st)] else [])))"

definition handle_submit_user ::
  "autotype \<Rightarrow> string \<Rightarrow> string \<Rightarrow> transport \<Rightarrow> transport \<Rightarrow>
   um_state \<times> spreadsheet \<Rightarrow> um_state \<times> spreadsheet" where
  "handle_submit_user at now url t1 t2 sys =
     (let (st, ss) = sys; f = um_form st in
      if \<not> js_truthy (fm_name f) \<or> \<not> js_truthy (fm_username f)
      then (toast ''Please fill in required fields.'' Toast_error st, ss)
      else if \<not> um_editing st \<and> \<not> js_truthy (fm_password f)
      then (toast ''Password is required for new users.'' Toast_error st, ss)
      else (case send_request at now t1 (submit_body st) ss of
              (None, ss') \<Rightarrow> (toast ''Connection failed'' Toast_error st, ss')
            | (Some r, ss') \<Rightarrow>
                if is_success r
                then fetch_users at now url t2
                       ((toast (if um_editing st then ''User updated successfully''
                                else ''User created successfully'') Toast_success st)
                          \<lparr>um_mode := List_mode, um_form := empty_form, um_editing := False\<rparr>, ss')
                else (toast (fail_text r ''Operation failed'') Toast_error st, ss')))"

text \<open>The \<open>Add User\<close> and \<open>Back to List\<close> buttons.\<close>

definition add_user :: "um_state \<Rightarrow> um_state" where
  "add_user st = st\<lparr>um_form := empty_form, um_editing := False, um_mode := Form_mode\<rparr>"

definition back_to_list :: "um_state \<Rightarrow> um_state" where
  "back_to_list st = st\<lparr>um_mode := List_mode\<rparr>"

subsection \<open>Observations and concrete data\<close>

text \<open>The credentials the Users sheet holds: for each user row its key and its
  password cell (empty when the row is shorter).\<close>

definition user_cred :: "cell list \<Rightarrow> string \<times> cell" where
  "user_cred row = (row_key row, row_get (pad_row 2 row) 1)"

definition users_pw :: "spreadsheet \<Rightarrow> (string \<times> cell) list option" where
  "users_pw ss = map_option (\<lambda>sh. map user_cred (tl sh)) (get_sheet ss ''Users'')"

text \<open>An entry of the list, a new-user form, and a spreadsheet whose
  \<open>Validation_Data\<close> sheet exists but is empty.\<close>

definition demo_alice :: user_entry where
  "demo_alice = (Str ''alice'', Str ''pw'', Str ''Name'', ''Inspector'', Str [], Str [])"

definition demo_new_user :: um_state where
  "demo_new_user = (add_user um_init)\<lparr>um_form := \<lparr>fm_name = Str ''Carol'', fm_username = Str ''carol'',
     fm_password = Str ''secret'', fm_role = Str ''Inspector'', fm_position = Str []\<rparr>\<rparr>"

definition demo_users_vd :: spreadsheet where
  "demo_users_vd = demo_users @ [(''Validation_Data'', [])]"

subsection \<open>Facts about the handlers\<close>

lemma tl_keys_values:
  "0 < width sh \<Longrightarrow> map (\<lambda>r. user_key (row_get r 0)) (drop 1 (sheet_values sh)) = map row_key (tl sh)"
  using keys_values [of sh] by (simp add: drop_Suc map_tl)

lemma distinct_remove_at_notin:
  assumes "distinct (map f xs)" and "j < length xs"
  shows "f (xs ! j) \<notin> set (map f (take j xs @ drop (Suc j) xs))"
proof -
  have "xs = take j xs @ xs ! j # drop (Suc j) xs" using assms(2) by (rule id_take_nth_drop)
  then have "distinct (map f (take j xs) @ f (xs ! j) # map f (drop (Suc j) xs))"
    using assms(1) by (metis list.simps(9) map_append)
  then show ?thesis by auto
qed

lemma get_users_keys:
  assumes "get_sheet ss ''Users'' = Some sh" and "sh \<noteq> []" and "hd sh \<noteq> []"
    and "fst (handle_get_users ss) = Ok_users us"
  shows "set (map (\<lambda>x. user_key (fst x)) us) \<subseteq> set (map row_key (tl sh))"
proof -
  have w: "0 < width sh" using assms(2,3) by (rule width_pos)
  have "us = map (\<lambda>row. (row_get row 0, row_get row 1, row_get row 2,
                         trim (js_String (row_get row 3)), row_get row 4, row_get row 5))
               (filter (\<lambda>row. js_truthy (row_get row 0)) (drop 1 (sheet_values sh)))"
    using assms(1,4) by (simp add: handle_get_users_def)
  then have "set (map (\<lambda>x. user_key (fst x)) us) \<subseteq> set (map (\<lambda>r. user_key (row_get r 0)) (drop 1 (sheet_values sh)))"
    by auto
  then show ?thesis using arg_cong [OF tl_keys_values [OF w], of set] by simp
qed

lemma delete_user_result:
  assumes ok: "users_ok ss" and us: "get_sheet ss ''Users'' = Some sh"
    and k: "body_key b ''username'' \<in> set (map row_key (tl sh))"
  shows "fst (handle_delete_user b ss) = Ok_message ''User deleted.''
         \<and> users_ok (snd (handle_delete_user b ss))
         \<and> (\<exists>sh'. get_sheet (snd (handle_delete_user b ss)) ''Users'' = Some sh' \<and> sh' \<noteq> [] \<and> hd sh' \<noteq> []
                 \<and> body_key b ''username'' \<notin> set (map row_key (tl sh')))"
proof -
  let ?k = "body_key b ''username''"
  let ?P = "\<lambda>row. user_key (row_get row 0) = ?k"
  from ok us obtain h t where sh: "sh = h # t" and h: "h \<noteq> []" and d: "distinct (map row_key t)"
    by (cases sh) (auto simp: users_ok_def)
  have w: "0 < width sh" using h by (intro width_pos) (simp_all add: sh)
  have kv: "map (\<lambda>r. user_key (row_get r 0)) (drop 1 (sheet_values sh)) = map row_key t"
    using tl_keys_values [OF w] by (simp add: sh)
  have "list_ex ?P (drop 1 (sheet_values sh))" using list_ex_keys [OF w] k by simp
  then obtain i where i: "index_from ?P 1 (drop 1 (sheet_values sh)) = Some i"
    by (cases "index_from ?P 1 (drop 1 (sheet_values sh))") (auto simp: index_from_None list_ex_iff)
  from index_from_rows [OF i] obtain j where ij: "i = Suc j" and jl: "Suc j < length sh" by blast
  from index_from_Some [OF i] have "?P (drop 1 (sheet_values sh) ! j)" by (simp add: ij)
  then have kj: "row_key (t ! j) = ?k"
    using arg_cong [OF kv, of "\<lambda>l. l ! j"] jl by (simp add: sh sheet_values_def)
  have del: "delete_row sh (Suc i) = h # (take j t @ drop (Suc j) t)"
    by (simp add: delete_row_def sh ij)
  have res: "handle_delete_user b ss = (Ok_message ''User deleted.'', put_sheet ss ''Users'' (delete_row sh (Suc i)))"
    using us i by (simp add: handle_delete_user_def)
  have "?k \<notin> set (map row_key (take j t @ drop (Suc j) t))"
    using distinct_remove_at_notin [OF d, of j] jl kj by (simp add: sh)
  moreover have "users_ok (snd (handle_delete_user b ss))" using ok by (rule delete_users_ok)
  ultimately show ?thesis using res del h by (simp add: image_Un)
qed


text \<open>The dispatch of \<open>doPost\<close> on the actions the view sends.\<close>

lemma do_post_get_users:
  "do_post at now (object_body ((''action'', Str ''get_users'') # kvs)) ss = handle_get_users ss"
  by (simp add: do_post_def object_body_def)

lemma do_post_delete_user:
  "do_post at now (object_body ((''action'', Str ''delete_user'') # kvs)) ss =
   handle_delete_user (object_body ((''action'', Str ''delete_user'') # kvs)) ss"
  by (simp add: do_post_def object_body_def)

lemma do_post_update_user:
  "do_post at now (object_body ((''action'', Str ''update_user'') # kvs)) ss =
   handle_update_user at (object_body ((''action'', Str ''update_user'') # kvs)) ss"
  by (simp add: do_post_def object_body_def)

lemma do_post_register_user:
  "do_post at now (object_body ((''action'', Str ''register_user'') # kvs)) ss =
   handle_register_user at now (object_body ((''action'', Str ''register_user'') # kvs)) ss"
  by (simp add: do_post_def object_body_def)

lemma do_post_login:
  "do_post at now (object_body ((''action'', Str ''login'') # kvs)) ss =
   handle_login at now (object_body ((''action'', Str ''login'') # kvs)) ss"
  by (simp add: do_post_def object_body_def)

lemma get_users_Ok: "\<exists>us. handle_get_users ss = (Ok_users us, ss)"
  by (simp add: handle_get_users_def split: option.splits)

lemma user_cred_update:
  assumes "2 < c" shows "user_cred ((pad_row c row)[c - 1 := w]) = user_cred row"
proof -
  have "row_key ((pad_row c row)[c - 1 := w]) = row_key row"
    using assms by (intro row_key_update_padded) auto
  moreover have "row_get (pad_row 2 ((pad_row c row)[c - 1 := w])) 1 = row_get (pad_row 2 row) 1"
    using assms by (auto simp: pad_row_def row_get_def nth_append nth_list_update)
  ultimately show ?thesis by (simp add: user_cred_def)
qed

lemma set_cell_cred:
  assumes "0 < r" and "r \<le> length sh" and "2 < c"
  shows "map user_cred (set_cell at sh r c v) = map user_cred sh"
proof -
  have "map user_cred (set_cell at sh r c v) = (map user_cred sh)[r - 1 := user_cred (sh ! (r - 1))]"
    using assms user_cred_update [OF assms(3), of "sh ! (r - 1)" "write_cell at v"]
    by (simp add: set_cell_def map_update)
  moreover have "r - 1 < length sh" using assms by simp
  then have "(map user_cred sh)[r - 1 := user_cred (sh ! (r - 1))] = map user_cred sh"
    by (metis list_update_id nth_map)
  ultimately show ?thesis by simp
qed

lemma fetch_users_ss: "snd (fetch_users at now url t (st, ss)) = ss"
  by (simp add: fetch_users_def send_request_def do_post_get_users split: transport.splits
      option.splits response.splits prod.splits) (simp add: handle_get_users_def split: option.splits)


lemma set_cell_length: "0 < r \<Longrightarrow> r \<le> length sh \<Longrightarrow> length (set_cell at sh r c v) = length sh"
  by (simp add: set_cell_def)

lemma update_user_cred:
  assumes pw: "\<not> js_truthy (b_fields b ''password'')" and pr: "b_prefs b = None"
    and orig: "js_truthy (b_fields b ''originalUsername'') \<Longrightarrow>
               user_key (b_fields b ''originalUsername'') = user_key (b_fields b ''username'')"
  shows "users_pw (snd (handle_update_user at b ss)) = users_pw ss"
proof (cases "get_sheet ss ''Users''")
  case None
  then show ?thesis by (simp add: handle_update_user_def)
next
  case (Some sh)
  note us = Some
  let ?cur = "user_key (b_fields b ''username'')"
  have cur: "(if js_truthy (b_fields b ''originalUsername'') then user_key (b_fields b ''originalUsername'')
              else user_key (b_fields b ''username'')) = ?cur"
    using orig by simp
  show ?thesis
  proof (cases "index_from (\<lambda>row. user_key (row_get row 0) = ?cur) 1 (drop 1 (sheet_values sh))")
    case None
    then show ?thesis using us by (simp add: handle_update_user_def cur)
  next
    case (Some i)
    from index_from_rows [OF Some] have r: "0 < Suc i" "Suc i \<le> length sh" by auto
    have cred: "map user_cred (set_cell at s (Suc i) c v) = map user_cred s"
      and len: "length (set_cell at s (Suc i) c v) = length s"
      if "Suc i \<le> length s" and "2 < c" for s :: sheet and c v
      using that set_cell_cred [of "Suc i" s c at v] set_cell_length [of "Suc i" s at c v] by simp_all
    let ?f = "b_fields b"
    define sh2 where "sh2 = (if js_truthy (?f ''name'') then set_cell at sh (Suc i) 3 (?f ''name'') else sh)"
    define sh3 where "sh3 = (if js_truthy (?f ''role'')
                             then set_cell at sh2 (Suc i) 4 (Str (trim (js_String (?f ''role'')))) else sh2)"
    define sh4 where "sh4 = (if ?f ''position'' \<noteq> Undef then set_cell at sh3 (Suc i) 5 (?f ''position'') else sh3)"
    have "map user_cred sh2 = map user_cred sh \<and> length sh2 = length sh"
      using r by (simp add: sh2_def cred len)
    then have "map user_cred sh3 = map user_cred sh \<and> length sh3 = length sh"
      using r by (simp add: sh3_def cred len)
    then have "map user_cred sh4 = map user_cred sh"
      using r by (simp add: sh4_def cred len)
    moreover have "snd (handle_update_user at b ss) = snd (learn_user at b ''User updated.'' (put_sheet ss ''Users'' sh4))"
      using us Some pw pr by (simp add: handle_update_user_def cur Let_def sh2_def sh3_def sh4_def)
    ultimately show ?thesis
      using us by (simp add: users_pw_def learn_user_other) (metis map_tl)
  qed
qed

lemma send_request_ss:
  "snd (send_request at now t b ss) = ss \<or> snd (send_request at now t b ss) = snd (do_post at now b ss)"
  by (cases t) (simp_all add: send_request_def split: prod.splits)

lemma submit_user_ss:
  "snd (handle_submit_user at now url t1 t2 (st, ss)) = ss \<or>
   snd (handle_submit_user at now url t1 t2 (st, ss)) = snd (do_post at now (submit_body st) ss)"
proof -
  have "snd (case p of (None, s) \<Rightarrow> (A, s)
                | (Some r, s) \<Rightarrow> if P r then fetch_users at now url t2 (B r, s) else (C r, s)) = snd p"
    for p :: "response option \<times> spreadsheet" and A B C P
    by (cases p; cases "fst p") (auto simp: fetch_users_ss)
  then show ?thesis using send_request_ss [of at now t1 "submit_body st" ss]
    by (simp add: handle_submit_user_def Let_def)
qed

subsection \<open>Properties\<close>

text \<open>
  C36. Deleting a user from the view removes it: on a well-formed user table that
  holds the user, a confirmed delete whose two requests are answered leaves no entry
  with that key in the list the view shows next, keeps the table well-formed, and
  reports success.
\<close>

theorem delete_user_disappears:
  assumes ok: "users_ok ss" and us: "get_sheet ss ''Users'' = Some sh" and u: "js_truthy u"
    and k: "user_key u \<in> set (map row_key (tl sh))" and url: "url \<noteq> []"
  shows "list_all (\<lambda>x. user_key (fst x) \<noteq> user_key u)
           (um_users (fst (handle_delete at now url True u Resolved Resolved (st, ss))))
         \<and> users_ok (snd (handle_delete at now url True u Resolved Resolved (st, ss)))
         \<and> um_toasts (fst (handle_delete at now url True u Resolved Resolved (st, ss)))
             = um_toasts st @ [(''User removed successfully'', Toast_success)]"
proof -
  let ?b = "object_body [(''action'', Str ''delete_user''), (''username'', u)]"
  have bk: "body_key ?b ''username'' = user_key u" using u by (simp add: body_key_def object_body_def)
  obtain sh' where r: "fst (handle_delete_user ?b ss) = Ok_message ''User deleted.''"
    and ok': "users_ok (snd (handle_delete_user ?b ss))"
    and g: "get_sheet (snd (handle_delete_user ?b ss)) ''Users'' = Some sh'"
    and h: "sh' \<noteq> []" "hd sh' \<noteq> []" and nk: "user_key u \<notin> set (map row_key (tl sh'))"
    using delete_user_result [OF ok us, of ?b] bk k by auto
  obtain ss1 where e: "handle_delete_user ?b ss = (Ok_message ''User deleted.'', ss1)"
    using r by (metis prod.collapse)
  obtain us where gu: "handle_get_users ss1 = (Ok_users us, ss1)" using get_users_Ok by blast
  have "set (map (\<lambda>x. user_key (fst x)) us) \<subseteq> set (map row_key (tl sh'))"
    using get_users_keys [of ss1 sh' us] g h gu e by simp
  with nk have "list_all (\<lambda>x. user_key (fst x) \<noteq> user_key u) us"
    by (auto simp: list_all_iff)
  then show ?thesis using ok' gu url e
    by (simp add: handle_delete_def fetch_users_def send_request_def do_post_delete_user
        do_post_get_users is_success_def toast_def)
qed

theorem delete_user_disappears_witness:
  "users_ok demo_users
   \<and> list_all (\<lambda>x. user_key (fst x) \<noteq> ''alice'')
       (um_users (fst (handle_delete Str ''t'' ''u'' True (Str ''alice'') Resolved Resolved (um_init, demo_users))))
   \<and> um_users (fst (handle_delete Str ''t'' ''u'' True (Str ''alice'') Resolved Resolved (um_init, demo_users)))
       = [(Str ''bob'', Str ''pw'', Str ''Name'', ''Inspector'', Str [], Str [])]"
proof -
  have h: "users_ok demo_users"
    "get_sheet demo_users ''Users'' = Some [map Str users_header, demo_user_row ''alice'', demo_user_row ''bob'']"
    "js_truthy (Str ''alice'')"
    "user_key (Str ''alice'') \<in> set (map row_key (tl [map Str users_header, demo_user_row ''alice'', demo_user_row ''bob'']))"
    "''u'' \<noteq> []"
    by code_simp+
  have k: "user_key (Str ''alice'') = ''alice''" by code_simp
  have v: "um_users (fst (handle_delete Str ''t'' ''u'' True (Str ''alice'') Resolved Resolved (um_init, demo_users)))
       = [(Str ''bob'', Str ''pw'', Str ''Name'', ''Inspector'', Str [], Str [])]" by code_simp
  from delete_user_disappears [OF h, where at = Str and now = "''t''" and st = um_init] h k v show ?thesis by simp
qed

text \<open>
  C37. \<open>Leave blank to keep current\<close>: when the admin edits a user, keeps the
  username (up to case and surrounding blanks) and leaves the password field empty,
  saving changes no user's key and no user's password in the Users sheet, whatever
  happens to the requests.
\<close>

theorem blank_password_kept:
  assumes ed: "um_editing st" and pw: "\<not> js_truthy (fm_password (um_form st))"
    and un: "user_key (fm_username (um_form st)) = user_key (um_original st)"
  shows "users_pw (snd (handle_submit_user at now url t1 t2 (st, ss))) = users_pw ss"
proof -
  let ?b = "submit_body st"
  have b: "?b = object_body ((''action'', Str ''update_user'') #
             [(''name'', fm_name (um_form st)), (''username'', fm_username (um_form st)),
              (''password'', fm_password (um_form st)), (''role'', fm_role (um_form st)),
              (''position'', fm_position (um_form st)), (''originalUsername'', um_original st)])"
    using ed by (simp add: submit_body_def Let_def)
  have u: "users_pw (snd (handle_update_user at ?b ss)) = users_pw ss"
    by (rule update_user_cred) (simp_all add: b object_body_def pw un)
  have d: "snd (do_post at now ?b ss) = snd (handle_update_user at ?b ss)"
    by (simp only: b do_post_update_user)
  show ?thesis
    using submit_user_ss [of at now url t1 t2 st ss] u d by auto
qed

theorem blank_password_kept_witness:
  "um_editing (handle_edit demo_alice um_init)
   \<and> \<not> js_truthy (fm_password (um_form (handle_edit demo_alice um_init)))
   \<and> user_key (fm_username (um_form (handle_edit demo_alice um_init))) = user_key (um_original (handle_edit demo_alice um_init))
   \<and> users_pw (snd (handle_submit_user Str ''t'' ''u'' Resolved Resolved (handle_edit demo_alice um_init, demo_users)))
       = Some [(''alice'', Str ''pw''), (''bob'', Str ''pw'')]"
proof -
  have h: "um_editing (handle_edit demo_alice um_init)"
    "\<not> js_truthy (fm_password (um_form (handle_edit demo_alice um_init)))"
    "user_key (fm_username (um_form (handle_edit demo_alice um_init))) = user_key (um_original (handle_edit demo_alice um_init))"
    by (simp_all add: handle_edit_def demo_alice_def js_truthy_def)
  have v: "users_pw demo_users = Some [(''alice'', Str ''pw''), (''bob'', Str ''pw'')]" by code_simp
  from blank_password_kept [OF h, of Str "''t''" "''u''" Resolved Resolved demo_users] h v show ?thesis by simp
qed

text \<open>
  A registration can fail after it has written the user: when the backend's
  validation learning throws (here the \<open>Validation_Data\<close> sheet exists but is empty)
  the user row is already appended, the script answers with an error, the view stays
  on the form with an error toast and does not reload the list, and submitting again
  is refused with \<open>Username already exists.\<close>
\<close>

theorem failed_registration_persists:
  "um_toasts (fst (handle_submit_user Str ''t'' ''u'' Resolved Resolved (demo_new_user, demo_users_vd)))
     = [(''Exception'', Toast_error)]
   \<and> um_mode (fst (handle_submit_user Str ''t'' ''u'' Resolved Resolved (demo_new_user, demo_users_vd))) = Form_mode
   \<and> users_pw (snd (handle_submit_user Str ''t'' ''u'' Resolved Resolved (demo_new_user, demo_users_vd)))
     = Some [(''alice'', Str ''pw''), (''bob'', Str ''pw''), (''carol'', Str ''secret'')]
   \<and> um_toasts (fst (handle_submit_user Str ''t'' ''u'' Resolved Resolved
        (handle_submit_user Str ''t'' ''u'' Resolved Resolved (demo_new_user, demo_users_vd))))
     = [(''Exception'', Toast_error), (''Username already exists.'', Toast_error)]"
  by code_simp

end
