(* ===== verification/Settings.thy ===== *)
theory Settings
  imports Complex_Main Backend Offline_Queue
begin

text \<open>
  The system settings: their React state and its local-storage copies in
  \<open>src/src/App.tsx\<close> (initial state, \<open>fetchSystemSettings\<close>, \<open>handleSaveSettings\<close>)
  and the edits of \<open>src/src/views/SettingsView.tsx\<close> (the text fields, the logo upload
  and the resizing of \<open>compressImage\<close>). Saving writes the settings as a row of the
  \<open>System_Settings\<close> sheet through the backend's data append; loading reads the last
  row of that sheet from the bulk read. Local storage always accepts the script URL;
  whether it accepts the settings (a large logo exceeds the quota) is the parameter
  \<open>quota_ok\<close>. The data URL the canvas produces is an input of the upload.
\<close>

record system_settings =
  company_name :: cell
  manager_email :: cell
  company_logo :: cell

definition default_settings :: system_settings where
  "default_settings = \<lparr>company_name = Str ''My Transport Co.'', manager_email = Str [],
                       company_logo = Undef\<rparr>"

text \<open>The settings state of \<open>App\<close> and the two local-storage entries
  \<open>safetyCheck_scriptUrl\<close> and \<open>safetyCheck_settings\<close>.\<close>

record settings_state =
  cfg_url :: string
  cfg_settings :: system_settings
  ls_url :: "string option"
  ls_settings :: "system_settings option"

text \<open>The lazy initial states: a preconfigured URL wins over the stored one; stored
  settings (written by the app, so valid JSON) win over the defaults.\<close>

definition init_settings :: "string \<Rightarrow> string option \<Rightarrow> system_settings option \<Rightarrow> settings_state" where
  "init_settings pre lu lsets =
     \<lparr>cfg_url = (if pre \<noteq> [] then pre else (case lu of Some u \<Rightarrow> u | None \<Rightarrow> [])),
      cfg_settings = (case lsets of Some s \<Rightarrow> s | None \<Rightarrow> default_settings),
      ls_url = lu, ls_settings = lsets\<rparr>"

subsection \<open>Saving\<close>

definition settings_headers :: "string list" where
  "settings_headers = [''Company_Name'', ''Manager_Email'', ''Active_Script_URL'', ''Last_Updated'',
     ''Company_Logo'']"

text \<open>The data-append payload of \<open>handleSaveSettings\<close>; \<open>ms\<close> is
  \<open>new Date().getTime()\<close> in decimal.\<close>

definition settings_payload :: "string \<Rightarrow> string \<Rightarrow> string \<Rightarrow> system_settings \<Rightarrow> payload" where
  "settings_payload url now ms s =
     \<lparr>p_sheet = ''System_Settings'', p_action = ''create'',
      p_row = [company_name s, manager_email s, Str url, Str now, js_or (company_logo s) (Str [])],
      p_headers = settings_headers, p_id = ''CFG_'' @ ms\<rparr>"

datatype save_outcome = Invalid_url | Storage_full | Saved_offline | Synced | Sync_failed

text \<open>\<open>handleSaveSettings\<close>. The request is sent with \<open>mode: 'no-cors'\<close>: its answer
  is opaque, so an answered request counts as synced whatever the script replied,
  and a request whose answer is lost counts as failed although the row was
  written.\<close>

definition handle_save_settings ::
  "autotype \<Rightarrow> string \<Rightarrow> string \<Rightarrow> bool \<Rightarrow> bool \<Rightarrow> transport \<Rightarrow> settings_state \<Rightarrow> spreadsheet \<Rightarrow>
   save_outcome \<times> settings_state \<times> spreadsheet" where
  "handle_save_settings aty now ms is_online quota_ok t st ss =
     (let url = cfg_url st in
      if \<not> has_infix ''script.google.com'' url then (Invalid_url, st, ss)
      else if \<not> quota_ok then (Storage_full, st\<lparr>ls_url := Some url\<rparr>, ss)
      else
        (let st1 = st\<lparr>ls_url := Some url, ls_settings := Some (cfg_settings st)\<rparr>;
             p = settings_payload url now ms (cfg_settings st)
         in if \<not> is_online then (Saved_offline, st1, ss)
            else (case t of
                    Resolved \<Rightarrow> (Synced, st1, deliver aty now p ss)
                  | Rejected \<Rightarrow> (Sync_failed, st1, ss)
                  | Lost_response \<Rightarrow> (Sync_failed, st1, deliver aty now p ss))))"

subsection \<open>Loading\<close>

text \<open>The settings read from the last row: the name and e-mail with their
  defaults, the logo only when it is longer than 100 characters.\<close>

definition remote_settings :: "cell list \<Rightarrow> system_settings" where
  "remote_settings r =
     \<lparr>company_name = js_or (row_get r 0) (Str ''My Transport Co.''),
      manager_email = js_or (row_get r 1) (Str []),
      company_logo = (if js_truthy (row_get r 4) \<and> 100 < length (js_String (row_get r 4))
                      then row_get r 4 else Undef)\<rparr>"

text \<open>\<open>fetchSystemSettings\<close>: the remote settings replace all three fields
  (\<open>{...prev, ...remoteSettings}\<close> with every key present) and are stored locally.\<close>

definition fetch_system_settings :: "bool \<Rightarrow> snapshot option \<Rightarrow> settings_state \<Rightarrow> settings_state" where
  "fetch_system_settings is_online resp st =
     (if \<not> is_online then st
      else (case resp of
              None \<Rightarrow> st
            | Some json \<Rightarrow>
                (case json ''System_Settings'' of
                   Some (JRows rows) \<Rightarrow>
                     (if 1 < length rows \<and> 2 \<le> length (last rows)
                      then st\<lparr>cfg_settings := remote_settings (last rows),
                              ls_settings := Some (remote_settings (last rows))\<rparr>
                      else st)
                 | _ \<Rightarrow> st)))"

subsection \<open>The settings view\<close>

definition edit_company_name :: "string \<Rightarrow> settings_state \<Rightarrow> settings_state" where
  "edit_company_name v st = st\<lparr>cfg_settings := (cfg_settings st)\<lparr>company_name := Str v\<rparr>\<rparr>"

definition edit_manager_email :: "string \<Rightarrow> settings_state \<Rightarrow> settings_state" where
  "edit_manager_email v st = st\<lparr>cfg_settings := (cfg_settings st)\<lparr>manager_email := Str v\<rparr>\<rparr>"

definition edit_script_url :: "string \<Rightarrow> settings_state \<Rightarrow> settings_state" where
  "edit_script_url v st = st\<lparr>cfg_url := v\<rparr>"

text \<open>The resizing of \<open>compressImage\<close> on exact rationals: a landscape image is
  narrowed to 300 pixels, any other image lowered to 150 pixels, both keeping
  the aspect ratio.\<close>

definition fit_logo :: "rat \<Rightarrow> rat \<Rightarrow> rat \<times> rat" where
  "fit_logo w h =
     (if w > h then (if w > 300 then (300, h * (300 / w)) else (w, h))
      else (if h > 150 then (w * (150 / h), 150) else (w, h)))"

text \<open>\<open>handleLogoUpload\<close>: when a file is chosen, the compressed data URL becomes
  the logo (to be persisted by the next save).\<close>

definition handle_logo_upload :: "string option \<Rightarrow> settings_state \<Rightarrow> settings_state" where
  "handle_logo_upload f st =
     (case f of None \<Rightarrow> st
      | Some data_url \<Rightarrow> st\<lparr>cfg_settings := (cfg_settings st)\<lparr>company_logo := Str data_url\<rparr>\<rparr>)"

text \<open>A configured state for the concrete run.\<close>

definition demo_settings_state :: settings_state where
  "demo_settings_state = init_settings ''https://script.google.com/macros/s/X/exec'' None
     (Some \<lparr>company_name = Str ''Apex'', manager_email = Str ''m@apex.co'', company_logo = Str []\<rparr>)"

subsection \<open>Facts\<close>

lemma deliver_settings_sheet:
  "get_sheet (deliver aty now (settings_payload url now' ms s) ss) ''System_Settings'' =
     Some ((case get_sheet ss ''System_Settings'' of Some sh \<Rightarrow> sh
            | None \<Rightarrow> append_row aty (map Str settings_headers) [])
           @ [stored_row aty (settings_payload url now' ms s)])"
  by (cases "get_sheet ss ''System_Settings''")
    (simp_all add: deliver_def do_post_create settings_payload_def data_append_def Let_def
      system_sheets_def append_row_def stored_row_def)

lemma stored_str: "(write_cell aty \<circ> safe_cell \<circ> json_cell) (Str x) = aty x"
  by (simp add: write_cell_def safe_cell_def json_cell_def)

text \<open>The resizing keeps the aspect ratio and the width within 300 pixels, but a
  landscape image is checked against the width only: a 400 by 350 image comes out
  262.5 pixels high, above the 150 pixels \<open>maxHeight\<close> allows.\<close>

lemma fit_logo_aspect:
  assumes "0 < w" and "0 < h"
  shows "fst (fit_logo w h) * h = snd (fit_logo w h) * w"
  using assms by (simp add: fit_logo_def)

lemma fit_logo_width:
  assumes "0 < w" and "0 < h"
  shows "0 < fst (fit_logo w h) \<and> fst (fit_logo w h) \<le> 300"
  using assms by (auto simp: fit_logo_def field_simps)

lemma fit_logo_landscape_too_high: "fit_logo 400 350 = (300, 525 / 2)"
  by (simp add: fit_logo_def)

subsection \<open>Properties\<close>

text \<open>
  C19. Settings saved are the settings loaded, as the spreadsheet typed them: when
  the admin saves with a Google Apps Script URL, online, with room in local storage
  and the request answered, the next \<open>fetchSystemSettings\<close> over the bulk read gives
  back the cells the spreadsheet made of the written company name, manager e-mail
  and logo, the name and e-mail replaced by their defaults when that cell is falsy
  and the logo kept only when it is truthy and longer than 100 characters. For any
  typing \<open>aty\<close>: under one that stores digit strings as numbers, a company name
  \<open>2024\<close> comes back as the number 2024 and a name \<open>0\<close> as the default.
\<close>

theorem settings_roundtrip:
  assumes url: "has_infix ''script.google.com'' (cfg_url st)"
    and ne: "get_sheet ss ''System_Settings'' \<noteq> Some []"
    and cs: "cfg_settings st = \<lparr>company_name = Str n, manager_email = Str e, company_logo = Str l\<rparr>"
    and sv: "handle_save_settings aty now ms True True Resolved st ss = (out, st', ss')"
  shows "out = Synced \<and>
         cfg_settings (fetch_system_settings True (Some (do_get ss')) st') =
           \<lparr>company_name = js_or (aty n) (Str ''My Transport Co.''), manager_email = js_or (aty e) (Str []),
            company_logo = (if js_truthy (aty l) \<and> 100 < length (js_String (aty l)) then aty l else Undef)\<rparr>"
proof -
  let ?p = "settings_payload (cfg_url st) now ms (cfg_settings st)"
  let ?r = "[aty n, aty e, aty (cfg_url st), aty now, aty l]"
  have o: "out = Synced" and s': "ss' = deliver aty now ?p ss"
    using sv url by (simp_all add: handle_save_settings_def Let_def)
  have lo: "js_or (Str l) (Str []) = Str l" by (simp add: js_or_def js_truthy_def)
  have r: "stored_row aty ?p = ?r"
    by (simp add: stored_row_def settings_payload_def cs lo stored_str del: comp_apply)
  obtain base where b: "base \<noteq> []"
    and g: "get_sheet ss' ''System_Settings'' = Some (base @ [?r])"
    using ne deliver_settings_sheet [of aty now "cfg_url st" now ms "cfg_settings st" ss] s' r
    by (cases "get_sheet ss ''System_Settings''") (auto simp: append_row_def)
  have nm: "''System_Settings'' \<noteq> ''Validation_Data''" "''System_Settings'' \<noteq> ''Acknowledgements''"
    by simp_all
  obtain rows where v: "sheet_view ''System_Settings'' (base @ [?r]) = JRows rows"
    and l: "1 < length rows" and lr: "last rows = last (sheet_values (base @ [?r]))"
  proof (rule sheet_view_last)
    show "1 < length (base @ [?r])" using b by (cases base) auto
  qed (rule nm(1), rule nm(2))
  have d: "do_get ss' ''System_Settings'' = Some (JRows rows)"
    using g v by (simp add: do_get_def)
  let ?w = "width (base @ [?r])"
  have lr': "last rows = pad_row ?w ?r" using lr by (simp add: sheet_values_def)
  have len: "2 \<le> length (last rows)" using lr' by (simp add: pad_row_def)
  have "remote_settings (pad_row ?w ?r) =
          \<lparr>company_name = js_or (aty n) (Str ''My Transport Co.''), manager_email = js_or (aty e) (Str []),
           company_logo = (if js_truthy (aty l) \<and> 100 < length (js_String (aty l)) then aty l else Undef)\<rparr>"
    by (simp add: remote_settings_def row_get_pad_lt)
  then show ?thesis using o d l len lr' by (simp add: fetch_system_settings_def)
qed

text \<open>On a spreadsheet that types digit strings, the company name \<open>2024\<close> comes back as
  a number.\<close>

theorem settings_roundtrip_witness:
  "cfg_settings (fetch_system_settings True
      (Some (do_get (snd (snd (handle_save_settings digits_autotype ''t'' ''1'' True True Resolved
         (demo_settings_state\<lparr>cfg_settings := \<lparr>company_name = Str ''2024'', manager_email = Str ''m@apex.co'',
            company_logo = Str []\<rparr>\<rparr>) [])))))
      (fst (snd (handle_save_settings digits_autotype ''t'' ''1'' True True Resolved
         (demo_settings_state\<lparr>cfg_settings := \<lparr>company_name = Str ''2024'', manager_email = Str ''m@apex.co'',
            company_logo = Str []\<rparr>\<rparr>) []))))
   = \<lparr>company_name = Num 2024, manager_email = Str ''m@apex.co'', company_logo = Undef\<rparr>"
proof -
  let ?st = "demo_settings_state\<lparr>cfg_settings := \<lparr>company_name = Str ''2024'', manager_email = Str ''m@apex.co'',
            company_logo = Str []\<rparr>\<rparr>"
  have h: "has_infix ''script.google.com'' (cfg_url ?st)"
    "get_sheet [] ''System_Settings'' \<noteq> Some []"
    "cfg_settings ?st = \<lparr>company_name = Str ''2024'', manager_email = Str ''m@apex.co'', company_logo = Str []\<rparr>"
    by code_simp+
  obtain out st' ss' where e: "handle_save_settings digits_autotype ''t'' ''1'' True True Resolved ?st [] = (out, st', ss')"
    by (metis prod.collapse)
  have t: "digits_autotype ''2024'' = Num 2024" "digits_autotype ''m@apex.co'' = Str ''m@apex.co''"
    "digits_autotype [] = Str []"
    by code_simp+
  from settings_roundtrip [OF h e] e t show ?thesis by (simp add: js_or_def)
qed

end
