(* ===== verification/Login.thy ===== *)
theory Login
  imports User_Management
begin

text \<open>
  The sign-in screen, \<open>src/src/views/LoginView.tsx\<close>: its form state, the
  \<open>handleSubmit\<close> that sends a \<open>login\<close> request or, after the backend reported an
  empty user table, a \<open>register_user\<close> request for the first account with the role
  \<open>Admin\<close>, and the normalisation of the returned user (\<open>Session\<close>). The call of
  \<open>onLogin\<close> is the field \<open>lv_session\<close>. Requests go through \<open>send_request\<close> of
  \<open>User_Management\<close>.
\<close>

record login_state =
  lv_username :: string
  lv_password :: string
  lv_error :: string
  lv_show_config :: bool
  lv_registering :: bool
  lv_full_name :: string
  lv_position :: string
  lv_session :: "user option"

definition login_init :: "string \<Rightarrow> login_state" where
  "login_init url = \<lparr>lv_username = [], lv_password = [], lv_error = [], lv_show_config = (url = []),
     lv_registering = False, lv_full_name = [], lv_position = [], lv_session = None\<rparr>"

text \<open>The two request bodies of \<open>handleSubmit\<close>.\<close>

definition login_body :: "login_state \<Rightarrow> post_body" where
  "login_body lst =
     (if lv_registering lst
      then object_body [(''action'', Str ''register_user''), (''username'', Str (lv_username lst)),
             (''password'', Str (lv_password lst)), (''name'', Str (lv_full_name lst)),
             (''position'', Str (lv_position lst)), (''role'', Str ''Admin'')]
      else object_body [(''action'', Str ''login''), (''username'', Str (lv_username lst)),
             (''password'', Str (lv_password lst))])"

text \<open>\<open>{...rawUser, role: safeRole, position: rawUser.position || ''}\<close>, with the
  cells of the answer read as strings.\<close>

definition login_user :: "cell \<Rightarrow> cell \<Rightarrow> string \<Rightarrow> cell \<Rightarrow> user" where
  "login_user un nm rl pos =
     \<lparr>username = js_String un, name = js_String nm, role = normalize_login_role (Str rl),
      position = js_String (js_or pos (Str []))\<rparr>"

definition login_submit ::
  "autotype \<Rightarrow> string \<Rightarrow> string \<Rightarrow> transport \<Rightarrow> login_state \<times> spreadsheet \<Rightarrow> login_state \<times> spreadsheet" where
  "login_submit at now url t sys =
     (let (lst, ss) = sys in
      if url = [] then (lst\<lparr>lv_error := ''System Database URL is missing. Please configure it.'',
                            lv_show_config := True\<rparr>, ss)
      else
        (let lst0 = lst\<lparr>lv_error := []\<rparr> in
         case send_request at now t (login_body lst) ss of
           (None, ss') \<Rightarrow>
             (lst0\<lparr>lv_error := ''Connection failed. Please check your internet or the Script URL.''\<rparr>, ss')
         | (Some r, ss') \<Rightarrow>
             if is_success r then
               (if lv_registering lst
                then (lst0\<lparr>lv_error := ''Admin account created successfully! Please log in.'',
                           lv_registering := False, lv_full_name := [], lv_position := [],
                           lv_password := []\<rparr>, ss')
                else (case r of
                        Ok_login un nm rl pos \<Rightarrow> (lst0\<lparr>lv_session := Some (login_user un nm rl pos)\<rparr>, ss')
                      | _ \<Rightarrow> (lst0, ss')))
             else (case r of
                     Fail_code c m \<Rightarrow>
                       if c = ''NO_USERS''
                       then (lst0\<lparr>lv_error := ''Welcome! No users found in database. Please create the first Admin account.'',
                                  lv_registering := True\<rparr>, ss')
                       else (lst0\<lparr>lv_error := fail_text r ''Authentication failed.''\<rparr>, ss')
                   | _ \<Rightarrow> (lst0\<lparr>lv_error := fail_text r ''Authentication failed.''\<rparr>, ss'))))"

text \<open>\<open>Cancel Registration\<close>, the configuration toggles and the text fields.\<close>

definition cancel_registration :: "login_state \<Rightarrow> login_state" where
  "cancel_registration lst = lst\<lparr>lv_registering := False\<rparr>"

definition toggle_config :: "login_state \<Rightarrow> login_state" where
  "toggle_config lst = lst\<lparr>lv_show_config := \<not> lv_show_config lst\<rparr>"

definition edit_login_fields :: "string \<Rightarrow> string \<Rightarrow> string \<Rightarrow> string \<Rightarrow> login_state \<Rightarrow> login_state" where
  "edit_login_fields u p fn pos lst =
     lst\<lparr>lv_username := u, lv_password := p, lv_full_name := fn, lv_position := pos\<rparr>"

text \<open>A visitor on the registration form with a username the table does not hold.\<close>

definition demo_visitor :: login_state where
  "demo_visitor = (login_init ''https://script.google.com/x'')\<lparr>lv_username := ''eve'',
     lv_password := ''x'', lv_registering := True\<rparr>"

subsection \<open>Facts\<close>

lemma body_key_str:
  "b_fields b f = Str s \<Longrightarrow> body_key b f = user_key (Str s)"
  using user_key_Nil by (auto simp: body_key_def js_truthy_def)

text \<open>The Users sheet after a registration with a fresh key.\<close>

lemma register_fresh:
  assumes ok: "users_ok ss"
    and fresh: "case get_sheet ss ''Users'' of None \<Rightarrow> True
                | Some sh \<Rightarrow> user_key (Str u) \<notin> set (map row_key (tl sh))"
    and bu: "b_fields b ''username'' = Str u" and bp: "b_fields b ''password'' = Str p"
    and bn: "b_fields b ''name'' = Str fn" and bpos: "b_fields b ''position'' = Str pos"
    and br: "b_fields b ''role'' = Str ''Admin''"
  obtains sh0 where "sh0 \<noteq> []" and "hd sh0 \<noteq> []" and "user_key (Str u) \<notin> set (map row_key (tl sh0))"
    and "get_sheet (snd (handle_register_user Str now b ss)) ''Users'' =
           Some (sh0 @ [[Str (user_key (Str u)), Str p, Str fn, Str ''Admin'', js_or (Str pos) (Str []),
                         Str now, Str ''{}'']])"
proof -
  define sh0 where "sh0 = (case get_sheet ss ''Users'' of Some sh \<Rightarrow> sh
                           | None \<Rightarrow> append_row Str (map Str users_header) [])"
  have sh0: "sh0 \<noteq> [] \<and> hd sh0 \<noteq> []" and f0: "user_key (Str u) \<notin> set (map row_key (tl sh0))"
    using ok fresh by (cases "get_sheet ss ''Users''";
      auto simp: sh0_def users_ok_def append_row_def users_header_def)+
  then have w: "0 < width sh0" by (intro width_pos) auto
  have k: "body_key b ''username'' = user_key (Str u)" using bu by (rule body_key_str)
  have ta: "trim ''Admin'' = ''Admin''" by code_simp
  have "\<not> list_ex (\<lambda>row. user_key (row_get row 0) = body_key b ''username'') (drop 1 (sheet_values sh0))"
    using list_ex_keys [OF w] f0 k by simp
  then have "get_sheet (snd (handle_register_user Str now b ss)) ''Users'' =
           Some (sh0 @ [[Str (user_key (Str u)), Str p, Str fn, Str ''Admin'', js_or (Str pos) (Str []),
                         Str now, Str ''{}'']])"
    using k bp bn bpos br ta
    by (simp add: handle_register_user_def sh0_def [symmetric] Let_def learn_user_other append_row_def
        write_cell_def js_or_def js_truthy_def)
  with sh0 f0 that show ?thesis by blast
qed


lemma pad_key: "0 < w \<Longrightarrow> user_key (row_get (pad_row w r) 0) = row_key r"
  using pad_row_col0 [of w r] by (simp add: row_key_def)

lemma login_finds:
  assumes sh0: "sh0 \<noteq> []" "hd sh0 \<noteq> []" and f0: "k \<notin> set (map row_key (tl sh0))"
    and kk: "user_key (Str k) = k"
    and g: "get_sheet ss ''Users'' = Some (sh0 @ [[Str k, Str p, Str fn, Str ''Admin'', c4, c5, c6]])"
    and bu: "body_key b ''username'' = k" and bp: "b_fields b ''password'' = Str p"
  shows "fst (handle_login Str now b ss) = Ok_login (Str k) (Str fn) ''Admin'' (js_or c4 (Str []))"
proof -
  let ?nr = "[Str k, Str p, Str fn, Str ''Admin'', c4, c5, c6]"
  let ?sh = "sh0 @ [?nr]"
  let ?w = "width ?sh"
  let ?P = "\<lambda>row. user_key (row_get row 0) = body_key b ''username''
                    \<and> js_String (row_get row 1) = (if js_truthy (b_fields b ''password'')
                                                   then js_String (b_fields b ''password'') else [])"
  have w: "0 < ?w" using sh0 by (intro width_pos) auto
  have dv: "drop 1 (sheet_values ?sh) = map (pad_row ?w) (tl sh0) @ [pad_row ?w ?nr]"
    using sh0 by (cases sh0) (simp_all add: sheet_values_def)
  have pw: "(if js_truthy (Str p) then js_String (Str p) else []) = p"
    by (simp add: js_truthy_def)
  have np: "list_all (\<lambda>y. \<not> ?P y) (map (pad_row ?w) (tl sh0))"
    unfolding list_all_iff
  proof
    fix y assume "y \<in> set (map (pad_row ?w) (tl sh0))"
    then obtain r where r: "r \<in> set (tl sh0)" and y: "y = pad_row ?w r" by auto
    from r f0 have "row_key r \<noteq> k" by auto
    then show "\<not> ?P y" using y pad_key [OF w, of r] bu by simp
  qed
  have px: "?P (pad_row ?w ?nr)"
    using pad_key [OF w, of ?nr] bu bp kk pw by (simp add: row_key_def row_get_pad_lt)
  have i: "index_from ?P 1 (drop 1 (sheet_values ?sh)) = Some (length sh0)"
    using index_from_snoc [where P = ?P and n = 1, OF np px] dv sh0 by (cases sh0) simp_all
  have x: "sheet_values ?sh ! length sh0 = pad_row ?w ?nr" by (simp add: sheet_values_def nth_append)
  have ta: "trim ''Admin'' = ''Admin''" by code_simp
  have "1 < length ?sh" using sh0 by (cases sh0) auto
  then show ?thesis using g i x ta
    by (simp add: handle_login_def Let_def row_get_pad_lt)
qed

lemma login_submit_ss:
  "url \<noteq> [] \<Longrightarrow> snd (login_submit at now url t (lst, ss)) = snd (send_request at now t (login_body lst) ss)"
  by (cases "send_request at now t (login_body lst) ss"; cases "fst (send_request at now t (login_body lst) ss)")
    (auto simp: login_submit_def Let_def split: response.splits)

lemma login_submit_session:
  "url \<noteq> [] \<Longrightarrow> \<not> lv_registering lst \<Longrightarrow>
   send_request at now t (login_body lst) ss = (Some (Ok_login un nm rl pos), s') \<Longrightarrow>
   lv_session (fst (login_submit at now url t (lst, ss))) = Some (login_user un nm rl pos)"
  by (simp add: login_submit_def Let_def is_success_def)

subsection \<open>Properties\<close>

text \<open>
  C34. Anyone can make themselves an administrator: \<open>register_user\<close> has no
  authorisation check and stores the role the request names, and the login view's
  registration form sends \<open>role: 'Admin'\<close>. On every well-formed user table, a
  registration with a username the table does not hold, followed by a sign-in with
  the same credentials, opens an Admin session.
\<close>

theorem anyone_registers_admin:
  assumes ok: "users_ok ss" and url: "url \<noteq> []" and reg: "lv_registering lst"
    and fresh: "case get_sheet ss ''Users'' of None \<Rightarrow> True
                | Some sh \<Rightarrow> user_key (Str (lv_username lst)) \<notin> set (map row_key (tl sh))"
  shows "map_option role (lv_session (fst (login_submit Str now' url Resolved
           (cancel_registration lst, snd (login_submit Str now url Resolved (lst, ss)))))) = Some Admin"
proof -
  let ?u = "lv_username lst" and ?p = "lv_password lst"
  let ?k = "user_key (Str ?u)"
  let ?b = "login_body lst"
  have bf: "b_fields ?b ''username'' = Str ?u" "b_fields ?b ''password'' = Str ?p"
    "b_fields ?b ''name'' = Str (lv_full_name lst)" "b_fields ?b ''position'' = Str (lv_position lst)"
    "b_fields ?b ''role'' = Str ''Admin''"
    using reg by (simp_all add: login_body_def object_body_def)
  obtain sh0 where sh0: "sh0 \<noteq> []" "hd sh0 \<noteq> []" and f0: "?k \<notin> set (map row_key (tl sh0))"
    and g: "get_sheet (snd (handle_register_user Str now ?b ss)) ''Users'' =
           Some (sh0 @ [[Str ?k, Str ?p, Str (lv_full_name lst), Str ''Admin'',
                         js_or (Str (lv_position lst)) (Str []), Str now, Str ''{}'']])"
    using register_fresh [OF ok fresh bf] by blast
  have s1: "snd (login_submit Str now url Resolved (lst, ss)) = snd (handle_register_user Str now ?b ss)"
    using login_submit_ss [OF url, of Str now Resolved lst ss] reg
    by (simp add: send_request_def login_body_def do_post_register_user split: prod.splits)
  let ?lb = "login_body (cancel_registration lst)"
  have lb: "?lb = object_body ((''action'', Str ''login'') # [(''username'', Str ?u), (''password'', Str ?p)])"
    by (simp add: login_body_def cancel_registration_def)
  have bk: "body_key ?lb ''username'' = ?k" and bp: "b_fields ?lb ''password'' = Str ?p"
    by (simp_all add: lb object_body_def body_key_str)
  let ?ss1 = "snd (handle_register_user Str now ?b ss)"
  let ?ok = "Ok_login (Str ?k) (Str (lv_full_name lst)) ''Admin''
               (js_or (js_or (Str (lv_position lst)) (Str [])) (Str []))"
  have hl: "fst (handle_login Str now' ?lb ?ss1) = ?ok"
    by (rule login_finds [OF sh0 f0 _ g bk bp]) simp
  have dp: "do_post Str now' ?lb ?ss1 = handle_login Str now' ?lb ?ss1"
    by (simp only: lb do_post_login)
  have "send_request Str now' Resolved ?lb ?ss1 = (Some (fst (do_post Str now' ?lb ?ss1)), snd (do_post Str now' ?lb ?ss1))"
    by (simp add: send_request_def split: prod.splits)
  then have e: "send_request Str now' Resolved ?lb ?ss1 = (Some ?ok, snd (do_post Str now' ?lb ?ss1))"
    using dp hl by simp
  have "lv_session (fst (login_submit Str now' url Resolved (cancel_registration lst, ?ss1))) =
        Some (login_user (Str ?k) (Str (lv_full_name lst)) ''Admin''
               (js_or (js_or (Str (lv_position lst)) (Str [])) (Str [])))"
    by (rule login_submit_session [OF url _ e]) (simp add: cancel_registration_def)
  moreover have "normalize_login_role (Str ''Admin'') = Admin" by code_simp
  ultimately show ?thesis using s1 by (simp add: login_user_def)
qed

theorem anyone_registers_admin_witness:
  "map_option role (lv_session (fst (login_submit Str ''t2'' ''https://script.google.com/x'' Resolved
      (cancel_registration demo_visitor,
       snd (login_submit Str ''t1'' ''https://script.google.com/x'' Resolved (demo_visitor, demo_users))))))
   = Some Admin"
proof -
  have h: "users_ok demo_users" "''https://script.google.com/x'' \<noteq> []" "lv_registering demo_visitor"
    "case get_sheet demo_users ''Users'' of None \<Rightarrow> True
     | Some sh \<Rightarrow> user_key (Str (lv_username demo_visitor)) \<notin> set (map row_key (tl sh))"
    by code_simp+
  show ?thesis by (rule anyone_registers_admin [OF h])
qed

end
