(* ===== verification/Petroleum_Dashboard.thy ===== *)
theory Petroleum_Dashboard
  imports History
begin

text \<open>
  The module dashboard \<open>src/src/views/PetroleumDashboard.tsx\<close>: the list it shows
  from the history records of \<open>History\<close> (the ten newest, or every record one of
  whose truck, driver or inspector fields contains the search text), the role test
  for the start button and the result label of the shared summary. A field that
  is not a string makes \<open>toLowerCase\<close> throw a \<open>TypeError\<close>, which aborts the
  render; it is the value \<open>Inl Type_error\<close>.
\<close>

text \<open>\<open>item.f && item.f.toLowerCase().includes(lowerSearch)\<close>: an absent or falsy
  field does not match.\<close>

definition field_matches :: "string \<Rightarrow> inspection_item \<Rightarrow> string \<Rightarrow> feed_error + bool" where
  "field_matches lower item f =
     (case item f of
        None \<Rightarrow> Inr False
      | Some c \<Rightarrow>
          if \<not> js_truthy c then Inr False
          else (case c of Str s \<Rightarrow> Inr (has_infix lower (to_lower s)) | _ \<Rightarrow> Inl Type_error))"

text \<open>The three tests joined by \<open>||\<close>, which evaluates left to right and stops
  at the first match.\<close>

fun any_matches :: "string \<Rightarrow> inspection_item \<Rightarrow> string list \<Rightarrow> feed_error + bool" where
  "any_matches lower item [] = Inr False"
| "any_matches lower item (f # fs) =
     (case field_matches lower item f of
        Inl e \<Rightarrow> Inl e
      | Inr True \<Rightarrow> Inr True
      | Inr False \<Rightarrow> any_matches lower item fs)"

definition search_fields :: "string list" where
  "search_fields = [''truckNo'', ''driverName'', ''inspectedBy'']"

text \<open>\<open>Array.filter\<close> with a predicate that may throw.\<close>

fun filter_err :: "('a \<Rightarrow> feed_error + bool) \<Rightarrow> 'a list \<Rightarrow> feed_error + 'a list" where
  "filter_err P [] = Inr []"
| "filter_err P (x # xs) =
     (case P x of
        Inl e \<Rightarrow> Inl e
      | Inr b \<Rightarrow> (case filter_err P xs of
                   Inl e \<Rightarrow> Inl e
                 | Inr ys \<Rightarrow> Inr (if b then x # ys else ys)))"

text \<open>\<open>displayList\<close>: the search text is tested after \<open>trim\<close> but matched
  untrimmed, in lower case.\<close>

definition display_list :: "inspection_item list \<Rightarrow> string \<Rightarrow> feed_error + inspection_item list" where
  "display_list hl term =
     (if trim term \<noteq> []
      then filter_err (\<lambda>item. any_matches (to_lower term) item search_fields) hl
      else Inr (take 10 hl))"

definition can_create :: "string option \<Rightarrow> bool" where
  "can_create r \<longleftrightarrow> r = Some ''Admin'' \<or> r = Some ''Inspector''"

datatype share_status = Passed | Warning_status | Critical_fail

text \<open>The result label of \<open>handleShareWhatsApp\<close>.\<close>

definition share_status :: "inspection_item \<Rightarrow> share_status" where
  "share_status i =
     (if js_ge (item_rate i) 4 then Passed
      else if js_eq (item_rate i) 3 then Warning_status else Critical_fail)"

text \<open>A record with a numeric truck number, as the bulk read delivers a digit-only
  registration stored by an auto-typing spreadsheet.\<close>

definition demo_items :: "inspection_item list" where
  "demo_items = [[''truckNo'' \<mapsto> Str ''AB 12'', ''driverName'' \<mapsto> Str ''John''],
                 [''truckNo'' \<mapsto> Num 1502, ''driverName'' \<mapsto> Str ''Ann'']]"

subsection \<open>Facts\<close>

text \<open>\<open>filter_err\<close> is the library \<open>filter\<close> when no test throws, and fails when any does.\<close>

lemma filter_err_ok:
  "list_all (\<lambda>x. \<not> isl (P x)) xs \<Longrightarrow> filter_err P xs = Inr (filter (\<lambda>x. P x = Inr True) xs)"
  by (induction xs) (auto split: sum.splits)

lemma filter_err_throws:
  "x \<in> set xs \<Longrightarrow> P x = Inl e \<Longrightarrow> isl (filter_err P xs)"
  by (induction xs) (auto split: sum.splits)

lemma isl_feed_error: "isl r \<Longrightarrow> r = Inl Type_error"
  by (cases r) (auto intro: feed_error.exhaust)

lemma any_matches_numeric_truck:
  "item ''truckNo'' = Some (Num n) \<Longrightarrow> n \<noteq> 0 \<Longrightarrow> any_matches lower item search_fields = Inl Type_error"
  by (simp add: search_fields_def field_matches_def js_truthy_def)

text \<open>A numeric truck number anywhere in the history makes every non-blank search
  throw: the truck test comes first in every record.\<close>

theorem search_numeric_truck_crashes:
  assumes "trim term \<noteq> []" and "i \<in> set hl" and "i ''truckNo'' = Some (Num n)" and "n \<noteq> 0"
  shows "display_list hl term = Inl Type_error"
proof -
  have "isl (filter_err (\<lambda>item. any_matches (to_lower term) item search_fields) hl)"
    using filter_err_throws [where P = "\<lambda>item. any_matches (to_lower term) item search_fields", OF assms(2)]
      any_matches_numeric_truck [where item = i and lower = "to_lower term", OF assms(3,4)] by simp
  then show ?thesis using assms(1) by (simp add: display_list_def isl_feed_error)
qed

lemma display_list_length: "display_list hl term = Inr l \<Longrightarrow> length l \<le> length hl"
proof (cases "trim term = []")
  case True
  then show "display_list hl term = Inr l \<Longrightarrow> ?thesis" by (auto simp: display_list_def)
next
  case False
  have "filter_err P xs = Inr ys \<Longrightarrow> length ys \<le> length xs" for P :: "inspection_item \<Rightarrow> feed_error + bool" and xs ys
    by (induction xs arbitrary: ys) (auto split: sum.splits)
  with False show "display_list hl term = Inr l \<Longrightarrow> ?thesis" by (auto simp: display_list_def)
qed

lemma demo_search: "display_list demo_items ''john'' = Inl Type_error"
proof -
  have t: "trim ''john'' \<noteq> []" by code_simp
  have m: "[''truckNo'' \<mapsto> Num 1502, ''driverName'' \<mapsto> Str ''Ann''] \<in> set demo_items"
    by (simp add: demo_items_def)
  show ?thesis by (rule search_numeric_truck_crashes [OF t m, where n = 1502]) simp_all
qed

end
