(* ===== verification/App_Shell.thy ===== *)
theory App_Shell
  imports Forms Notification_Actions
begin

text \<open>
  The application shell of \<open>src/src/App.tsx\<close> and the navigation drawer
  \<open>src/src/components/layout/Sidebar.tsx\<close>: the logged-in user, the active module
  and the dashboard/form mode of each of the four inspection modules, the form data
  and the section of the seven-step form, the drawer, the upgrade prompt and the
  report viewer. Every user action is an event; the shell handles it and then runs
  the route-protection effect, which React runs after every render that changed the
  active module or the user. The login screen is rendered instead of the shell while
  nobody is logged in, so only the login event is possible then.
\<close>

datatype view_mode = Dashboard_view | Form_view

record shell =
  current_user :: "user option"
  stored_user :: "user option"
  current_section :: nat
  cur_form :: form_data
  sidebar_open :: bool
  report_open :: bool
  selected_report :: "form_data option"
  active_module :: string
  general_mode :: view_mode
  petroleum_mode :: view_mode
  petroleum_v2_mode :: view_mode
  acid_mode :: view_mode
  upgrade_feature :: "string option"
  shell_toast :: "string option"

text \<open>\<open>SECTIONS\<close>, by their ids.\<close>

definition SECTIONS :: "string list" where
  "SECTIONS = [''details'', ''photos'', ''checklist_1'', ''checklist_2'', ''checklist_3'',
               ''sign'', ''summary'']"

text \<open>\<open>INITIAL_DATA\<close> of \<open>src/src/types.ts\<close> without its timestamp, which every use
  overwrites; \<open>InspectionStatus.GOOD\<close> is \<open>'Good'\<close> and \<open>NIL\<close> is \<open>'Nil'\<close>.\<close>

definition initial_fields :: "(string \<times> cell) list" where
  "initial_fields =
     [(''truckNo'', Str ''''), (''trailerNo'', Str ''''), (''inspectedBy'', Str ''''),
      (''driverName'', Str ''''), (''location'', Str ''''), (''odometer'', Str ''''),
      (''jobCard'', Str ''''), (''photoFront'', Null), (''photoLS'', Null), (''photoRS'', Null),
      (''photoBack'', Null), (''photoDamage'', Null)]
     @ map (\<lambda>f. (f, Str ''Good'')) [''reflectiveWorkSuit'', ''safetyGear'']
     @ [(''dustMask'', Str ''Nil'')]
     @ map (\<lambda>f. (f, Str ''Good''))
         [''roadFitness'', ''windscreen'', ''headLamps'', ''indicators'', ''mirrors'', ''seatBelt'',
          ''fireExtinguisher'', ''warningTriangles'', ''hornIgnition'', ''trailerCondition'',
          ''fifthWheel'', ''landingLegs'', ''fluidLeaks'', ''reverseAlarm'', ''tyres'', ''wheelNuts'',
          ''firstAid'', ''parkingLights'', ''brakes'', ''chevrons'', ''tarpaulins'',
          ''generalCondition'', ''driverManual'', ''validDriverDocs'', ''routeRisk'']
     @ [(''remarks'', Str ''''), (''rate'', Num 5), (''inspectorSignature'', Null),
        (''driverSignature'', Null), (''aiAnalysis'', Str '''')]"

definition INITIAL_DATA :: "string \<Rightarrow> form_data" where
  "INITIAL_DATA now f =
     (if f = ''timestamp'' then Str now
      else case map_of initial_fields f of Some c \<Rightarrow> c | None \<Rightarrow> Undef)"

text \<open>The \<open>useState\<close> initial values of \<open>App\<close>, before a saved session is restored.\<close>

definition init_shell :: "string \<Rightarrow> shell" where
  "init_shell now =
     \<lparr>current_user = None, stored_user = None, current_section = 0, cur_form = INITIAL_DATA now,
      sidebar_open = False, report_open = False, selected_report = None,
      active_module = ''overview'', general_mode = Dashboard_view, petroleum_mode = Dashboard_view,
      petroleum_v2_mode = Dashboard_view, acid_mode = Dashboard_view, upgrade_feature = None,
      shell_toast = None\<rparr>"

text \<open>The four \<open>if (m === ...) setXViewMode(v)\<close> statements that follow every
  change of module.\<close>

definition set_mode :: "string \<Rightarrow> view_mode \<Rightarrow> shell \<Rightarrow> shell" where
  "set_mode m v s =
     (let s1 = (if m = ''general'' then s\<lparr>general_mode := v\<rparr> else s);
          s2 = (if m = ''petroleum'' then s1\<lparr>petroleum_mode := v\<rparr> else s1);
          s3 = (if m = ''petroleum_v2'' then s2\<lparr>petroleum_v2_mode := v\<rparr> else s2)
      in if m = ''acid'' then s3\<lparr>acid_mode := v\<rparr> else s3)"

definition mode_of :: "shell \<Rightarrow> string \<Rightarrow> view_mode option" where
  "mode_of s m =
     (if m = ''general'' then Some (general_mode s)
      else if m = ''petroleum'' then Some (petroleum_mode s)
      else if m = ''petroleum_v2'' then Some (petroleum_v2_mode s)
      else if m = ''acid'' then Some (acid_mode s) else None)"

text \<open>The condition under which the header shows the section stepper and the main
  area the inspection form.\<close>

definition in_form :: "shell \<Rightarrow> bool" where
  "in_form s \<longleftrightarrow> mode_of s (active_module s) = Some Form_view"

definition on_dashboard :: "shell \<Rightarrow> bool" where
  "on_dashboard s \<longleftrightarrow> mode_of s (active_module s) = Some Dashboard_view"

text \<open>\<open>onSelectModule\<close> of the drawer and \<open>onNavigate\<close> of the overview: the new
  module, shown on its dashboard.\<close>

definition select_module :: "string \<Rightarrow> shell \<Rightarrow> shell" where
  "select_module m s = set_mode m Dashboard_view (s\<lparr>active_module := m\<rparr>)"

text \<open>The drawer's items: id, label and whether it is locked. The admin group is
  rendered only when \<open>user.role.toLowerCase() === 'admin'\<close>.\<close>

type_synonym nav_item = "string \<times> string \<times> bool"

definition sidebar_admin :: "user option \<Rightarrow> bool" where
  "sidebar_admin cu = (case cu of None \<Rightarrow> False | Some u \<Rightarrow> is_admin u)"

definition nav_items :: "user option \<Rightarrow> nav_item list" where
  "nav_items cu =
     [(''overview'', ''Dashboard'', False), (''general'', ''General Inspection'', False),
      (''petroleum'', ''Petroleum Check #1'', False), (''petroleum_v2'', ''Petroleum Check #2'', False),
      (''acid'', ''Acid Tanker'', False),
      (''journey_plan'', ''Journey Management Plan'', True),
      (''driver_trip'', ''Driver Trip Report Card'', True),
      (''fuel_control'', ''Fuel Control Form'', True), (''gate_pass'', ''Advanced Gate Pass'', True)]
     @ (if sidebar_admin cu
        then [(''settings'', ''System Settings'', False), (''users'', ''User Management'', False)]
        else [])"

text \<open>\<open>NavItem\<close>'s click: a locked item opens the upgrade prompt with its label
  (\<open>App\<close> always passes \<open>onLockedItemClick\<close>), any other selects its module; both
  close the drawer.\<close>

definition nav_click :: "nav_item \<Rightarrow> shell \<Rightarrow> shell" where
  "nav_click it s =
     (case it of (i, lbl, locked) \<Rightarrow>
        (if locked then s\<lparr>upgrade_feature := Some lbl\<rparr> else select_module i s)\<lparr>sidebar_open := False\<rparr>)"

text \<open>The avatar: \<open>user.name.substring(0, 2).toUpperCase()\<close>, or \<open>OP\<close>.\<close>

definition avatar_initials :: "user option \<Rightarrow> string" where
  "avatar_initials cu =
     (case cu of Some u \<Rightarrow> if name u \<noteq> [] then to_upper (take 2 (name u)) else ''OP'' | None \<Rightarrow> ''OP'')"

text \<open>\<open>handleLogin\<close> and \<open>handleLogout\<close>: logout resets the active module and the
  general module's mode, not the other modules' modes nor the form data.\<close>

definition app_handle_login :: "user \<Rightarrow> shell \<Rightarrow> shell" where
  "app_handle_login u s = s\<lparr>current_user := Some u, stored_user := Some u\<rparr>"

definition app_handle_logout :: "shell \<Rightarrow> shell" where
  "app_handle_logout s =
     s\<lparr>current_user := None, stored_user := None, active_module := ''overview'',
       general_mode := Dashboard_view\<rparr>"

text \<open>A fresh form: \<open>{...INITIAL_DATA, timestamp, inspectedBy: currentUser?.name || ''}\<close>.\<close>

definition fresh_form :: "string \<Rightarrow> user option \<Rightarrow> form_data" where
  "fresh_form now cu =
     (INITIAL_DATA now)(''inspectedBy'' := Str (case cu of Some u \<Rightarrow> name u | None \<Rightarrow> ''''))"

definition reset_form :: "string \<Rightarrow> shell \<Rightarrow> shell" where
  "reset_form now s =
     set_mode (active_module s) Dashboard_view
       (s\<lparr>cur_form := fresh_form now (current_user s), current_section := 0\<rparr>)"

text \<open>\<open>startInspectionCommon\<close> with the mode setter of module \<open>m\<close>.\<close>

definition start_inspection :: "string \<Rightarrow> string \<Rightarrow> shell \<Rightarrow> shell" where
  "start_inspection m now s =
     set_mode m Form_view (s\<lparr>cur_form := fresh_form now (current_user s), current_section := 0\<rparr>)"

definition update_field :: "string \<Rightarrow> cell \<Rightarrow> shell \<Rightarrow> shell" where
  "update_field f v s = s\<lparr>cur_form := (cur_form s)(f := v)\<rparr>"

definition handle_next :: "shell \<Rightarrow> shell" where
  "handle_next s = s\<lparr>current_section := min (current_section s + 1) (length SECTIONS - 1)\<rparr>"

text \<open>\<open>handleBack\<close>: on the first section it leaves the form for the module's
  dashboard, keeping the section.\<close>

definition handle_back :: "shell \<Rightarrow> shell" where
  "handle_back s =
     (if current_section s = 0 then set_mode (active_module s) Dashboard_view s
      else s\<lparr>current_section := max (current_section s - 1) 0\<rparr>)"

definition handle_view_report :: "form_data option \<Rightarrow> shell \<Rightarrow> shell" where
  "handle_view_report item s = s\<lparr>selected_report := item, report_open := True\<rparr>"

definition handle_quick_print :: "form_data \<Rightarrow> shell \<Rightarrow> shell" where
  "handle_quick_print item s = s\<lparr>selected_report := Some item\<rparr>"

text \<open>The navigation part of \<open>handleMarkNotificationRead\<close>
  (\<open>Notification_Actions.follow_link\<close>): it sets the module and no mode.\<close>

definition follow_alert :: "alert option \<Rightarrow> shell \<Rightarrow> shell" where
  "follow_alert t s = s\<lparr>active_module := follow_link (current_user s) t (active_module s)\<rparr>"

text \<open>The route-protection effect.\<close>

definition route_effect :: "shell \<Rightarrow> shell" where
  "route_effect s =
     (case current_user s of
        None \<Rightarrow> s
      | Some u \<Rightarrow>
          if \<not> is_admin u \<and> (active_module s = ''settings'' \<or> active_module s = ''users'')
          then s\<lparr>shell_toast := Some ''Access Restricted to Admins.'', active_module := ''overview''\<rparr>
          else s)"

text \<open>The requests of the fetch effect, given \<open>navigator.onLine\<close>, the script URL
  and the length of the offline queue.\<close>

datatype shell_request = Fetch_notifications | Sync_queue | Fetch_history

definition fetch_effect :: "bool \<Rightarrow> string \<Rightarrow> nat \<Rightarrow> shell \<Rightarrow> shell_request list" where
  "fetch_effect is_online url qlen s =
     (if current_user s = None \<or> url = [] then []
      else (if is_online then Fetch_notifications # (if 0 < qlen then [Sync_queue] else []) else [])
           @ (if on_dashboard s \<and> is_online then [Fetch_history] else []))"

text \<open>The user's actions, each where the shell renders the control that fires it:
  the module buttons of the dashboards for \<open>Start_inspection\<close>, the form for the
  field edits, the section buttons and the stepper (whose indices are those of
  \<open>SECTIONS\<close>), the drawer for \<open>Nav_click\<close> (an index into its items).\<close>

datatype shell_event =
    Login user | Logout | Nav_click nat | Navigate string | Open_sidebar | Close_sidebar
  | Start_inspection string string | Reset_form string | Update_field string cell
  | Next_section | Back_section | Jump_section nat
  | View_report "form_data option" | Quick_print form_data | Follow_alert "alert option"
  | Close_upgrade

definition is_module :: "string \<Rightarrow> bool" where
  "is_module m \<longleftrightarrow> m \<in> set [''general'', ''petroleum'', ''petroleum_v2'', ''acid'']"

fun handle_event :: "shell_event \<Rightarrow> shell \<Rightarrow> shell" where
  "handle_event (Login u) s = app_handle_login u s"
| "handle_event Logout s = app_handle_logout s"
| "handle_event (Nav_click k) s =
     (if k < length (nav_items (current_user s)) then nav_click (nav_items (current_user s) ! k) s else s)"
| "handle_event (Navigate m) s = select_module m s"
| "handle_event Open_sidebar s = s\<lparr>sidebar_open := True\<rparr>"
| "handle_event Close_sidebar s = s\<lparr>sidebar_open := False\<rparr>"
| "handle_event (Start_inspection m now) s =
     (if is_module m \<and> active_module s = m \<and> on_dashboard s then start_inspection m now s else s)"
| "handle_event (Reset_form now) s = reset_form now s"
| "handle_event (Update_field f v) s = (if in_form s then update_field f v s else s)"
| "handle_event Next_section s = (if in_form s then handle_next s else s)"
| "handle_event Back_section s = (if in_form s then handle_back s else s)"
| "handle_event (Jump_section i) s =
     (if in_form s \<and> i < length SECTIONS then s\<lparr>current_section := i\<rparr> else s)"
| "handle_event (View_report r) s = handle_view_report r s"
| "handle_event (Quick_print r) s = handle_quick_print r s"
| "handle_event (Follow_alert t) s = follow_alert t s"
| "handle_event Close_upgrade s = s\<lparr>upgrade_feature := None\<rparr>"

text \<open>One step: only the login screen while nobody is logged in, the shell
  otherwise; then the route-protection effect.\<close>

definition shell_step :: "shell \<Rightarrow> shell_event \<Rightarrow> shell" where
  "shell_step s e =
     route_effect
       (case (current_user s, e) of
          (None, Login u) \<Rightarrow> handle_event e s
        | (None, _) \<Rightarrow> s
        | (Some _, Login _) \<Rightarrow> s
        | (Some _, _) \<Rightarrow> handle_event e s)"

definition shell_run :: "shell \<Rightarrow> shell_event list \<Rightarrow> shell" where
  "shell_run s es = foldl shell_step s es"

text \<open>Users and sessions of the witnesses.\<close>

definition shell_alice :: user where
  "shell_alice = \<lparr>username = ''alice'', name = ''Alice'', role = Inspector, position = ''Inspector''\<rparr>"

definition shell_bob :: user where
  "shell_bob = \<lparr>username = ''bob'', name = ''Bob'', role = Operations, position = ''Dispatcher''\<rparr>"

text \<open>The first session of the witness: Alice opens the first petroleum check and
  enters a truck number.\<close>

definition shell_session_a :: "shell_event list" where
  "shell_session_a = [Login shell_alice, Navigate ''petroleum'', Start_inspection ''petroleum'' ''t1'',
     Update_field ''truckNo'' (Str ''AB 12'')]"

definition shell_link_alert :: alert where
  "shell_link_alert = demo_server_alert\<lparr>a_action_link := Str ''view:petroleum''\<rparr>"

subsection \<open>Facts\<close>

lemma set_mode_eq:
  "set_mode m v s =
     s\<lparr>general_mode := (if m = ''general'' then v else general_mode s),
       petroleum_mode := (if m = ''petroleum'' then v else petroleum_mode s),
       petroleum_v2_mode := (if m = ''petroleum_v2'' then v else petroleum_v2_mode s),
       acid_mode := (if m = ''acid'' then v else acid_mode s)\<rparr>"
  by (simp add: set_mode_def Let_def)

text \<open>The effect changes nothing but the module and the toast.\<close>

lemma route_effect_section [simp]: "current_section (route_effect s) = current_section s"
  by (simp add: route_effect_def split: option.splits)

lemma route_effect_user [simp]: "current_user (route_effect s) = current_user s"
  by (simp add: route_effect_def split: option.splits)

lemma set_mode_section [simp]: "current_section (set_mode m v s) = current_section s"
  by (simp add: set_mode_eq)

lemma set_mode_form [simp]: "cur_form (set_mode m v s) = cur_form s"
  by (simp add: set_mode_eq)

lemma set_mode_user [simp]: "current_user (set_mode m v s) = current_user s"
  by (simp add: set_mode_eq)

lemma nav_click_section [simp]: "current_section (nav_click it s) = current_section s"
  by (cases it) (simp add: nav_click_def select_module_def)

lemma handle_event_section:
  assumes "current_section s < length SECTIONS"
  shows "current_section (handle_event e s) < length SECTIONS"
  using assms
  by (cases e) (auto simp: app_handle_login_def app_handle_logout_def select_module_def
      reset_form_def start_inspection_def update_field_def handle_next_def handle_back_def
      handle_view_report_def handle_quick_print_def follow_alert_def SECTIONS_def)

text \<open>A step handles the event or ignores it, and runs the effect.\<close>

lemma shell_step_cases:
  "shell_step s e = route_effect s \<or> shell_step s e = route_effect (handle_event e s)"
  by (auto simp: shell_step_def split: option.splits shell_event.splits)

lemma shell_step_section:
  "current_section s < length SECTIONS \<Longrightarrow> current_section (shell_step s e) < length SECTIONS"
  using shell_step_cases [of s e] handle_event_section [of s e] by auto

lemma shell_run_snoc [simp]: "shell_run s (es @ [e]) = shell_step (shell_run s es) e"
  by (simp add: shell_run_def)

text \<open>The drawer offers a non-admin neither admin view; its locked items are the four
  operations-suite entries, and clicking one changes only the prompt and the drawer.\<close>

lemma nav_items_non_admin:
  "\<not> sidebar_admin cu \<Longrightarrow> list_all (\<lambda>(i, _, _). i \<noteq> ''settings'' \<and> i \<noteq> ''users'') (nav_items cu)"
  by (simp add: nav_items_def)

lemma nav_items_locked:
  "map fst (filter (\<lambda>(_, _, l). l) (nav_items cu)) = [''journey_plan'', ''driver_trip'', ''fuel_control'', ''gate_pass'']"
  by (simp add: nav_items_def)

lemma nav_click_locked:
  "nav_click (i, lbl, True) s = s\<lparr>upgrade_feature := Some lbl, sidebar_open := False\<rparr>"
  by (simp add: nav_click_def)

text \<open>Next then Back returns to the same state below the last section; Back on the
  first section shows the module's dashboard.\<close>

lemma back_after_next:
  "current_section s + 1 < length SECTIONS \<Longrightarrow> handle_back (handle_next s) = s"
  by (simp add: handle_back_def handle_next_def)

lemma next_at_last:
  "current_section s = length SECTIONS - 1 \<Longrightarrow> handle_next s = s"
  by (simp add: handle_next_def)

lemma back_first_dashboard:
  "is_module (active_module s) \<Longrightarrow> current_section s = 0 \<Longrightarrow> on_dashboard (handle_back s)"
  by (auto simp: handle_back_def on_dashboard_def mode_of_def set_mode_eq is_module_def)

lemma start_inspection_fresh:
  "current_user s = Some u \<Longrightarrow>
   cur_form (start_inspection m now s) = (INITIAL_DATA now)(''inspectedBy'' := Str (name u)) \<and>
   current_section (start_inspection m now s) = 0"
  by (simp add: start_inspection_def fresh_form_def)

text \<open>The fetch effect asks for the history exactly on a module dashboard, online,
  logged in and with a script URL, and for nothing while logged out.\<close>

lemma fetch_history_iff:
  "Fetch_history \<in> set (fetch_effect is_online url q s) \<longleftrightarrow>
   current_user s \<noteq> None \<and> url \<noteq> [] \<and> is_online \<and> on_dashboard s"
  by (auto simp: fetch_effect_def)

lemma fetch_logged_out: "current_user s = None \<Longrightarrow> fetch_effect is_online url q s = []"
  by (simp add: fetch_effect_def)

text \<open>C18. The section index stays within \<open>SECTIONS\<close> in every state the shell
  reaches, so \<open>SECTIONS[currentSection]\<close> in the header is always defined.\<close>

theorem section_in_range: "current_section (shell_run (init_shell t) es) < length SECTIONS"
proof (induction es rule: rev_induct)
  case Nil
  then show ?case by (simp add: shell_run_def init_shell_def SECTIONS_def)
next
  case (snoc e es)
  then show ?case by (simp add: shell_step_section)
qed


text \<open>C25. Logout keeps the form data and the modes of the tanker modules: when the
  next user logs in and follows a notification link to the module the previous user
  left in the middle of an inspection, the shell shows that user's form, with its
  inspector and every field already entered, under the new session.\<close>

theorem stale_form_after_logout:
  assumes "current_user s = Some a" and "active_module s = ''petroleum''" and "in_form s"
    and "a_action_link al = Str ''view:petroleum''"
  shows "current_user (shell_run s [Logout, Login b, Follow_alert (Some al)]) = Some b \<and>
         in_form (shell_run s [Logout, Login b, Follow_alert (Some al)]) \<and>
         cur_form (shell_run s [Logout, Login b, Follow_alert (Some al)]) = cur_form s \<and>
         current_section (shell_run s [Logout, Login b, Follow_alert (Some al)]) = current_section s"
proof -
  have p: "petroleum_mode s = Form_view" using assms(2,3) by (simp add: in_form_def mode_of_def)
  have l: "follow_link (Some b) (Some al) ''overview'' = ''petroleum''"
    using assms(4) by (simp add: follow_link_def link_target_def js_truthy_def string_eval)
  show ?thesis
    using assms(1) p l
    by (simp add: shell_run_def shell_step_def app_handle_logout_def app_handle_login_def follow_alert_def
        route_effect_def in_form_def mode_of_def)
qed

theorem stale_form_after_logout_witness:
  "cur_form (shell_run (shell_run (init_shell ''t0'') shell_session_a) [Logout, Login shell_bob, Follow_alert (Some shell_link_alert)])
     ''inspectedBy'' = Str ''Alice'' \<and>
   cur_form (shell_run (shell_run (init_shell ''t0'') shell_session_a) [Logout, Login shell_bob, Follow_alert (Some shell_link_alert)])
     ''truckNo'' = Str ''AB 12'' \<and>
   in_form (shell_run (shell_run (init_shell ''t0'') shell_session_a) [Logout, Login shell_bob, Follow_alert (Some shell_link_alert)]) \<and>
   current_user (shell_run (shell_run (init_shell ''t0'') shell_session_a) [Logout, Login shell_bob, Follow_alert (Some shell_link_alert)])
     = Some shell_bob"
proof -
  define s where "s = shell_run (init_shell ''t0'') shell_session_a"
  have u: "current_user s = Some shell_alice" and m: "active_module s = ''petroleum''" and f: "in_form s"
    and d: "cur_form s ''inspectedBy'' = Str ''Alice''" and t: "cur_form s ''truckNo'' = Str ''AB 12''"
    by (simp_all add: s_def shell_session_a_def shell_run_def shell_step_def init_shell_def app_handle_login_def
        select_module_def set_mode_eq route_effect_def start_inspection_def is_module_def on_dashboard_def
        in_form_def mode_of_def update_field_def fresh_form_def shell_alice_def)
  have l: "a_action_link shell_link_alert = Str ''view:petroleum''" by (simp add: shell_link_alert_def)
  show ?thesis
    using stale_form_after_logout [OF u m f l, of shell_bob] d t unfolding s_def by simp
qed

end
