(* ===== verification/Signature_Pad.thy ===== *)
theory Signature_Pad
  imports Offline_Queue
begin

text \<open>
  The signature pad \<open>src/src/components/SignaturePad.tsx\<close>. The canvas content is
  the list of what was drawn on it, in order: line segments of the pen and the
  picture of an existing signature, drawn when its image has loaded. Every pen-up
  hands \<open>canvas.toDataURL()\<close> to the parent, which stores it with \<open>updateField\<close>;
  clearing hands it the empty string. The PNG encoder of the browser is a parameter
  \<open>png\<close>: the data URL is its output after the \<open>data:image/png;base64,\<close> prefix.
  \<open>ctx.stroke()\<close> strokes the whole current path on each move; strokes of the same
  segment paint the same pixels, so the model records each segment once.
\<close>

type_synonym point = "int \<times> int"

datatype layer = Segment point point | Picture string

record pad =
  is_drawing :: bool
  canvas :: "layer list"
  pen :: "point option"
  is_loaded :: bool
  pending_image :: "string option"
  rect_origin :: point

text \<open>\<open>getCoordinates\<close>: the pointer's client position minus the canvas's bounding
  rectangle, in CSS pixels.\<close>

definition get_coordinates :: "point \<Rightarrow> point \<Rightarrow> point" where
  "get_coordinates r c = (fst c - fst r, snd c - snd r)"

definition to_data_url :: "(layer list \<Rightarrow> string) \<Rightarrow> layer list \<Rightarrow> string" where
  "to_data_url png img = ''data:image/png;base64,'' @ png img"

text \<open>The pad as mounted, and the mount effect: an existing signature starts loading
  unless one has loaded already.\<close>

definition init_pad :: "point \<Rightarrow> pad" where
  "init_pad r = \<lparr>is_drawing = False, canvas = [], pen = None, is_loaded = False,
                 pending_image = None, rect_origin = r\<rparr>"

definition mount_pad :: "string option \<Rightarrow> pad \<Rightarrow> pad" where
  "mount_pad existing s =
     (case existing of
        Some d \<Rightarrow> if d \<noteq> [] \<and> \<not> is_loaded s then s\<lparr>pending_image := Some d\<rparr> else s
      | None \<Rightarrow> s)"

text \<open>\<open>img.onload\<close>: the picture is drawn over the canvas as it is then.\<close>

definition image_loaded :: "pad \<Rightarrow> pad" where
  "image_loaded s =
     (case pending_image s of
        Some d \<Rightarrow> s\<lparr>canvas := canvas s @ [Picture d], is_loaded := True, pending_image := None\<rparr>
      | None \<Rightarrow> s)"

definition start_drawing :: "point \<Rightarrow> pad \<Rightarrow> pad" where
  "start_drawing c s = s\<lparr>is_drawing := True, pen := Some (get_coordinates (rect_origin s) c)\<rparr>"

definition draw :: "point \<Rightarrow> pad \<Rightarrow> pad" where
  "draw c s =
     (if \<not> is_drawing s then s
      else let p = get_coordinates (rect_origin s) c in
           s\<lparr>canvas := canvas s @ (case pen s of Some q \<Rightarrow> [Segment q p] | None \<Rightarrow> []),
             pen := Some p\<rparr>)"

text \<open>\<open>stopDrawing\<close> (mouse up, mouse leave, touch end): the strings passed to
  \<open>onSave\<close>.\<close>

definition stop_drawing :: "(layer list \<Rightarrow> string) \<Rightarrow> pad \<Rightarrow> pad \<times> string list" where
  "stop_drawing png s =
     (if is_drawing s then (s\<lparr>is_drawing := False\<rparr>, [to_data_url png (canvas s)]) else (s, []))"

definition clear_pad :: "pad \<Rightarrow> pad \<times> string list" where
  "clear_pad s = (s\<lparr>canvas := [], is_loaded := False\<rparr>, [''''])"

datatype pad_event = Pen_down point | Pen_move point | Pen_up | Clear_signature | Image_onload

fun pad_step :: "(layer list \<Rightarrow> string) \<Rightarrow> pad \<Rightarrow> pad_event \<Rightarrow> pad \<times> string list" where
  "pad_step png s (Pen_down c) = (start_drawing c s, [])"
| "pad_step png s (Pen_move c) = (draw c s, [])"
| "pad_step png s Pen_up = stop_drawing png s"
| "pad_step png s Clear_signature = clear_pad s"
| "pad_step png s Image_onload = (image_loaded s, [])"

fun pad_run :: "(layer list \<Rightarrow> string) \<Rightarrow> pad \<Rightarrow> pad_event list \<Rightarrow> pad \<times> string list" where
  "pad_run png s [] = (s, [])"
| "pad_run png s (e # es) =
     (let (s1, o1) = pad_step png s e; (s2, o2) = pad_run png s1 es in (s2, o1 @ o2))"

text \<open>\<open>onSave={sig => updateField(field, sig)}\<close>: the parent's field after the saves.\<close>

definition save_into :: "string \<Rightarrow> form_data \<Rightarrow> string list \<Rightarrow> form_data" where
  "save_into f fd sv = foldl (\<lambda>d sig. d(f := Str sig)) fd sv"

text \<open>The polyline of a stroke through the given positions.\<close>

fun polyline :: "point list \<Rightarrow> layer list" where
  "polyline (p # q # ps) = Segment p q # polyline (q # ps)"
| "polyline _ = []"

text \<open>The submission context of the witnesses: an inspector, online, with a script URL.\<close>

definition pad_demo_ctx :: submit_ctx where
  "pad_demo_ctx = \<lparr>submit_ctx.current_user = Some \<lparr>username = ''ann'', name = ''Ann'', role = Inspector,
                     position = ''Inspector''\<rparr>,
                   script_url = ''https://script.example/exec'', online = True,
                   submit_ctx.active_module = ''general'', form = (\<lambda>_. Undef)\<rparr>"

subsection \<open>Facts\<close>

lemma pad_run_append:
  "pad_run png s (es1 @ es2) =
     (let (s1, o1) = pad_run png s es1; (s2, o2) = pad_run png s1 es2 in (s2, o1 @ o2))"
  by (induction es1 arbitrary: s) (auto simp: Let_def split: prod.splits)

lemma save_into_append:
  "save_into f fd (xs @ ys) = save_into f (save_into f fd xs) ys"
  by (simp add: save_into_def)

lemma save_into_last:
  "xs \<noteq> [] \<Longrightarrow> save_into f fd xs f = Str (last xs)"
  by (induction xs arbitrary: fd rule: rev_induct) (auto simp: save_into_def)

lemma data_url_nonempty [simp]: "to_data_url png img \<noteq> []"
  by (simp add: to_data_url_def)

text \<open>The signature guard of \<open>handleGoogleSheetSubmit\<close> passes on a truthy field.\<close>

lemma submit_signed_passes:
  "\<not> submit_denied (submit_ctx.current_user c) \<Longrightarrow> js_truthy (form c ''inspectorSignature'') \<Longrightarrow>
   fst (handle_submit c rid t w) \<noteq> Unsigned"
  by (simp add: handle_submit_def Let_def split: transport.splits)

text \<open>Moves while the pen is down extend the canvas by the polyline from the pen's
  position and save nothing.\<close>

lemma pad_run_moves:
  "is_drawing s \<Longrightarrow> pen s = Some q \<Longrightarrow>
   pad_run png s (map Pen_move cs) =
     (s\<lparr>canvas := canvas s @ polyline (q # map (get_coordinates (rect_origin s)) cs),
        pen := Some (last (q # map (get_coordinates (rect_origin s)) cs))\<rparr>, [])"
proof (induction cs arbitrary: s q)
  case Nil
  then show ?case by simp
next
  case (Cons c cs)
  let ?p = "get_coordinates (rect_origin s) c"
  have "pad_run png (draw c s) (map Pen_move cs) =
          ((draw c s)\<lparr>canvas := canvas (draw c s) @ polyline (?p # map (get_coordinates (rect_origin s)) cs),
             pen := Some (last (?p # map (get_coordinates (rect_origin s)) cs))\<rparr>, [])"
    using Cons.IH [of "draw c s" ?p] Cons.prems by (simp add: draw_def Let_def)
  then show ?case using Cons.prems by (simp add: draw_def Let_def)
qed

text \<open>A whole stroke: pen down, moves, pen up, on any pad.\<close>

lemma stroke_saved:
  "pad_run png s (Pen_down c # map Pen_move cs @ [Pen_up]) =
     (let img = canvas s @ polyline (map (get_coordinates (rect_origin s)) (c # cs)) in
      (s\<lparr>is_drawing := False, canvas := img,
         pen := Some (last (map (get_coordinates (rect_origin s)) (c # cs)))\<rparr>,
       [to_data_url png img]))"
proof -
  let ?s1 = "start_drawing c s"
  have "pad_run png ?s1 (map Pen_move cs) =
          (?s1\<lparr>canvas := canvas s @ polyline (map (get_coordinates (rect_origin s)) (c # cs)),
             pen := Some (last (map (get_coordinates (rect_origin s)) (c # cs)))\<rparr>, [])"
    using pad_run_moves [of ?s1 "get_coordinates (rect_origin s) c" png cs]
    by (simp add: start_drawing_def)
  then show ?thesis
    by (simp add: pad_run_append Let_def stop_drawing_def start_drawing_def)
qed

text \<open>C22. A stroke made before an existing signature's image has loaded is saved
  without it: the parent receives the data URL of the old canvas plus the stroke, and
  the picture of the existing signature lands on the canvas over the stroke only
  afterwards, so the saved value no longer holds the signature the form had.\<close>

lemma stroke_before_load:
  assumes "pending_image s = Some d"
  shows "pad_run png s (Pen_down c # map Pen_move cs @ [Pen_up, Image_onload]) =
           (let img = canvas s @ polyline (map (get_coordinates (rect_origin s)) (c # cs)) in
            (s\<lparr>is_drawing := False, canvas := img @ [Picture d],
               pen := Some (last (map (get_coordinates (rect_origin s)) (c # cs))),
               is_loaded := True, pending_image := None\<rparr>,
             [to_data_url png img]))"
proof -
  have e: "Pen_down c # map Pen_move cs @ [Pen_up, Image_onload] =
             (Pen_down c # map Pen_move cs @ [Pen_up]) @ [Image_onload]" by simp
  show ?thesis
    unfolding e pad_run_append stroke_saved using assms by (simp add: Let_def image_loaded_def)
qed

theorem stroke_before_load_witness:
  "pad_run (\<lambda>_. ''P'') (mount_pad (Some ''sig'') (init_pad (0, 0)))
     [Pen_down (1, 1), Pen_move (2, 3), Pen_up, Image_onload]
   = ((mount_pad (Some ''sig'') (init_pad (0, 0)))\<lparr>is_drawing := False,
        canvas := [Segment (1, 1) (2, 3), Picture ''sig''], pen := Some (2, 3),
        is_loaded := True, pending_image := None\<rparr>,
      [''data:image/png;base64,P''])"
proof -
  have p: "pending_image (mount_pad (Some ''sig'') (init_pad (0, 0))) = Some ''sig''"
    by (simp add: mount_pad_def init_pad_def)
  show ?thesis using stroke_before_load [OF p, of "\<lambda>_. ''P''" "(1, 1)" "[(2, 3)]"]
    by (simp add: mount_pad_def init_pad_def get_coordinates_def to_data_url_def)
qed

text \<open>Clearing leaves the parent's field empty, which the submission refuses.\<close>

lemma cleared_unsigned:
  "\<not> submit_denied (submit_ctx.current_user c) \<Longrightarrow>
   fst (handle_submit (c\<lparr>form := save_into ''inspectorSignature'' (form c) (snd (clear_pad s))\<rparr>) rid t w)
     = Unsigned"
  by (simp add: clear_pad_def save_into_def handle_submit_def)

text \<open>C38. A tap on a blank pad, pen down and up without moving, draws nothing but
  hands the parent the data URL of the blank canvas; that string is never empty, so
  the submission's \<open>Please sign\<close> guard lets the unsigned inspection through.\<close>

theorem blank_tap_signs:
  assumes "canvas s = []" and "\<not> submit_denied (submit_ctx.current_user c)"
  shows "canvas (fst (pad_run png s [Pen_down p, Pen_up])) = [] \<and>
         fst (handle_submit (c\<lparr>form := save_into ''inspectorSignature'' (form c)
                                  (snd (pad_run png s [Pen_down p, Pen_up]))\<rparr>) rid t w) \<noteq> Unsigned"
proof -
  have run: "pad_run png s [Pen_down p, Pen_up] =
               (s\<lparr>is_drawing := False, canvas := [], pen := Some (get_coordinates (rect_origin s) p)\<rparr>,
                [to_data_url png []])"
    using stroke_saved [of png s p "[]"] assms(1) by simp
  have "fst (handle_submit (c\<lparr>form := (form c)(''inspectorSignature'' := Str (to_data_url png []))\<rparr>)
              rid t w) \<noteq> Unsigned"
    by (rule submit_signed_passes) (simp_all add: assms(2))
  then show ?thesis unfolding run by (simp add: save_into_def)
qed

theorem blank_tap_signs_witness:
  "canvas (init_pad (10, 20)) = [] \<and> \<not> submit_denied (submit_ctx.current_user pad_demo_ctx) \<and>
   canvas (fst (pad_run (\<lambda>_. ''iVBORw0KGgo'') (init_pad (10, 20)) [Pen_down (15, 30), Pen_up])) = [] \<and>
   fst (handle_submit (pad_demo_ctx\<lparr>form := save_into ''inspectorSignature'' (form pad_demo_ctx)
          (snd (pad_run (\<lambda>_. ''iVBORw0KGgo'') (init_pad (10, 20)) [Pen_down (15, 30), Pen_up]))\<rparr>)
          ''r1'' Resolved \<lparr>offline_queue = [], stored_queue = [], is_syncing = False, remote_log = []\<rparr>) \<noteq> Unsigned"
proof -
  have c: "canvas (init_pad (10, 20)) = []" by (simp add: init_pad_def)
  have d: "\<not> submit_denied (submit_ctx.current_user pad_demo_ctx)"
    by (simp add: pad_demo_ctx_def submit_denied_def)
  show ?thesis using blank_tap_signs [OF c d, of "\<lambda>_. ''iVBORw0KGgo''" "(15, 30)"] c d by simp
qed

end
