(* ===== verification/Share_Links.thy ===== *)
theory Share_Links
  imports User_Management
begin

text \<open>
  The share buttons of the user list in \<open>src/src/views/UserManagementView.tsx\<close>:
  \<open>handleShareWhatsApp\<close> and \<open>handleShareEmail\<close> write a user's details and
  credentials into a message and open a \<open>wa.me\<close> or \<open>mailto:\<close> URL carrying it
  through \<open>encodeURIComponent\<close>. A character here is a code point from U+0000 to
  U+00FF; \<open>encodeURIComponent\<close> percent-encodes its UTF-8 bytes (one byte below
  U+0080, two above), and \<open>decodeURIComponent\<close> reverses it, throwing a
  \<open>URIError\<close> (the value \<open>None\<close>) on a malformed escape. Code points above U+00FF
  are outside the model. The page address \<open>window.location.href\<close> is a parameter.
\<close>

subsection \<open>Percent-encoding\<close>

text \<open>The characters \<open>encodeURIComponent\<close> leaves as they are.\<close>

definition unreserved :: "char \<Rightarrow> bool" where
  "unreserved c \<longleftrightarrow> is_upper c \<or> is_lower c \<or> is_digit c \<or> c \<in> set ''-_.!~*'()''"

definition hex_digit :: "nat \<Rightarrow> char" where
  "hex_digit k = (if k < 10 then char_of (48 + k) else char_of (55 + k))"

definition pct :: "nat \<Rightarrow> string" where
  "pct b = [CHR ''%'', hex_digit (b div 16), hex_digit (b mod 16)]"

definition utf8 :: "char \<Rightarrow> nat list" where
  "utf8 c = (let n = of_char c in if n < 128 then [n] else [192 + n div 64, 128 + n mod 64])"

definition encode_char :: "char \<Rightarrow> string" where
  "encode_char c = (if unreserved c then [c] else concat (map pct (utf8 c)))"

definition encode_uri_component :: "string \<Rightarrow> string" where
  "encode_uri_component s = concat (map encode_char s)"

text \<open>A hexadecimal digit of an escape, in either case.\<close>

definition hex_val :: "char \<Rightarrow> nat option" where
  "hex_val c =
     (let m = of_char c in
      if 48 \<le> m \<and> m \<le> 57 then Some (m - 48)
      else if 65 \<le> m \<and> m \<le> 70 then Some (m - 55)
      else if 97 \<le> m \<and> m \<le> 102 then Some (m - 87) else None)"

definition hex_byte :: "char \<Rightarrow> char \<Rightarrow> nat option" where
  "hex_byte h1 h2 = (case (hex_val h1, hex_val h2) of (Some a, Some b) \<Rightarrow> Some (16 * a + b) | _ \<Rightarrow> None)"

text \<open>\<open>decodeURIComponent\<close>: an escape of a byte below 128 is that character; a lead
  byte \<open>C2\<close> or \<open>C3\<close> must be followed by an escaped continuation byte; any
  other escape, and a \<open>%\<close> without two hexadecimal digits, throws.\<close>

function decode_uri_component :: "string \<Rightarrow> string option" where
  "decode_uri_component [] = Some []"
| "decode_uri_component (c # cs) =
     (if c \<noteq> CHR ''%'' then map_option ((#) c) (decode_uri_component cs)
      else case cs of
        h1 # h2 # rest \<Rightarrow>
          (case hex_byte h1 h2 of
             None \<Rightarrow> None
           | Some b \<Rightarrow>
               if b < 128 then map_option ((#) (char_of b)) (decode_uri_component rest)
               else if b = 194 \<or> b = 195 then
                 (case rest of
                    p # k1 # k2 # rest' \<Rightarrow>
                      (case hex_byte k1 k2 of
                         Some b2 \<Rightarrow>
                           if p = CHR ''%'' \<and> 128 \<le> b2 \<and> b2 < 192
                           then map_option ((#) (char_of ((b - 192) * 64 + (b2 - 128))))
                                  (decode_uri_component rest')
                           else None
                       | None \<Rightarrow> None)
                  | _ \<Rightarrow> None)
               else None)
      | _ \<Rightarrow> None)"
  by pat_completeness auto
termination by (relation "measure length") auto


subsection \<open>The share messages\<close>

definition nl :: string where
  "nl = [CHR 0x0A]"

text \<open>\<open>handleShareWhatsApp\<close>: the message of the template literal, with
  \<open>user.position || 'N/A'\<close> and \<open>user.password || '****'\<close>.\<close>

definition whatsapp_text :: "string \<Rightarrow> user_entry \<Rightarrow> string" where
  "whatsapp_text here u =
     (case u of (un, pw, nm, rl, ps, _) \<Rightarrow>
        ''*SafetyCheck Pro User Details*'' @ nl @ nl @ ''Name: '' @ js_String nm @ nl @
        ''Role: '' @ rl @ nl @ ''Position: '' @ js_String (js_or ps (Str ''N/A'')) @ nl @ nl @
        ''*Login Credentials*'' @ nl @ ''Username: '' @ js_String un @ nl @
        ''Password: '' @ js_String (js_or pw (Str ''****'')) @ nl @ nl @ ''Login at: '' @ here)"

definition whatsapp_url :: "string \<Rightarrow> user_entry \<Rightarrow> string" where
  "whatsapp_url here u = ''https://wa.me/?text='' @ encode_uri_component (whatsapp_text here u)"

text \<open>\<open>handleShareEmail\<close>: subject and body, and the \<open>mailto:\<close> address.\<close>

definition mail_subject :: "user_entry \<Rightarrow> string" where
  "mail_subject u = (case u of (_, _, nm, _) \<Rightarrow> ''Account Details: '' @ js_String nm)"

definition mail_body :: "string \<Rightarrow> user_entry \<Rightarrow> string" where
  "mail_body here u =
     (case u of (un, pw, nm, rl, ps, _) \<Rightarrow>
        ''Hello '' @ js_String nm @ '','' @ nl @ nl @
        ''Here are your account details for SafetyCheck Pro:'' @ nl @ nl @
        ''Name: '' @ js_String nm @ nl @ ''Role: '' @ rl @ nl @
        ''Position: '' @ js_String (js_or ps (Str ''N/A'')) @ nl @ nl @
        ''Login Credentials:'' @ nl @ ''Username: '' @ js_String un @ nl @
        ''Password: '' @ js_String (js_or pw (Str ''****'')) @ nl @ nl @
        ''Access the system here: '' @ here)"

definition mailto_url :: "string \<Rightarrow> user_entry \<Rightarrow> string" where
  "mailto_url here u =
     ''mailto:?subject='' @ encode_uri_component (mail_subject u) @
     ''&body='' @ encode_uri_component (mail_body here u)"

text \<open>The receiving side of a query string (\<open>URLSearchParams\<close> without the \<open>+\<close>
  rule, or a mail client reading the header fields of a \<open>mailto:\<close> address):
  fields split at \<open>&\<close>, the name up to the first \<open>=\<close>, the value decoded.\<close>

fun split_on :: "char \<Rightarrow> string \<Rightarrow> string list" where
  "split_on d [] = [[]]"
| "split_on d (c # cs) =
     (if c = d then [] # split_on d cs
      else case split_on d cs of w # ws \<Rightarrow> (c # w) # ws | [] \<Rightarrow> [[c]])"

definition parse_field :: "string \<Rightarrow> string \<times> string option" where
  "parse_field f =
     (takeWhile (\<lambda>c. c \<noteq> CHR ''='') f, decode_uri_component (drop 1 (dropWhile (\<lambda>c. c \<noteq> CHR ''='') f)))"

definition parse_query :: "string \<Rightarrow> (string \<times> string option) list" where
  "parse_query q = map parse_field (split_on (CHR ''&'') q)"

subsection \<open>Decoding inverts encoding\<close>

lemma hex_val_digit: "k < 16 \<Longrightarrow> hex_val (hex_digit k) = Some k"
  by (auto simp: hex_val_def hex_digit_def Let_def)

lemma hex_byte_pct: "b < 256 \<Longrightarrow> hex_byte (hex_digit (b div 16)) (hex_digit (b mod 16)) = Some b"
  by (simp add: hex_byte_def hex_val_digit less_mult_imp_div_less)

lemma hex_digit_not_pct: "k < 16 \<Longrightarrow> hex_digit k \<noteq> CHR ''%''"
  using hex_val_digit [of k] by (auto simp: hex_val_def)

lemma unreserved_not_pct: "unreserved c \<Longrightarrow> c \<noteq> CHR ''%''"
  by (auto simp: unreserved_def is_upper_def is_lower_def is_digit_def)

lemma decode_one_byte:
  "b < 128 \<Longrightarrow> decode_uri_component (pct b @ rest) = map_option ((#) (char_of b)) (decode_uri_component rest)"
  by (simp add: pct_def hex_byte_pct)

lemma decode_two_bytes:
  assumes "b1 = 194 \<or> b1 = 195" and "128 \<le> b2" and "b2 < 192"
  shows "decode_uri_component (pct b1 @ pct b2 @ rest) =
           map_option ((#) (char_of ((b1 - 192) * 64 + (b2 - 128)))) (decode_uri_component rest)"
proof -
  have h1: "hex_byte (hex_digit (b1 div 16)) (hex_digit (b1 mod 16)) = Some b1"
    using assms(1) by (intro hex_byte_pct) auto
  have h2: "hex_byte (hex_digit (b2 div 16)) (hex_digit (b2 mod 16)) = Some b2"
    using assms(3) by (intro hex_byte_pct) auto
  have n1: "\<not> b1 < 128" using assms(1) by auto
  show ?thesis using assms h1 h2 n1 by (simp add: pct_def)
qed

lemma decode_encode_char:
  "decode_uri_component (encode_char c @ rest) = map_option ((#) c) (decode_uri_component rest)"
proof -
  let ?n = "of_char c :: nat"
  show ?thesis
  proof (cases "unreserved c")
    case True
    then show ?thesis by (simp add: encode_char_def unreserved_not_pct)
  next
    case nu: False
    show ?thesis
    proof (cases "?n < 128")
      case True
      then have "encode_char c = pct ?n" using nu by (simp add: encode_char_def utf8_def Let_def)
      then show ?thesis using decode_one_byte [OF True, of rest] by simp
    next
      case False
      have lo: "2 \<le> ?n div 64" using div_le_mono [of 128 ?n 64] False by simp
      have hi: "?n div 64 < 4" using less_mult_imp_div_less [of ?n 4 64] by simp
      have e: "encode_char c = pct (192 + ?n div 64) @ pct (128 + ?n mod 64)"
        using nu False by (simp add: encode_char_def utf8_def Let_def)
      have b1: "192 + ?n div 64 = 194 \<or> 192 + ?n div 64 = 195" using lo hi by linarith
      have rt: "char_of ((192 + ?n div 64 - 192) * 64 + (128 + ?n mod 64 - 128)) = c"
        by (simp add: div_mult_mod_eq)
      show ?thesis
        using decode_two_bytes [OF b1, of "128 + ?n mod 64" rest] rt by (simp add: e)
    qed
  qed
qed

theorem decode_encode: "decode_uri_component (encode_uri_component s) = Some s"
  by (induction s) (simp_all add: encode_uri_component_def decode_encode_char)


subsection \<open>What an encoded component contains\<close>

lemma set_encode_char:
  "set (encode_char c) \<subseteq> {c. unreserved c} \<union> {CHR ''%''} \<union> hex_digit ` {0..<16}"
proof -
  have "set (pct b) \<subseteq> {CHR ''%''} \<union> hex_digit ` {0..<16}" if "b < 256" for b
    using that by (auto simp: pct_def less_mult_imp_div_less)
  moreover have "\<forall>b \<in> set (utf8 c). b < 256"
    using nat_of_char_less_256 [of c] less_mult_imp_div_less [of "of_char c" 4 64]
    by (auto simp: utf8_def Let_def)
  ultimately show ?thesis by (auto simp: encode_char_def)
qed

lemma not_in_encode:
  assumes "\<not> unreserved d" and "d \<noteq> CHR ''%''" and "hex_val d = None"
  shows "d \<notin> set (encode_uri_component s)"
proof
  assume "d \<in> set (encode_uri_component s)"
  then obtain c where "d \<in> set (encode_char c)" by (auto simp: encode_uri_component_def)
  then have "d \<in> hex_digit ` {0..<16}" using set_encode_char [of c] assms(1,2) by auto
  then show False using assms(3) hex_val_digit by auto
qed

lemma amp_not_in_encode: "CHR ''&'' \<notin> set (encode_uri_component s)"
  by (rule not_in_encode) (simp_all add: unreserved_def is_upper_def is_lower_def is_digit_def hex_val_def)

lemma eq_not_in_encode: "CHR ''='' \<notin> set (encode_uri_component s)"
  by (rule not_in_encode) (simp_all add: unreserved_def is_upper_def is_lower_def is_digit_def hex_val_def)

lemma split_on_free: "d \<notin> set xs \<Longrightarrow> split_on d xs = [xs]"
  by (induction xs) auto

lemma split_on_append: "d \<notin> set xs \<Longrightarrow> split_on d (xs @ d # ys) = xs # split_on d ys"
  by (induction xs) (auto split: list.splits)

lemma parse_field_encoded:
  assumes "CHR ''='' \<notin> set k"
  shows "parse_field (k @ CHR ''='' # encode_uri_component v) = (k, Some v)"
proof -
  have "takeWhile (\<lambda>c. c \<noteq> CHR ''='') (k @ CHR ''='' # r) = k \<and>
        dropWhile (\<lambda>c. c \<noteq> CHR ''='') (k @ CHR ''='' # r) = CHR ''='' # r" for r
    using assms by (induction k) auto
  then show ?thesis by (simp add: parse_field_def decode_encode)
qed


text \<open>C24. Both share links carry their message intact: reading the \<open>mailto:\<close>
  address's query gives exactly the fields \<open>subject\<close> and \<open>body\<close> with the subject
  and the body the view wrote, and reading the \<open>wa.me\<close> link's query gives the single
  field \<open>text\<close> with the WhatsApp message, whatever the user's details contain
  (an \<open>&\<close> or \<open>=\<close> in a name or password included).\<close>

theorem share_links_roundtrip:
  "parse_query (drop (length ''mailto:?'') (mailto_url here u)) =
     [(''subject'', Some (mail_subject u)), (''body'', Some (mail_body here u))] \<and>
   parse_query (drop (length ''https://wa.me/?'') (whatsapp_url here u)) =
     [(''text'', Some (whatsapp_text here u))]"
proof -
  let ?s = "encode_uri_component (mail_subject u)" and ?b = "encode_uri_component (mail_body here u)"
    and ?w = "encode_uri_component (whatsapp_text here u)"
  have m: "drop (length ''mailto:?'') (mailto_url here u) = (''subject='' @ ?s) @ CHR ''&'' # (''body='' @ ?b)"
    by (simp add: mailto_url_def)
  have w: "drop (length ''https://wa.me/?'') (whatsapp_url here u) = ''text='' @ ?w"
    by (simp add: whatsapp_url_def)
  have sm: "split_on (CHR ''&'') ((''subject='' @ ?s) @ CHR ''&'' # (''body='' @ ?b)) =
              [''subject='' @ ?s, ''body='' @ ?b]"
    using amp_not_in_encode [of "mail_subject u"] amp_not_in_encode [of "mail_body here u"]
    by (simp add: split_on_append split_on_free)
  have sw: "split_on (CHR ''&'') (''text='' @ ?w) = [''text='' @ ?w]"
    using amp_not_in_encode [of "whatsapp_text here u"] by (simp add: split_on_free)
  have f1: "parse_field (''subject='' @ ?s) = (''subject'', Some (mail_subject u))"
    using parse_field_encoded [of "''subject''" "mail_subject u"] by simp
  have f2: "parse_field (''body='' @ ?b) = (''body'', Some (mail_body here u))"
    using parse_field_encoded [of "''body''" "mail_body here u"] by simp
  have f3: "parse_field (''text='' @ ?w) = (''text'', Some (whatsapp_text here u))"
    using parse_field_encoded [of "''text''" "whatsapp_text here u"] by simp
  show ?thesis unfolding m w parse_query_def sm sw using f1 f2 f3 by simp
qed

end
