(* ===== verification/Spec2Isabelle.thy ===== *)
theory Spec2Isabelle
  imports Sync_Interleaving Notification_Actions Backend Catalog Input_Format History User_Management
    Settings Login Petroleum_Dashboard App_Shell Signature_Pad Share_Links
begin

text \<open>
  \<^bold>\<open>A verification model of the SafetyCheck fleet-inspection client.\<close>

  The repository is a React client (\<open>src/src/App.tsx\<close> and its views) for a
  spreadsheet backend written as a Google Apps Script, whose source the client ships
  as a string (\<open>BACKEND_SCRIPT_TEMPLATE\<close> in \<open>src/src/constants.ts\<close>).
  Inspectors fill checklists; a finished inspection is appended as a row to the
  sheet of its inspection type. The parts with engineering weight are the offline
  submission queue (submit now or queue; drain the queue in order when back online)
  and the notification feed (alerts derived from low ratings, alerts authored on
  the server, and the local read/dismiss state).

  \<^bold>\<open>Theories.\<close>
  \<^item> \<open>Prelude\<close>: the list and string operations the code gets from the
    platform (\<open>new Set\<close> order, \<open>toLowerCase\<close>, \<open>trim\<close>, \<open>replace(/\s/g,'')\<close>,
    decimal printing) and the shared fact collections.
  \<^item> \<open>Js_Values\<close>: spreadsheet cells and the JavaScript conversions applied to
    them (\<open>String\<close>, \<open>Number\<close>, truthiness, \<open>Date\<close> with the date parser as a
    parameter).
  \<^item> \<open>Session\<close>: users, the role normalisation of \<open>LoginView.handleSubmit\<close> and
    of the session restore in \<open>App\<close>, and the role checks (route protection,
    \<open>canAcknowledge\<close>, the submit guard).
  \<^item> \<open>Forms\<close>: the column schema of each sheet and the data-append payload built
    by \<open>handleGoogleSheetSubmit\<close>.
  \<^item> \<open>Offline_Queue\<close>: \<open>handleGoogleSheetSubmit\<close> and \<open>syncOfflineQueue\<close> as
    functions on a record of the queue state (React state, persisted copy, sync
    flag) and the backend's append log; the flush loop is proved equal to a
    closed-form reference (\<open>flush_spec\<close>).

  \<^item> \<open>Sync_Interleaving\<close>: the same two handlers split at their \<open>await\<close>s
    into an inductive step relation over a system state (React state, storage,
    the sync flag, the flush loops and direct sends in flight, the backend log),
    with the stale closures React gives them: the \<open>online\<close> listener sees the
    first render's \<open>isSyncing = false\<close>, a direct send keeps the queue snapshot of
    its render. Two traces show the races (a row queued during a flush is lost; two
    concurrent flushes send a row twice); under the serial discipline (one flush or
    send at a time) the invariant \<open>queue_inv\<close> holds on every reachable state,
    so no row is lost, and on a network that answers every request a serialized
    client drains its queue (every submitted row reaches the backend).
  \<^item> \<open>Notifications\<close>: \<open>fetchNotifications\<close> (\<open>App.tsx\<close>): the snapshot as a map
    from sheet names to JSON values, \<open>processForAlerts\<close> per inspection sheet
    (rating column, id from the truck cell, dismissed/acknowledged/read filters,
    with the \<open>TypeError\<close> that a non-string truck cell raises as a \<open>Inl\<close>
    value aborting the pass), the server-authored alerts of
    \<open>SystemNotification\<close>, the system-online alert, and the merge and sort by
    timestamp (\<open>reconcile\<close>).
  \<^item> \<open>Notification_Actions\<close>: \<open>handleMarkNotificationRead\<close> (with the action-link
    navigation), \<open>handleDismissNotification\<close>, \<open>handleGlobalAcknowledge\<close> and
    \<open>handleClearAllNotifications\<close> on the same state record; requests to the
    backend are appended to a log of \<open>request\<close> values.

  \<^item> \<open>Catalog\<close>: the checklist catalog of \<open>constants.ts\<close> (item ids and
    categories), the category groups of the form sections and the fields the form
    writes, to compare what the form asks with what each sheet stores.
  \<^item> \<open>Backend_Store\<close>: the spreadsheet behind the backend script as an ordered list
    of sheets, the Apps Script reads and writes the script uses, the spreadsheet's
    automatic typing of written strings as a parameter \<open>autotype\<close>, the bulk read
    \<open>doGet\<close> (the snapshot the client's notification pass consumes) and the
    validation-list maintenance.
  \<^item> \<open>Backend\<close>: every \<open>doPost\<close> handler (login, register, update, delete and list
    users, acknowledge, list acknowledgements, mark a server notification read, data
    append) as a function from the request body and the spreadsheet to the answer and
    the new spreadsheet, and the client's data-append request as a body.
  \<^item> \<open>Input_Format\<close>: \<open>AutocompleteInput\<close>'s \<open>handleChange\<close> (registration
    numbers and title case as the regular expressions of the source, over ASCII),
    \<open>filteredOptions\<close> and \<open>handleKeyDown\<close>.
  \<^item> \<open>History\<close>: the read side. \<open>fetchHistory\<close> (\<open>App.tsx\<close>) turns the bulk
    read into the module's records, newest first, each a partial map from column
    names to cells, and replaces the suggestion lists; \<open>stats\<close> is the module's
    pass rate; \<open>fetchAllData\<close> of \<open>OverviewDashboard.tsx\<close> counts the inspections
    of all sheets (per type, passed, critical, distinct vehicles, ten most recent).
    The pass rates are computed on binary64 numbers as the code computes them
    (\<open>fl_frac\<close> rounds a quotient to the nearest double, \<open>round_half_up\<close> is
    \<open>Math.round\<close>), so the model shows 57 for 23 passes out of 40, as the code does.
  \<^item> \<open>User_Management\<close>: \<open>UserManagementView.tsx\<close> (\<open>fetchUsers\<close>,
    \<open>handleDelete\<close>, \<open>handleEdit\<close>, \<open>handleSubmit\<close>, the Add and Back buttons) on a
    record of the view state, each handler composed with the backend's \<open>doPost\<close>;
    every request has a transport outcome (answered, rejected, answer lost).
  \<^item> \<open>Settings\<close>: the settings state of \<open>App\<close> and its local-storage copies,
    \<open>handleSaveSettings\<close> (URL guard, storage quota, the data append to
    \<open>System_Settings\<close> sent without CORS), \<open>fetchSystemSettings\<close>, and the edits of
    \<open>SettingsView.tsx\<close> with the resizing of \<open>compressImage\<close> on exact rationals.
  \<^item> \<open>Petroleum_Dashboard\<close>: the record list of \<open>PetroleumDashboard.tsx\<close>
    (the ten newest, or a case-insensitive search over truck, driver and inspector,
    whose \<open>toLowerCase\<close> throws on a numeric truck number), its role test and the
    status label of the shared summary.
  \<^item> \<open>Login\<close>: \<open>LoginView.tsx\<close>, its form state and \<open>handleSubmit\<close> (the login
    request, the switch to first-admin registration on \<open>NO_USERS\<close>, the session
    handed to \<open>onLogin\<close>), through the same request model as the user view.
  \<^item> \<open>App_Shell\<close>: the navigation and form state of \<open>App\<close> as a record (user,
    active module, the dashboard/form mode of each module, form data, section,
    drawer, upgrade prompt, report viewer) and \<open>components/layout/Sidebar.tsx\<close>
    (its items, the admin group, the click of a locked or open item). Every handler
    (\<open>handleLogin\<close>, \<open>handleLogout\<close>, \<open>resetForm\<close>, \<open>startInspectionCommon\<close>,
    \<open>updateField\<close>, \<open>handleNext\<close>, \<open>handleBack\<close>, the stepper, the report
    viewer, the action-link navigation) is a case of one event type; a step runs
    the handler the rendered screen allows (only the login screen while nobody is
    logged in), then the route-protection effect. Runs are folds of the step over
    event lists; the fetch effect is the list of requests a state triggers. The
    effect is applied at the end of the step: React runs it after committing the
    render, before the next user event, so the one render in between is not a state
    of the model and no property here is about it.
  \<^item> \<open>Signature_Pad\<close>: \<open>components/SignaturePad.tsx\<close> as a record (drawing flag,
    canvas content as the drawn segments and loaded pictures, pen position, the
    existing signature's load), its pointer handlers, clear and image load; the
    browser's PNG encoder is a parameter \<open>png\<close>, so a data URL is the fixed prefix
    and \<open>png\<close> of the canvas. The strings handed to \<open>onSave\<close> go into the form
    field the submission guard of \<open>Offline_Queue\<close> reads.
  \<^item> \<open>Share_Links\<close>: the share buttons of the user list (\<open>handleShareWhatsApp\<close>,
    \<open>handleShareEmail\<close>): their messages and URLs, \<open>encodeURIComponent\<close> and
    \<open>decodeURIComponent\<close> over code points up to U+00FF (UTF-8 escapes, a
    \<open>URIError\<close> as \<open>None\<close>), and the query reading of the receiving side.

  \<^bold>\<open>What is shown.\<close> The flush drains the queue in order and stops at the first
  failure without losing a row; together with submission it refines a multiset
  specification (each accepted row reaches the backend exactly once, or stays
  queued) as long as no response is lost; the coherence of memory and storage is
  an invariant of every handler. The interleaving theory exhibits the two races and
  proves the serial discipline safe. The notification theories prove the rating
  thresholds, that dismissed and acknowledged derived alerts never come back, that
  the feed is sorted by timestamp, the effect of each user action, and exhibit the
  departures from the specification as concrete runs: dismissed server alerts
  reappear, a numeric registration number blinds the whole feed, an offline
  mark-read of a server alert is recorded locally, \<open>view:petroleum_v2\<close> links open
  the first petroleum module. On the backend side the delivery of client records
  refines the queue's log (each inspection sheet receives exactly the rows of the
  records addressed to it, in order); usernames stay unique under delete and login,
  and under register whenever the spreadsheet keeps the new key, but not under
  update (renaming onto another row's username) nor under register with the digit
  typing (\<open>007\<close> is stored as 7 and collides with user 7); the password column
  leaks through \<open>get_users\<close>. Across components, the catalog is asked exactly once per module, the
  General form's Job Card is never stored, and the columns the notification engine and
  the validation learning read are the ones the client writes; an acknowledgement
  written by the backend suppresses the derived alert in every later client pass, and
  the spreadsheet's typing of digit strings makes a numeric registration number, for
  any module and any backend contents, blind the next feed, and a password with a
  leading zero lock its owner out. The registration-number
  formatting is idempotent and always separates letters from digits; the title case
  only upper-cases word starts. An inspection written by the client and appended by
  the backend reads back through \<open>fetchHistory\<close> as the newest record, equal to
  the written values on every column of the module's schema. In the user-management
  view a confirmed delete removes the user from the list shown next, saving an edit
  with a blank password keeps every stored password, and a registration whose
  validation learning throws is reported as failed although the user was written.
  Settings saved come back on the next load as the spreadsheet typed them (a falsy
  company name as the default, a logo of at most 100 characters dropped); the logo resizing keeps the aspect ratio
  and the width bound but not the height bound. Registration carries no
  authorisation: on every well-formed user table a fresh username registered with
  the role the login view sends opens an Admin session at the next sign-in.
  In the shell the section index stays within \<open>SECTIONS\<close> on every run, and logout keeps
  the previous user's unfinished form, which the next user reaches through a
  notification link. A stroke on the signature pad adds its polyline and saves the
  whole canvas once; a tap on a blank pad saves the data URL of an empty canvas,
  which passes the submission's signature guard, and a stroke made before an
  existing signature has loaded is saved without that picture.
  Decoding inverts \<open>encodeURIComponent\<close>, whose output holds no \<open>&\<close> or
  \<open>=\<close>, so both share links deliver their messages field by field.

  \<^bold>\<open>Environment.\<close> The network is not modelled as a program but as the outcomes
  it delivers: every data-append request resolves, rejects before reaching the
  backend, or rejects after the backend appended the row. A flush takes the list of
  outcomes of its attempts; an attempt beyond the list fails, so every flush
  terminates structurally and no fuel is needed. The date parser behind
  \<open>new Date(..)\<close> is a parameter of the notification pass; requests whose
  results the code ignores (mark read, acknowledge) are logged, not answered.

  \<^bold>\<open>Not modelled.\<close> The backend lock is not modelled (each request runs
  atomically; the script ignores the result of \<open>tryLock\<close>), nor the parsing of the
  stored preferences JSON. The loading flags of the views, the canvas encoding of
  the logo and the clipboard copy of the script are presentation or browser I/O.
  Rendering, the camera capture and PDF reports are user-interface I/O and are left
  out; the AI analysis service is never called by the client; of the signature pad the pixel
  encoding is the parameter \<open>png\<close>, and the scaling between the canvas's 400 by
  160 pixels and its CSS size is not modelled. Scrolling, timers and
  \<open>window.print\<close> change no state the shell model holds.
\<close>

section \<open>Properties across components\<close>

text \<open>A General inspection whose registration number is written with digits only.\<close>

definition demo_truck_form :: form_data where
  "demo_truck_form f = (if f = ''truckNo'' then Str ''1502'' else if f = ''rate'' then Num 2
                        else if f = ''timestamp'' then Str ''2025-01-01''
                        else if f = ''inspectorSignature'' then Str ''sig'' else Undef)"

text \<open>A backend holding two failing General inspections, and the acknowledgement
  of the first.\<close>

definition demo_sheets :: spreadsheet where
  "demo_sheets = [(''General'', [[Str ''id''], demo_row (Num 2),
      [Str ''r2'', Str ''2025-01-01'', Str ''CD 34'', Str [], Str [], Str [], Str [], Str [], Num 1]])]"

definition demo_ack_body :: post_body where
  "demo_ack_body = demo_body [(''action'', Str ''acknowledge_issue''), (''issueId'', Str ''General_0_AB12'')]"

definition demo_cd_alert :: alert where
  "demo_cd_alert = \<lparr>a_id = ''General_0_CD34'', a_title = ''Critical: CD 34'',
     a_message = ''General Check rated 1/5. Urgent attention needed.'',
     a_type = Critical, a_timestamp = Str ''2025-01-01'', a_read = False,
     a_module = ''General'', a_action_link = Undef, a_server = False\<rparr>"


text \<open>
  C26. Schema alignment between writer and readers: for every module, in the header
  row of the sheet the client writes to, the column the notification engine reads the
  rating from is \<open>rate\<close>, its truck column is \<open>truckNo\<close> and its timestamp column
  \<open>timestamp\<close>, and the columns the backend's \<open>updateValidationData\<close> learns from
  are the truck, trailer, driver, inspector and location columns of that schema.
\<close>

theorem schema_alignment:
  "row_get (map Str (snd (sheet_target m))) (rate_index (fst (sheet_target m))) = Str ''rate''
   \<and> truck_cell (map Str (snd (sheet_target m))) = Str ''truckNo''
   \<and> row_get (map Str (snd (sheet_target m))) 1 = Str ''timestamp''
   \<and> validation_fields (fst (sheet_target m)) (map Str (snd (sheet_target m))) =
       [(''Truck_Reg_No'', Str ''truckNo''), (''Trailer_Reg_No'', Str ''trailerNo''),
        (''Driver_Name'', Str ''driverName''), (''Inspector_Name'', Str ''inspectedBy''),
        (''Location'', Str ''location'')]"
  by (simp add: sheet_target_def rate_index_def truck_cell_def validation_fields_def js_or_def
      SHEET_HEADERS_def PETROLEUM_HEADERS_def PETROLEUM_V2_HEADERS_def ACID_HEADERS_def
      tanker_columns_def nth_append)

text \<open>
  C30. Global acknowledgement end to end: after the backend's \<open>acknowledge_issue\<close>
  handler has run on an acknowledgement sheet in the shape the script creates, no
  client notification pass over the next bulk read puts a derived alert with that id
  in the feed, whatever the client's local lists hold.
\<close>

theorem acknowledge_roundtrip:
  assumes "acks_ok ss" and "js_String (b_fields b ''issueId'') \<noteq> ''Issue_ID''"
    and "reconcile c (do_get (snd (handle_acknowledge_issue Str now b ss))) st = Inr feed"
    and "a \<in> set feed" and "a_module a \<in> set inspection_tables"
  shows "a_id a \<noteq> js_String (b_fields b ''issueId'')"
  using ack_listed [OF assms(1,2), of now] reconcile_member [OF assms(3,4)] assms(5)
  by (auto dest!: row_alert_Some system_alerts_server simp: online_alert_def inspection_tables_def)

theorem acknowledge_roundtrip_witness:
  "acks_ok demo_sheets \<and> js_String (b_fields demo_ack_body ''issueId'') \<noteq> ''Issue_ID''
   \<and> reconcile demo_fctx (do_get (snd (handle_acknowledge_issue Str ''t'' demo_ack_body demo_sheets)))
       demo_nstate = Inr [demo_cd_alert]
   \<and> demo_cd_alert \<in> set [demo_cd_alert] \<and> a_module demo_cd_alert \<in> set inspection_tables
   \<and> a_id demo_cd_alert \<noteq> js_String (b_fields demo_ack_body ''issueId'')"
proof -
  have h: "acks_ok demo_sheets" "js_String (b_fields demo_ack_body ''issueId'') \<noteq> ''Issue_ID''"
    "reconcile demo_fctx (do_get (snd (handle_acknowledge_issue Str ''t'' demo_ack_body demo_sheets)))
       demo_nstate = Inr [demo_cd_alert]"
    "demo_cd_alert \<in> set [demo_cd_alert]" "a_module demo_cd_alert \<in> set inspection_tables"
    by code_simp+
  from acknowledge_roundtrip [OF h] h show ?thesis by simp
qed

lemma sheet_target_table: "fst (sheet_target m) \<in> set inspection_tables"
  by (simp add: sheet_target_def inspection_tables_def)

lemma client_payload_build: "client_payload (build_payload m rid fd)"
  using sheet_target_table [of m]
  by (cases "sheet_target m") (simp add: client_payload_def build_payload_def)

lemma stored_row_build:
  "stored_row aty (build_payload m rid fd) =
     map (write_cell aty \<circ> safe_cell \<circ> json_cell \<circ> row_value rid fd) (snd (sheet_target m))"
  by (simp add: stored_row_def build_payload_def split: prod.splits)

lemma delivered_sheet:
  assumes "get_sheet ss (fst (sheet_target m)) \<noteq> Some []"
  obtains base where "base \<noteq> []"
    and "get_sheet (deliver aty now (build_payload m rid fd) ss) (fst (sheet_target m)) =
           Some (base @ [stored_row aty (build_payload m rid fd)])"
proof -
  have ps: "p_sheet (build_payload m rid fd) = fst (sheet_target m)"
    by (simp add: build_payload_def split: prod.splits)
  show ?thesis
    using assms deliver_sheet [OF client_payload_build [of m rid fd], where at = aty and now = now and ss = ss and n = "fst (sheet_target m)"] that
    by (cases "get_sheet ss (fst (sheet_target m))") (auto simp: ps append_row_def)
qed

lemma sheet_target_truck: "2 < length (snd (sheet_target m)) \<and> snd (sheet_target m) ! 2 = ''truckNo''"
  by (simp add: sheet_target_def SHEET_HEADERS_def PETROLEUM_HEADERS_def PETROLEUM_V2_HEADERS_def
      ACID_HEADERS_def tanker_columns_def nth_append)

text \<open>After a delivery, the bulk read of the module's sheet is a table whose last
  row is the stored row, padded to the width of the sheet.\<close>

lemma delivered_view:
  assumes "get_sheet ss (fst (sheet_target m)) \<noteq> Some []"
  obtains rows w
  where "do_get (deliver aty now (build_payload m rid fd) ss) (fst (sheet_target m)) = Some (JRows rows)"
    and "1 < length rows" and "last rows = pad_row w (stored_row aty (build_payload m rid fd))"
proof -
  let ?n = "fst (sheet_target m)" and ?r = "stored_row aty (build_payload m rid fd)"
  obtain base where b: "base \<noteq> []"
    and g: "get_sheet (deliver aty now (build_payload m rid fd) ss) ?n = Some (base @ [?r])"
    using delivered_sheet [OF assms] .
  have tab: "?n \<noteq> ''Users'' \<and> ?n \<noteq> ''Validation_Data'' \<and> ?n \<noteq> ''Acknowledgements''"
    using sheet_target_table [of m] by (auto simp: inspection_tables_def)
  obtain rows where v: "sheet_view ?n (base @ [?r]) = JRows rows" and l: "1 < length rows"
    and lr: "last rows = last (sheet_values (base @ [?r]))"
  proof (rule sheet_view_last)
    show "1 < length (base @ [?r])" using b by (cases base) auto
  qed (use tab in auto)
  have "do_get (deliver aty now (build_payload m rid fd) ss) ?n = Some (JRows rows)"
    using g v tab by (simp add: do_get_def)
  moreover have "last rows = pad_row (width (base @ [?r])) ?r" using lr by (simp add: sheet_values_def)
  ultimately show ?thesis using l that by blast
qed

text \<open>
  C31. The cause of the blinded feed, end to end: when a client's inspection whose
  registration number the spreadsheet types as a non-zero number (as the digit typing
  does with \<open>1502\<close>) has gone through the backend's data append, the client's
  notification pass on the next bulk read throws, whatever the rest of the backend
  and the client's state hold.
\<close>

theorem numeric_registration_end_to_end:
  assumes "get_sheet ss (fst (sheet_target m)) \<noteq> Some []"
    and "fd ''truckNo'' = Str s" and "aty s = Num k" and "k \<noteq> 0"
  shows "reconcile c (do_get (deliver aty now (build_payload m rid fd) ss)) st = Inl Type_error"
proof -
  obtain rows w
    where d: "do_get (deliver aty now (build_payload m rid fd) ss) (fst (sheet_target m)) = Some (JRows rows)"
    and l: "1 < length rows" and lr: "last rows = pad_row w (stored_row aty (build_payload m rid fd))"
    using delivered_view [OF assms(1)] .
  have "row_get (last rows) 2 = Num k"
    using sheet_target_truck [of m] assms(2,3)
    by (simp add: lr row_get_pad_lt stored_row_build row_value_def json_cell_def safe_cell_def write_cell_def)
  moreover have "last rows \<in> set (tl rows)" using l by (cases rows) auto
  ultimately show ?thesis
    using reconcile_bad_truck [where json = "do_get (deliver aty now (build_payload m rid fd) ss)",
        OF sheet_target_table d l] assms(4)
    by (simp add: cell_is_string_def)
qed

theorem numeric_registration_end_to_end_witness:
  "reconcile demo_fctx
     (do_get (deliver digits_autotype ''t'' (build_payload ''general'' ''r1'' demo_truck_form) []))
     demo_nstate = Inl Type_error
   \<and> reconcile demo_fctx
     (do_get (deliver Str ''t'' (build_payload ''general'' ''r1'' demo_truck_form) []))
     demo_nstate \<noteq> Inl Type_error"
proof -
  have h: "get_sheet [] (fst (sheet_target ''general'')) \<noteq> Some []"
    "demo_truck_form ''truckNo'' = Str ''1502''" "digits_autotype ''1502'' = Num 1502" "(1502::int) \<noteq> 0"
    by code_simp+
  have s: "reconcile demo_fctx
     (do_get (deliver Str ''t'' (build_payload ''general'' ''r1'' demo_truck_form) []))
     demo_nstate \<noteq> Inl Type_error" by code_simp
  from numeric_registration_end_to_end [where aty = digits_autotype and fd = demo_truck_form
      and now = "''t''" and rid = "''r1''" and c = demo_fctx and st = demo_nstate, OF h] s
  show ?thesis by simp
qed

text \<open>
  C35. An inspection read back is the inspection written: after the client's payload
  for module \<open>m\<close> has gone through the backend's data append, the next bulk read
  gives \<open>fetchHistory\<close> a non-empty history whose newest record holds, in every
  column of the module's schema, the value the client wrote (as the spreadsheet typed
  it and \<open>safeCell\<close> escaped it), and nothing in any other column. The one condition
  is that the module's sheet is not an existing sheet without even a header row.
\<close>

theorem history_roundtrip:
  assumes "get_sheet ss (fst (sheet_target m)) \<noteq> Some []"
  shows "history_items m (do_get (deliver aty now (build_payload m rid fd) ss)) \<noteq> [] \<and>
         hd (history_items m (do_get (deliver aty now (build_payload m rid fd) ss))) =
         (\<lambda>h. if h \<in> set (snd (sheet_target m))
               then Some (write_cell aty (safe_cell (json_cell (row_value rid fd h)))) else None)"
proof -
  let ?hs = "snd (sheet_target m)" and ?r = "stored_row aty (build_payload m rid fd)"
  obtain rows w
    where d: "do_get (deliver aty now (build_payload m rid fd) ss) (fst (sheet_target m)) = Some (JRows rows)"
    and l: "1 < length rows" and lr: "last rows = pad_row w ?r"
    using delivered_view [OF assms] .
  have "row_item ?hs (last rows) = row_item ?hs ?r"
    using lr row_item_prefix [where hs = ?hs and r = ?r] by (simp add: pad_row_def stored_row_build)
  with d l show ?thesis
    using history_items_hd [where m = m and rows = rows]
    by (simp add: stored_row_build row_item_map comp_def)
qed

theorem history_roundtrip_witness:
  "get_sheet [] (fst (sheet_target ''general'')) \<noteq> Some []
   \<and> hd (history_items ''general''
          (do_get (deliver Str ''t'' (build_payload ''general'' ''r1'' demo_truck_form) [])))
       ''truckNo'' = Some (Str ''1502'')"
proof -
  have h: "get_sheet [] (fst (sheet_target ''general'')) \<noteq> Some []" by (simp add: get_sheet_def)
  have v: "(if ''truckNo'' \<in> set (snd (sheet_target ''general''))
            then Some (write_cell Str (safe_cell (json_cell (row_value ''r1'' demo_truck_form ''truckNo''))))
            else None) = Some (Str ''1502'')"
    by code_simp
  from history_roundtrip [OF h, where aty = Str and now = "''t''" and rid = "''r1''" and fd = demo_truck_form] h v
  show ?thesis by simp
qed

end
